(* ===== verification/Prelude.thy ===== *)
theory Prelude
  imports Main
begin

text \<open>
  Shared vocabulary of the development. The code under \<open>src/\<close> is TypeScript and
  compiled JavaScript; the few built-ins it leans on for its string handling are modelled
  here once, from the ECMAScript semantics, so that every component theory can use them:
  \<^item> \<open>String.prototype.split\<close> with a one-character separator (\<open>js_split\<close>),
  \<^item> \<open>Array.prototype.join\<close> (\<open>js_join\<close>),
  \<^item> \<open>Array.prototype.pop\<close> as a read of the last element that may be \<open>undefined\<close>
    (\<open>js_pop\<close>),
  \<^item> the decimal rendering of a non-negative integer in a template literal
    \<open>`${n}`\<close> (\<open>nat_str\<close>, \<open>js_int_str\<close>).
  The prelude also proves the facts about them the components share: \<open>split\<close> and
  \<open>join\<close> are inverse, the last piece of a split is the text after the last separator,
  and the decimal rendering is injective and uses digits only.
\<close>

named_theorems js_simps "evaluation equations of the JavaScript built-ins"

type_synonym path = string

subsection \<open>\<open>split\<close> and \<open>join\<close>\<close>

text \<open>
  \<open>s.split(c)\<close> cuts \<open>s\<close> at every occurrence of \<open>c\<close>; it never returns an empty
  array (\<open>''.split('/')\<close> is \<open>['']\<close>). \<open>a.join(sep)\<close> glues the pieces back.
\<close>

fun js_split :: "char \<Rightarrow> string \<Rightarrow> string list" where
  "js_split c [] = [[]]"
| "js_split c (x # xs) =
     (if x = c then [] # js_split c xs
      else (case js_split c xs of [] \<Rightarrow> [[x]] | w # ws \<Rightarrow> (x # w) # ws))"

fun js_join :: "string \<Rightarrow> string list \<Rightarrow> string" where
  "js_join sep [] = []"
| "js_join sep [w] = w"
| "js_join sep (w # v # ws) = w @ sep @ js_join sep (v # ws)"

text \<open>\<open>a.pop()\<close> is \<open>undefined\<close> on an empty array; \<open>None\<close> models \<open>undefined\<close>.\<close>

definition js_pop :: "'a list \<Rightarrow> 'a option" where
  "js_pop xs = (if xs = [] then None else Some (last xs))"

text \<open>\<open>s.lastIndexOf(c)\<close> for a one-character \<open>c\<close>: the index of the last occurrence,
  \<open>-1\<close> when there is none.\<close>

definition js_lastIndexOf :: "char \<Rightarrow> string \<Rightarrow> int" where
  "js_lastIndexOf c s =
     (let idx = filter (\<lambda>i. s ! i = c) [0..<length s] in if idx = [] then -1 else int (last idx))"

subsection \<open>Decimal rendering of numbers\<close>

text \<open>
  A template literal \<open>`${n}`\<close> renders a non-negative integer in decimal without
  leading zeros; a negative one gets a minus sign. The digit \<open>d\<close> is the character
  with code \<open>48 + d\<close>, written as a lookup in \<open>''0123456789''\<close> so that the
  simplifier evaluates it.
\<close>

definition digit_char :: "nat \<Rightarrow> char" where
  "digit_char d = ''0123456789'' ! d"

fun nat_str :: "nat \<Rightarrow> string" where
  "nat_str n = (if n < 10 then [digit_char n] else nat_str (n div 10) @ [digit_char (n mod 10)])"

definition js_int_str :: "int \<Rightarrow> string" where
  "js_int_str v = (if v < 0 then CHR ''-'' # nat_str (nat (- v)) else nat_str (nat v))"

definition dec_digit :: "char \<Rightarrow> bool" where
  "dec_digit ch \<longleftrightarrow> (48::nat) \<le> of_char ch \<and> of_char ch < (58::nat)"

definition digits_val :: "string \<Rightarrow> nat" where
  "digits_val s = foldl (\<lambda>acc ch. 10 * acc + (of_char ch - 48)) 0 s"

subsection \<open>TypeScript enums\<close>

text \<open>
  A numeric TypeScript enum also maps each value back to a member name: the compiled
  object gets \<open>E[E.A = v] = "A"\<close> for every member in declaration order, so for a
  value shared by two members the later one wins. \<open>ts_enum_reverse code members v\<close>
  is \<open>E[v]\<close> read as a member (\<open>None\<close> for \<open>undefined\<close>).
\<close>

definition ts_enum_reverse :: "('a \<Rightarrow> 'k) \<Rightarrow> 'a list \<Rightarrow> 'k \<Rightarrow> 'a option" where
  "ts_enum_reverse code members v = find (\<lambda>m. code m = v) (rev members)"

subsection \<open>Settled promises\<close>

text \<open>
  An \<open>async\<close> function that changes state settles with the state it has reached and,
  when it rejects, the reason: \<open>(None, s)\<close> is fulfilment, \<open>(Some err, s)\<close> a rejection
  after the effects that led to \<open>s\<close>. \<open>js_then\<close> is \<open>await\<close> of such a call inside
  another: a rejection skips the rest of the caller.
\<close>

definition js_then :: "'e option \<times> 's \<Rightarrow> ('s \<Rightarrow> 'e option \<times> 's) \<Rightarrow> 'e option \<times> 's" where
  "js_then r f = (case fst r of None \<Rightarrow> f (snd r) | Some _ \<Rightarrow> r)"

declare js_split.simps [js_simps] js_join.simps [js_simps] js_pop_def [js_simps] digit_char_def [js_simps]
declare nat_str.simps [simp del]

subsection \<open>Facts about the built-ins\<close>

lemma js_split_not_Nil [simp]: "js_split c s \<noteq> []"
  by (induction s) (auto split: list.split)

lemma js_pop_Some [simp]: "xs \<noteq> [] \<Longrightarrow> js_pop xs = Some (last xs)"
  by (simp add: js_pop_def)

lemma js_join_Cons_Cons: "js_join sep ((x # w) # ws) = x # js_join sep (w # ws)"
  by (cases ws) simp_all

lemma js_join_Cons: "ws \<noteq> [] \<Longrightarrow> js_join sep (w # ws) = w @ sep @ js_join sep ws"
  by (cases ws) simp_all

lemma js_join_snoc: "ws \<noteq> [] \<Longrightarrow> js_join sep (ws @ [w]) = js_join sep ws @ sep @ w"
proof (induction ws)
  case Nil
  then show ?case by simp
next
  case (Cons v ws)
  then show ?case by (cases ws) simp_all
qed

lemma js_join_split [simp]: "js_join [c] (js_split c s) = s"
proof (induction s)
  case Nil
  then show ?case by simp
next
  case (Cons x xs)
  show ?case
  proof (cases "x = c")
    case True
    with Cons show ?thesis by (simp add: js_join_Cons)
  next
    case False
    then obtain w ws where "js_split c xs = w # ws"
      by (cases "js_split c xs") simp_all
    with False Cons show ?thesis by (simp add: js_join_Cons_Cons)
  qed
qed

lemma js_split_sep_free: "w \<in> set (js_split c s) \<Longrightarrow> c \<notin> set w"
proof (induction s arbitrary: w)
  case Nil
  then show ?case by simp
next
  case (Cons x xs)
  then show ?case by (auto split: if_splits list.splits)
qed

lemma js_split_no_sep: "c \<notin> set s \<Longrightarrow> js_split c s = [s]"
  by (induction s) auto

lemma js_split_append: "c \<notin> set w \<Longrightarrow> js_split c (w @ c # rest) = w # js_split c rest"
  by (induction w) auto

lemma js_split_join:
  "ws \<noteq> [] \<Longrightarrow> \<forall>w \<in> set ws. c \<notin> set w \<Longrightarrow> js_split c (js_join [c] ws) = ws"
proof (induction ws)
  case Nil
  then show ?case by simp
next
  case (Cons w ws)
  show ?case
  proof (cases ws)
    case Nil
    with Cons.prems show ?thesis by (simp add: js_split_no_sep)
  next
    case (Cons v vs)
    with Cons.IH Cons.prems show ?thesis by (simp add: js_split_append)
  qed
qed

lemma length_js_split: "length (js_split c s) = Suc (count_list s c)"
  by (induction s) (auto split: list.split)

lemma js_split_butlast_not_Nil: "c \<in> set s \<Longrightarrow> butlast (js_split c s) \<noteq> []"
proof -
  assume "c \<in> set s"
  then have "0 < count_list s c" by (metis count_list_0_iff gr0I)
  then have "2 \<le> length (js_split c s)" by (simp add: length_js_split)
  then show ?thesis by (cases "js_split c s" rule: rev_cases) auto
qed

text \<open>
  The last piece of a split is the text after the last separator, and the pieces before
  it, joined, are the text before it.
\<close>

lemma js_split_last_decomp:
  assumes "c \<in> set s"
  shows "js_join [c] (butlast (js_split c s)) @ c # last (js_split c s) = s"
proof -
  have ne: "butlast (js_split c s) \<noteq> []"
    using assms by (rule js_split_butlast_not_Nil)
  have "js_split c s = butlast (js_split c s) @ [last (js_split c s)]"
    by simp
  then have "s = js_join [c] (butlast (js_split c s) @ [last (js_split c s)])"
    by (metis js_join_split)
  also have "\<dots> = js_join [c] (butlast (js_split c s)) @ c # last (js_split c s)"
    using js_join_snoc [OF ne, of "[c]" "last (js_split c s)"] by simp
  finally show ?thesis by simp
qed

lemma js_split_last_sep_free: "c \<notin> set (last (js_split c s))"
  by (rule js_split_sep_free, rule last_in_set) simp

lemma nat_str_small [js_simps]: "n < 10 \<Longrightarrow> nat_str n = [digit_char n]"
  by (simp add: nat_str.simps)

lemma nat_str_big [js_simps]:
  "\<not> n < 10 \<Longrightarrow> nat_str n = nat_str (n div 10) @ [digit_char (n mod 10)]"
  by (subst nat_str.simps) simp

lemma of_char_digit_char [simp]: "d < 10 \<Longrightarrow> of_char (digit_char d) = (48 + d :: nat)"
  by (auto simp: digit_char_def less_Suc_eq numeral_eq_Suc)

lemma digits_val_nat_str [simp]: "digits_val (nat_str n) = n"
proof (induction n rule: nat_str.induct)
  case (1 n)
  show ?case
  proof (cases "n < 10")
    case True
    then show ?thesis by (simp add: nat_str_small digits_val_def)
  next
    case False
    with "1.IH" have "digits_val (nat_str (n div 10)) = n div 10" by simp
    with False show ?thesis by (simp add: nat_str_big digits_val_def)
  qed
qed

lemma nat_str_inj [simp]: "nat_str m = nat_str n \<longleftrightarrow> m = n"
  by (metis digits_val_nat_str)

lemma nat_str_not_Nil [simp]: "nat_str n \<noteq> []"
  by (cases "n < 10") (simp_all add: nat_str_small nat_str_big)

lemma nat_str_digits: "ch \<in> set (nat_str n) \<Longrightarrow> dec_digit ch"
proof (induction n rule: nat_str.induct)
  case (1 n)
  show ?case
  proof (cases "n < 10")
    case True
    with "1.prems" show ?thesis by (simp add: nat_str_small dec_digit_def)
  next
    case False
    with "1.prems" "1.IH" show ?thesis by (auto simp: nat_str_big dec_digit_def)
  qed
qed

lemma nat_str_no_nondigit: "\<not> dec_digit ch \<Longrightarrow> ch \<notin> set (nat_str n)"
  using nat_str_digits by blast

lemma js_int_str_nonneg [simp]: "0 \<le> v \<Longrightarrow> js_int_str v = nat_str (nat v)"
  by (simp add: js_int_str_def)

lemma find_code_distinct:
  "distinct (map code xs) \<Longrightarrow> m \<in> set xs \<Longrightarrow> find (\<lambda>x. code x = code m) xs = Some m"
  by (induction xs) (auto simp: image_iff)

lemma find_SomeD: "find P xs = Some x \<Longrightarrow> P x \<and> x \<in> set xs"
  by (induction xs) (auto split: if_splits)

lemma ts_enum_reverse_code:
  "distinct (map code members) \<Longrightarrow> m \<in> set members \<Longrightarrow>
   ts_enum_reverse code members (code m) = Some m"
  unfolding ts_enum_reverse_def by (rule find_code_distinct) (simp_all add: rev_map [symmetric])

lemma ts_enum_reverse_Some:
  "ts_enum_reverse code members v = Some m \<Longrightarrow> code m = v \<and> m \<in> set members"
  unfolding ts_enum_reverse_def by (drule find_SomeD) simp

lemma ts_enum_reverse_None:
  "ts_enum_reverse code members v = None \<longleftrightarrow> v \<notin> code ` set members"
  by (auto simp: ts_enum_reverse_def find_None_iff)

lemma ts_enum_reverse_iff:
  "distinct (map code members) \<Longrightarrow> m \<in> set members \<Longrightarrow>
   ts_enum_reverse code members v = Some m \<longleftrightarrow> code m = v"
  using ts_enum_reverse_code ts_enum_reverse_Some by metis

lemma js_then_ok [simp]: "js_then (None, s) f = f s"
  by (simp add: js_then_def)

lemma js_then_err [simp]: "js_then (Some err, s) f = (Some err, s)"
  by (simp add: js_then_def)

lemma js_lastIndexOf_none: "c \<notin> set s \<Longrightarrow> js_lastIndexOf c s = -1"
  by (auto simp: js_lastIndexOf_def filter_empty_conv in_set_conv_nth)

lemma js_lastIndexOf_last:
  assumes "c \<notin> set b"
  shows "js_lastIndexOf c (a @ c # b) = int (length a)"
proof -
  let ?s = "a @ c # b"
  have "[0..<length ?s] = [0..<length a] @ [length a..<length ?s]"
    using upt_add_eq_append [of 0 "length a" "Suc (length b)"] by (simp del: upt_Suc)
  then have split: "[0..<length ?s] = [0..<length a] @ [length a] @ [Suc (length a)..<length ?s]"
    by (simp add: upt_conv_Cons del: upt_Suc)
  have "filter (\<lambda>i. ?s ! i = c) [Suc (length a)..<length ?s] = []"
  proof (rule filter_False, clarify)
    fix i assume "i \<in> set [Suc (length a)..<length ?s]" "?s ! i = c"
    then have i: "Suc (length a) \<le> i" "i < length ?s" by (simp_all del: upt_Suc)
    then obtain k where k: "i = Suc (length a) + k" by (metis le_add_diff_inverse)
    then have "?s ! i = b ! k" "k < length b" using i by (simp_all add: nth_append)
    with \<open>?s ! i = c\<close> assms show False by (metis nth_mem)
  qed
  then show ?thesis
    unfolding js_lastIndexOf_def Let_def split by (simp del: upt_Suc)
qed

end
