(* ===== verification/Backup.thy ===== *)
theory Backup
  imports Prelude
begin

text \<open>
  The restore path of the media backup extension,
  \<open>src/frameworks/innerkitsimpl/medialibrary_data_extension/MediaLibraryExt/entry/src/main/ets/MediaBackupExtensionAbility/MediaBackupExtensionAbility.ts\<close>
  (class \<open>MediaBackupExtAbility\<close>). The file system and the native restore service are
  the environment: a record \<open>world\<close> holds the set of existing paths, the answers the
  platform gives (which \<open>accessSync\<close> or \<open>moveFile\<close> calls throw, what \<open>moveDir\<close>
  does), the trace of every platform call the code makes and the \<open>console.error\<close>
  trail. The code's operations are state-passing functions on it:
  \<^item> \<open>isFileExist\<close> (lines 40--47): \<open>accessSync\<close> with its exception caught;
  \<^item> the name computations of \<open>moveConflictFile\<close> (lines 74--86, 90--94):
    \<open>srcFileName_of\<close>, \<open>dirPath_of\<close>, \<open>split_ext\<close>, \<open>next_name\<close>;
  \<^item> its probing loop (lines 87--96) as \<open>probe_loop\<close>, a \<^theory_text>\<open>partial_function\<close>
    in the option monad, since the loop stops only when a free name is found;
  \<^item> \<open>moveConflictFile\<close> (lines 73--102), the conflict loop of \<open>moveRestFiles\<close>
    (lines 64--70) as \<open>move_conflicts\<close>, \<open>moveRestFiles\<close> (lines 49--71) and
    \<open>onRestore\<close> (lines 23--38).
  The lemmas show the loop terminates on a finite directory, name exactly the sequence of
  paths it probes and the file it moves, and prove that the batch handles every conflict in
  order, never overwrites an existing file when existence checks succeed, and keeps the
  number of files.
\<close>

subsection \<open>Constants of the module\<close>

definition backupPath :: path where
  "backupPath = ''/data/storage/el2/backup/restore/''"

definition backupClonePath :: path where
  "backupClonePath = ''/data/storage/el2/backup/restore/storage/cloud/files/''"

definition documentPath :: path where
  "documentPath = ''/storage/media/local/files/Docs/Documents''"

definition galleryAppName :: string where
  "galleryAppName = ''com.huawei.photos''"

definition mediaAppName :: string where
  "mediaAppName = ''com.android.providers.media.module''"

definition cameraAppName :: string where
  "cameraAppName = ''com.huawei.camera''"

definition UPDATE_RESTORE :: int where
  "UPDATE_RESTORE = 0"

definition CLONE_RESTORE :: int where
  "CLONE_RESTORE = 1"

definition MOVE_ERR_CODE :: int where
  "MOVE_ERR_CODE = 13900015"

subsection \<open>The environment\<close>

text \<open>
  A platform error carries a code and a message. The conflict list of a rejected
  \<open>moveDir\<close> is \<open>err.data\<close>: an array of \<open>{srcFile, destFile}\<close>, or
  \<open>undefined\<close> (\<open>None\<close>).
\<close>

record fs_error =
  err_code :: int
  err_message :: string

record conflict_files =
  srcFile :: path
  destFile :: path

datatype dir_result = DirMoved | DirFailed fs_error "conflict_files list option"

datatype log_entry =
    LogAccessFailed fs_error
  | LogMoveDirFailed fs_error
  | LogMoveFileFailed fs_error

datatype fs_call =
    StartRestoreCall int string string string
  | MoveDirCall path path int
  | AccessCall path
  | MoveFileCall path path

text \<open>
  The platform's behaviour is part of the world and no operation of the code changes it:
  \<open>fs_access_err p\<close> is the error \<open>accessSync(p)\<close> throws, \<open>fs_move_err s d\<close> the
  error \<open>moveFile(s, d)\<close> throws for reasons other than a missing source,
  \<open>fs_dir_mover\<close> the result of \<open>moveDir\<close> on a set of existing paths, and
  \<open>fs_restore_err t\<close> the rejection of \<open>startRestore\<close> for restore type \<open>t\<close>.
\<close>

record world =
  fs_present :: "path set"
  fs_access_err :: "path \<Rightarrow> fs_error option"
  fs_move_err :: "path \<Rightarrow> path \<Rightarrow> fs_error option"
  fs_dir_mover :: "path set \<Rightarrow> path \<Rightarrow> path \<Rightarrow> int \<Rightarrow> path set \<times> dir_result"
  fs_restore_err :: "int \<Rightarrow> fs_error option"
  fs_calls :: "fs_call list"
  console_log :: "log_entry list"

text \<open>An exception that escapes \<open>onRestore\<close> rejects its promise.\<close>

datatype js_error = TypeError | Rejected fs_error

record bundle_version =
  bv_name :: string
  bv_code :: int

text \<open>
  The platform primitives, as the code's contract with them (spec section 6):
  \<open>fs.accessSync\<close>, \<open>fs.moveFile\<close> (which fails with \<open>ENOENT\<close>, code 13900002,
  when the source is missing, and otherwise replaces the destination), \<open>fs.moveDir\<close>
  and \<open>mediabackup.startRestore\<close>. Each records its call in the trace.
\<close>

definition ENOENT :: fs_error where
  "ENOENT = \<lparr>err_code = 13900002, err_message = ''No such file or directory''\<rparr>"

definition fs_accessSync :: "world \<Rightarrow> path \<Rightarrow> world \<times> (fs_error + bool)" where
  "fs_accessSync w p =
     (w\<lparr>fs_calls := fs_calls w @ [AccessCall p]\<rparr>,
      case fs_access_err w p of Some e \<Rightarrow> Inl e | None \<Rightarrow> Inr (p \<in> fs_present w))"

definition fs_moveFile :: "world \<Rightarrow> path \<Rightarrow> path \<Rightarrow> world \<times> fs_error option" where
  "fs_moveFile w src dst =
     (let w' = w\<lparr>fs_calls := fs_calls w @ [MoveFileCall src dst]\<rparr> in
      case fs_move_err w src dst of
        Some e \<Rightarrow> (w', Some e)
      | None \<Rightarrow>
          if src \<in> fs_present w
          then (w'\<lparr>fs_present := insert dst (fs_present w - {src})\<rparr>, None)
          else (w', Some ENOENT))"

definition fs_moveDir :: "world \<Rightarrow> path \<Rightarrow> path \<Rightarrow> int \<Rightarrow> world \<times> dir_result" where
  "fs_moveDir w src dst mode =
     (case fs_dir_mover w (fs_present w) src dst mode of
        (P, r) \<Rightarrow> (w\<lparr>fs_present := P, fs_calls := fs_calls w @ [MoveDirCall src dst mode]\<rparr>, r))"

definition startRestore :: "world \<Rightarrow> int \<Rightarrow> string \<Rightarrow> string \<Rightarrow> string \<Rightarrow> world \<times> fs_error option" where
  "startRestore w t g m c =
     (w\<lparr>fs_calls := fs_calls w @ [StartRestoreCall t g m c]\<rparr>, fs_restore_err w t)"

subsection \<open>The code\<close>

text \<open>\<open>isFileExist\<close>: an exception of \<open>accessSync\<close> is logged and read as "absent".\<close>

definition isFileExist :: "world \<Rightarrow> path \<Rightarrow> world \<times> bool" where
  "isFileExist w filePath =
     (case fs_accessSync w filePath of
        (w', Inr b) \<Rightarrow> (w', b)
      | (w', Inl e) \<Rightarrow> (w'\<lparr>console_log := console_log w' @ [LogAccessFailed e]\<rparr>, False))"

text \<open>
  The name computations of \<open>moveConflictFile\<close>: the last segment of the source path,
  the destination path without its last segment, and the split of the file name at its
  last dot into \<open>(fileNameWithoutExt, fileExt)\<close>.
\<close>

definition srcFileName_of :: "path \<Rightarrow> string" where
  "srcFileName_of srcPath = (let srcArr = js_split CHR ''/'' srcPath in srcArr ! (length srcArr - 1))"

definition dirPath_of :: "path \<Rightarrow> path" where
  "dirPath_of dstFile = (let dstArr = js_split CHR ''/'' dstFile in js_join ''/'' (take (length dstArr - 1) dstArr))"

definition split_ext :: "string \<Rightarrow> string \<times> string" where
  "split_ext srcFileName =
     (if CHR ''.'' \<in> set srcFileName
      then (case js_pop (js_split CHR ''.'' srcFileName) of
              None \<Rightarrow> (srcFileName, [])
            | Some tmpValue \<Rightarrow>
                (take (length srcFileName - length tmpValue - 1) srcFileName, tmpValue))
      else (srcFileName, []))"

definition next_name :: "string \<Rightarrow> string \<Rightarrow> nat \<Rightarrow> string" where
  "next_name fileNameWithoutExt fileExt count =
     (if fileExt = []
      then fileNameWithoutExt @ ''('' @ nat_str count @ '')''
      else fileNameWithoutExt @ ''('' @ nat_str count @ '').'' @ fileExt)"

text \<open>
  The probing loop: while \<open>dirPath/newFileName\<close> exists, take the next name. The
  loop ends only when a probe answers "absent"; \<open>None\<close> is a loop that runs forever.
\<close>

partial_function (option) probe_loop ::
  "world \<Rightarrow> path \<Rightarrow> string \<Rightarrow> string \<Rightarrow> string \<Rightarrow> nat \<Rightarrow> (world \<times> string) option" where
  "probe_loop w dirPath fileNameWithoutExt fileExt newFileName count =
     (case isFileExist w (dirPath @ ''/'' @ newFileName) of
        (w', ex) \<Rightarrow>
          if ex then probe_loop w' dirPath fileNameWithoutExt fileExt
                       (next_name fileNameWithoutExt fileExt count) (Suc count)
          else Some (w', newFileName))"

declare probe_loop.simps [code]

text \<open>The final \<open>moveFile\<close> of \<open>moveConflictFile\<close>, its exception logged.\<close>

definition move_logged :: "world \<Rightarrow> path \<Rightarrow> path \<Rightarrow> world" where
  "move_logged w src dst =
     (case fs_moveFile w src dst of
        (w', None) \<Rightarrow> w'
      | (w', Some e) \<Rightarrow> w'\<lparr>console_log := console_log w' @ [LogMoveFileFailed e]\<rparr>)"

definition moveConflictFile :: "world \<Rightarrow> path \<Rightarrow> path \<Rightarrow> world option" where
  "moveConflictFile w srcPath dstFile =
     (let srcFileName = srcFileName_of srcPath;
          dirPath = dirPath_of dstFile;
          (fileNameWithoutExt, fileExt) = split_ext srcFileName
      in map_option (\<lambda>(w', newFileName). move_logged w' srcPath (dirPath @ ''/'' @ newFileName))
           (probe_loop w dirPath fileNameWithoutExt fileExt srcFileName 1))"

text \<open>
  The conflict loop of \<open>moveRestFiles\<close>. Its \<open>catch\<close> never fires: every exception
  inside \<open>moveConflictFile\<close> is caught there.
\<close>

fun move_conflicts :: "world \<Rightarrow> conflict_files list \<Rightarrow> world option" where
  "move_conflicts w [] = Some w"
| "move_conflicts w (c # cs) =
     (case moveConflictFile w (srcFile c) (destFile c) of
        None \<Rightarrow> None
      | Some w' \<Rightarrow> move_conflicts w' cs)"

text \<open>
  \<open>moveRestFiles\<close>: the bulk move, then the conflict list; a conflict error without
  \<open>data\<close> leaves \<open>list\<close> undefined and \<open>list.length\<close> throws.
\<close>

definition moveRestFiles :: "world \<Rightarrow> path \<Rightarrow> (js_error + world) option" where
  "moveRestFiles w path =
     (let (w1, list) =
        (case fs_moveDir w path documentPath 1 of
           (w', DirMoved) \<Rightarrow> (w', Some [])
         | (w', DirFailed e data) \<Rightarrow>
             if err_code e = MOVE_ERR_CODE then (w', data)
             else (w'\<lparr>console_log := console_log w' @ [LogMoveDirFailed e]\<rparr>, Some []))
      in case list of
           None \<Rightarrow> Some (Inl TypeError)
         | Some l \<Rightarrow> map_option Inr (move_conflicts w1 l))"

definition restore_mode :: "bundle_version \<Rightarrow> int \<times> path" where
  "restore_mode bundleVersion =
     (if bv_name bundleVersion = ''0.0.0.0'' \<and> bv_code bundleVersion = 0
      then (UPDATE_RESTORE, backupPath) else (CLONE_RESTORE, backupClonePath))"

definition onRestore :: "world \<Rightarrow> bundle_version \<Rightarrow> (js_error + world) option" where
  "onRestore w bundleVersion =
     (case restore_mode bundleVersion of
        (t, path) \<Rightarrow>
          (case startRestore w t galleryAppName mediaAppName cameraAppName of
             (w', Some e) \<Rightarrow> Some (Inl (Rejected e))
           | (w', None) \<Rightarrow> moveRestFiles w' path))"

subsection \<open>Vocabulary of the specification\<close>

text \<open>
  \<open>probe_name n k\<close> is the \<open>k\<close>-th name the loop of \<open>moveConflictFile\<close> tries
  for the file name \<open>n\<close>: \<open>n\<close> itself, then \<open>next_name\<close> with count 1, 2, \ldots
  \<open>probe_free w p\<close> says that \<open>isFileExist\<close> answers "absent" for \<open>p\<close>: the path is
  missing or \<open>accessSync\<close> throws on it. \<open>access_calls\<close> is the trace of a run of
  probes, and \<open>move_srcs\<close> reads the sources of the \<open>moveFile\<close> calls off a trace.
\<close>

definition probe_name :: "string \<Rightarrow> nat \<Rightarrow> string" where
  "probe_name n k = (case split_ext n of (b, e) \<Rightarrow> if k = 0 then n else next_name b e k)"

definition probe_free :: "world \<Rightarrow> path \<Rightarrow> bool" where
  "probe_free w p \<longleftrightarrow> fs_access_err w p \<noteq> None \<or> p \<notin> fs_present w"

definition access_calls :: "path \<Rightarrow> string \<Rightarrow> nat list \<Rightarrow> fs_call list" where
  "access_calls dir n ks = map (\<lambda>k. AccessCall (dir @ ''/'' @ probe_name n k)) ks"

definition same_env :: "world \<Rightarrow> world \<Rightarrow> bool" where
  "same_env w w' \<longleftrightarrow>
     fs_access_err w' = fs_access_err w \<and> fs_move_err w' = fs_move_err w \<and>
     fs_dir_mover w' = fs_dir_mover w \<and> fs_restore_err w' = fs_restore_err w"

fun move_srcs :: "fs_call list \<Rightarrow> path list" where
  "move_srcs [] = []"
| "move_srcs (MoveFileCall s d # cs) = s # move_srcs cs"
| "move_srcs (_ # cs) = move_srcs cs"

subsection \<open>Sample environments\<close>

text \<open>
  Concrete worlds used by the witnesses below: the scenario of the specification's
  section 8 (\<open>/b/x.jpg\<close> exists, \<open>/b/y.png\<close> does not), and a world in which
  \<open>accessSync\<close> fails on an existing destination.
\<close>

definition sample_error :: fs_error where
  "sample_error = \<lparr>err_code = 13900012, err_message = ''Permission denied''\<rparr>"

definition spec_conflicts :: "conflict_files list" where
  "spec_conflicts =
     [\<lparr>srcFile = ''/a/x.jpg'', destFile = ''/b/x.jpg''\<rparr>,
      \<lparr>srcFile = ''/a/y.png'', destFile = ''/b/y.png''\<rparr>]"

definition spec_world :: world where
  "spec_world =
     \<lparr>fs_present = {''/a/x.jpg'', ''/a/y.png'', ''/b/x.jpg''},
      fs_access_err = (\<lambda>_. None),
      fs_move_err = (\<lambda>_ _. None),
      fs_dir_mover = (\<lambda>P _ _ _. (P, DirFailed \<lparr>err_code = 13900015, err_message = ''File exists''\<rparr>
                                         (Some spec_conflicts))),
      fs_restore_err = (\<lambda>_. None),
      fs_calls = [], console_log = []\<rparr>"

definition overwrite_world :: world where
  "overwrite_world =
     \<lparr>fs_present = {''/a/x.jpg'', ''/b/x.jpg''},
      fs_access_err = (\<lambda>p. if p = ''/b/x.jpg'' then Some sample_error else None),
      fs_move_err = (\<lambda>_ _. None),
      fs_dir_mover = (\<lambda>P _ _ _. (P, DirMoved)),
      fs_restore_err = (\<lambda>_. None),
      fs_calls = [], console_log = []\<rparr>"

subsection \<open>The name computations\<close>

lemma srcFileName_of_last: "srcFileName_of s = last (js_split CHR ''/'' s)"
  by (simp add: srcFileName_of_def Let_def last_conv_nth)

lemma dirPath_of_butlast: "dirPath_of d = js_join ''/'' (butlast (js_split CHR ''/'' d))"
  by (simp add: dirPath_of_def Let_def butlast_conv_take)

lemma split_ext_no_dot: "CHR ''.'' \<notin> set n \<Longrightarrow> split_ext n = (n, [])"
  by (simp add: split_ext_def)

lemma split_ext_dot:
  assumes "CHR ''.'' \<in> set n"
  shows "split_ext n = (js_join ''.'' (butlast (js_split CHR ''.'' n)), last (js_split CHR ''.'' n))"
proof -
  obtain pre e where pre: "pre = js_join ''.'' (butlast (js_split CHR ''.'' n))"
    and e: "e = last (js_split CHR ''.'' n)" by blast
  have n: "n = pre @ CHR ''.'' # e"
    using js_split_last_decomp [OF assms] by (simp add: pre e)
  have "take (length n - length e - 1) n = pre"
    using n by simp
  with assms show ?thesis by (simp add: split_ext_def pre e)
qed

lemma not_dec_digit_paren [simp]: "\<not> dec_digit CHR '')''" "\<not> dec_digit CHR ''(''"
  by (simp_all add: dec_digit_def)

lemma next_name_inj [simp]: "next_name b e i = next_name b e j \<longleftrightarrow> i = j"
proof
  assume eq: "next_name b e i = next_name b e j"
  have "nat_str i @ CHR '')'' # (if e = [] then [] else CHR ''.'' # e) =
        nat_str j @ CHR '')'' # (if e = [] then [] else CHR ''.'' # e)"
    using eq by (cases "e = []") (simp_all add: next_name_def)
  then have "nat_str i = nat_str j"
    by (simp add: append_Cons_eq_iff nat_str_no_nondigit)
  then show "i = j" by simp
qed simp

lemma next_name_not_src:
  assumes "split_ext n = (b, e)"
  shows "next_name b e k \<noteq> n"
proof (cases "CHR ''.'' \<in> set n")
  case True
  then have "n = b @ CHR ''.'' # e"
    using assms js_split_last_decomp [OF True] by (simp add: split_ext_dot)
  then show ?thesis by (cases "e = []") (auto simp: next_name_def)
next
  case False
  then have "b = n" "e = []" using assms by (simp_all add: split_ext_no_dot)
  then show ?thesis by (simp add: next_name_def)
qed

lemma probe_name_0 [simp]: "probe_name n 0 = n"
  by (simp add: probe_name_def split: prod.split)

lemma probe_name_Suc:
  "split_ext n = (b, e) \<Longrightarrow> probe_name n (Suc k) = next_name b e (Suc k)"
  by (simp add: probe_name_def)

lemma probe_name_inj [simp]: "probe_name n i = probe_name n j \<longleftrightarrow> i = j"
proof -
  obtain b e where be: "split_ext n = (b, e)" by (cases "split_ext n")
  have "next_name b e k \<noteq> n" for k using be by (rule next_name_not_src)
  then show ?thesis using be
    by (cases i; cases j) (auto simp: probe_name_Suc dest: sym)
qed

lemma inj_probe_path: "inj (\<lambda>k. dir @ ''/'' @ probe_name n k)"
  by (rule injI) simp

lemma first_free_exists:
  assumes "finite (fs_present w)"
  shows "\<exists>j. probe_free w (dir @ ''/'' @ probe_name n j) \<and>
             (\<forall>i<j. \<not> probe_free w (dir @ ''/'' @ probe_name n i))"
proof -
  let ?f = "\<lambda>k. dir @ ''/'' @ probe_name n k"
  have "finite (?f -` fs_present w)"
    using assms inj_probe_path by (rule finite_vimageI)
  then obtain j where "j \<notin> ?f -` fs_present w"
    using infinite_UNIV_nat by (metis UNIV_I ex_new_if_finite)
  then have "\<exists>j. probe_free w (?f j)" by (auto simp: probe_free_def)
  then show ?thesis by (rule exists_least_iff [THEN iffD1])
qed

subsection \<open>The probing loop\<close>

lemma isFileExist_eq:
  "isFileExist w p =
     (case fs_access_err w p of
        Some e \<Rightarrow> (w\<lparr>fs_calls := fs_calls w @ [AccessCall p],
                     console_log := console_log w @ [LogAccessFailed e]\<rparr>, False)
      | None \<Rightarrow> (w\<lparr>fs_calls := fs_calls w @ [AccessCall p]\<rparr>, p \<in> fs_present w))"
  by (simp add: isFileExist_def fs_accessSync_def split: option.split)

lemma isFileExist_answer: "snd (isFileExist w p) \<longleftrightarrow> \<not> probe_free w p"
  by (simp add: isFileExist_eq probe_free_def split: option.split)

lemma isFileExist_busy:
  "\<not> probe_free w p \<Longrightarrow> isFileExist w p = (w\<lparr>fs_calls := fs_calls w @ [AccessCall p]\<rparr>, True)"
  by (auto simp: isFileExist_eq probe_free_def)

lemma probe_loop_free:
  "probe_free w (dir @ ''/'' @ name) \<Longrightarrow>
   probe_loop w dir b e name c = Some (fst (isFileExist w (dir @ ''/'' @ name)), name)"
proof -
  assume free: "probe_free w (dir @ ''/'' @ name)"
  obtain w' x where eq: "isFileExist w (dir @ ''/'' @ name) = (w', x)" by fastforce
  with free have "\<not> x" using isFileExist_answer [of w "dir @ ''/'' @ name"] by simp
  with eq show ?thesis by (subst probe_loop.simps) simp
qed

lemma probe_loop_busy:
  "\<not> probe_free w (dir @ ''/'' @ name) \<Longrightarrow>
   probe_loop w dir b e name c =
     probe_loop (w\<lparr>fs_calls := fs_calls w @ [AccessCall (dir @ ''/'' @ name)]\<rparr>) dir b e
       (next_name b e c) (Suc c)"
  by (subst probe_loop.simps) (simp add: isFileExist_busy)

text \<open>Changing only the trace does not change the answers of the environment.\<close>

lemma probe_free_calls [simp]: "probe_free (w\<lparr>fs_calls := cs\<rparr>) p = probe_free w p"
  by (simp add: probe_free_def)

lemma probe_loop_trace:
  assumes be: "split_ext n = (b, e)"
    and stop: "probe_free w (dir @ ''/'' @ probe_name n j)"
    and busy: "\<forall>i\<in>{k..<j}. \<not> probe_free w (dir @ ''/'' @ probe_name n i)"
    and kj: "k \<le> j"
  shows "probe_loop w dir b e (probe_name n k) (Suc k) =
           Some (fst (isFileExist (w\<lparr>fs_calls := fs_calls w @ access_calls dir n [k..<j]\<rparr>)
                        (dir @ ''/'' @ probe_name n j)),
                 probe_name n j)"
  using stop busy kj
proof (induction "j - k" arbitrary: k w)
  case 0
  then have "k = j" by simp
  with "0.prems"(1) show ?case
    by (simp add: probe_loop_free access_calls_def)
next
  case (Suc d)
  then have kj: "k < j" by simp
  let ?w' = "w\<lparr>fs_calls := fs_calls w @ [AccessCall (dir @ ''/'' @ probe_name n k)]\<rparr>"
  have busy_k: "\<not> probe_free w (dir @ ''/'' @ probe_name n k)"
    using Suc.prems(2) kj by simp
  have IH: "probe_loop ?w' dir b e (probe_name n (Suc k)) (Suc (Suc k)) =
      Some (fst (isFileExist (?w'\<lparr>fs_calls := fs_calls ?w' @ access_calls dir n [Suc k..<j]\<rparr>)
                   (dir @ ''/'' @ probe_name n j)), probe_name n j)"
    using Suc.hyps(2) Suc.prems kj by (intro Suc.hyps(1)) auto
  have split: "[k..<j] = k # [Suc k..<j]" using kj by (simp add: upt_conv_Cons)
  show ?case
    using busy_k IH be by (simp add: probe_loop_busy probe_name_Suc split access_calls_def)
qed

subsection \<open>One conflict\<close>

lemma moveConflictFile_trace:
  assumes stop: "probe_free w (dirPath_of d @ ''/'' @ probe_name (srcFileName_of s) j)"
    and busy: "\<forall>i<j. \<not> probe_free w (dirPath_of d @ ''/'' @ probe_name (srcFileName_of s) i)"
  shows "moveConflictFile w s d =
           Some (move_logged
             (fst (isFileExist (w\<lparr>fs_calls := fs_calls w @
                                  access_calls (dirPath_of d) (srcFileName_of s) [0..<j]\<rparr>)
                     (dirPath_of d @ ''/'' @ probe_name (srcFileName_of s) j)))
             s (dirPath_of d @ ''/'' @ probe_name (srcFileName_of s) j))"
proof -
  obtain b e where be: "split_ext (srcFileName_of s) = (b, e)" by fastforce
  have "probe_loop w (dirPath_of d) b e (probe_name (srcFileName_of s) 0) (Suc 0) =
          Some (fst (isFileExist (w\<lparr>fs_calls := fs_calls w @
                                    access_calls (dirPath_of d) (srcFileName_of s) [0..<j]\<rparr>)
                       (dirPath_of d @ ''/'' @ probe_name (srcFileName_of s) j)),
                probe_name (srcFileName_of s) j)"
    using be stop busy by (intro probe_loop_trace) auto
  with be show ?thesis by (simp add: moveConflictFile_def Let_def)
qed

lemma isFileExist_frame [simp]:
  "fs_present (fst (isFileExist w p)) = fs_present w"
  "fs_access_err (fst (isFileExist w p)) = fs_access_err w"
  "fs_move_err (fst (isFileExist w p)) = fs_move_err w"
  "fs_dir_mover (fst (isFileExist w p)) = fs_dir_mover w"
  "fs_restore_err (fst (isFileExist w p)) = fs_restore_err w"
  "fs_calls (fst (isFileExist w p)) = fs_calls w @ [AccessCall p]"
  by (simp_all add: isFileExist_eq split: option.split)

lemma move_logged_frame [simp]:
  "fs_access_err (move_logged w s t) = fs_access_err w"
  "fs_move_err (move_logged w s t) = fs_move_err w"
  "fs_dir_mover (move_logged w s t) = fs_dir_mover w"
  "fs_restore_err (move_logged w s t) = fs_restore_err w"
  "fs_calls (move_logged w s t) = fs_calls w @ [MoveFileCall s t]"
  by (simp_all add: move_logged_def fs_moveFile_def Let_def split: option.split prod.split)

lemma move_logged_present:
  "fs_present (move_logged w s t) =
     (if fs_move_err w s t = None \<and> s \<in> fs_present w
      then insert t (fs_present w - {s}) else fs_present w)"
  by (simp add: move_logged_def fs_moveFile_def Let_def split: option.split prod.split)

text \<open>
  C1 (functional, termination). On a finite directory \<open>moveConflictFile\<close> returns, and
  its platform calls are exactly: one \<open>accessSync\<close> for each of the names
  \<open>n, n(1), ..., n(j)\<close> it tries, then one \<open>moveFile\<close> of the source to the last of
  them. That last name is answered "absent" and every earlier one "present", so the
  file goes to the first name the probes report free.
\<close>

theorem moveConflictFile_spec:
  assumes "finite (fs_present w)"
  shows "\<exists>j w'. moveConflictFile w s d = Some w' \<and>
           fs_calls w' = fs_calls w @ access_calls (dirPath_of d) (srcFileName_of s) [0..<Suc j] @
             [MoveFileCall s (dirPath_of d @ ''/'' @ probe_name (srcFileName_of s) j)] \<and>
           probe_free w (dirPath_of d @ ''/'' @ probe_name (srcFileName_of s) j) \<and>
           (\<forall>i<j. \<not> probe_free w (dirPath_of d @ ''/'' @ probe_name (srcFileName_of s) i))"
proof -
  obtain j where stop: "probe_free w (dirPath_of d @ ''/'' @ probe_name (srcFileName_of s) j)"
    and busy: "\<forall>i<j. \<not> probe_free w (dirPath_of d @ ''/'' @ probe_name (srcFileName_of s) i)"
    using first_free_exists [OF assms] by blast
  show ?thesis
    using moveConflictFile_trace [OF stop busy] stop busy
    by (intro exI [of _ j]) (simp add: access_calls_def)
qed

text \<open>
  C4 (functional). The specification's example: when \<open>f\<close>, \<open>f(1)\<close>, ..., \<open>f(k)\<close>
  exist in the destination directory (and can be checked) and \<open>f(k+1)\<close> does not, the
  conflicting file is moved to \<open>f(k+1)\<close>, the counter going before the extension.
\<close>

theorem moveConflictFile_suffix:
  assumes be: "split_ext (srcFileName_of s) = (b, e)"
    and ok: "\<forall>i\<le>k. fs_access_err w (dirPath_of d @ ''/'' @ probe_name (srcFileName_of s) i) = None"
    and taken: "\<forall>i\<le>k. dirPath_of d @ ''/'' @ probe_name (srcFileName_of s) i \<in> fs_present w"
    and free: "dirPath_of d @ ''/'' @ next_name b e (Suc k) \<notin> fs_present w"
  shows "\<exists>w'. moveConflictFile w s d = Some w' \<and>
           last (fs_calls w') = MoveFileCall s (dirPath_of d @ ''/'' @ next_name b e (Suc k))"
proof -
  have stop: "probe_free w (dirPath_of d @ ''/'' @ probe_name (srcFileName_of s) (Suc k))"
    using free be by (simp add: probe_free_def probe_name_Suc)
  have busy: "\<forall>i<Suc k. \<not> probe_free w (dirPath_of d @ ''/'' @ probe_name (srcFileName_of s) i)"
    using ok taken by (simp add: probe_free_def less_Suc_eq_le)
  show ?thesis
    using moveConflictFile_trace [OF stop busy] be by (simp add: probe_name_Suc)
qed

subsection \<open>The batch of conflicts\<close>

lemma move_srcs_append [simp]: "move_srcs (xs @ ys) = move_srcs xs @ move_srcs ys"
  by (induction xs rule: move_srcs.induct) auto

lemma move_srcs_access_calls [simp]: "move_srcs (access_calls dir n ks) = []"
  by (induction ks) (simp_all add: access_calls_def)

lemma same_env_refl [simp]: "same_env w w"
  by (simp add: same_env_def)

lemma same_env_trans: "same_env w1 w2 \<Longrightarrow> same_env w2 w3 \<Longrightarrow> same_env w1 w3"
  by (simp add: same_env_def)

lemma isFileExist_same_env [simp]: "same_env w (fst (isFileExist w p))"
  by (simp add: same_env_def)

lemma probe_loop_frame:
  assumes "probe_loop w dir b e n c = Some res"
  shows "fs_present (fst res) = fs_present w \<and> same_env w (fst res) \<and>
         (\<exists>tail. fs_calls (fst res) = fs_calls w @ tail \<and> move_srcs tail = [])"
proof (rule probe_loop.raw_induct [where
    P = "\<lambda>w dir b e n c res. fs_present (fst res) = fs_present w \<and> same_env w (fst res) \<and>
           (\<exists>tail. fs_calls (fst res) = fs_calls w @ tail \<and> move_srcs tail = [])", OF _ assms])
  fix f w dir b e n c res
  assume IH: "\<And>w dir b e n c res. f w dir b e n c = Some res \<Longrightarrow>
      fs_present (fst res) = fs_present w \<and> same_env w (fst res) \<and>
      (\<exists>tail. fs_calls (fst res) = fs_calls w @ tail \<and> move_srcs tail = [])"
    and eq: "(case isFileExist w (dir @ ''/'' @ n) of
               (w', ex) \<Rightarrow> if ex then f w' dir b e (next_name b e c) (Suc c) else Some (w', n)) =
             Some res"
  obtain w1 ex where fe: "isFileExist w (dir @ ''/'' @ n) = (w1, ex)" by fastforce
  have w1: "fs_present w1 = fs_present w" "same_env w w1"
    "fs_calls w1 = fs_calls w @ [AccessCall (dir @ ''/'' @ n)]"
  proof -
    have "w1 = fst (isFileExist w (dir @ ''/'' @ n))" using fe by simp
    then show "fs_present w1 = fs_present w" "same_env w w1"
      "fs_calls w1 = fs_calls w @ [AccessCall (dir @ ''/'' @ n)]" by simp_all
  qed
  show "fs_present (fst res) = fs_present w \<and> same_env w (fst res) \<and>
      (\<exists>tail. fs_calls (fst res) = fs_calls w @ tail \<and> move_srcs tail = [])"
  proof (cases ex)
    case True
    with eq fe have "f w1 dir b e (next_name b e c) (Suc c) = Some res" by simp
    then have "fs_present (fst res) = fs_present w1 \<and> same_env w1 (fst res) \<and>
      (\<exists>tail. fs_calls (fst res) = fs_calls w1 @ tail \<and> move_srcs tail = [])"
      by (rule IH)
    with w1 show ?thesis
      by (auto intro: same_env_trans intro!: exI [of _ "AccessCall (dir @ ''/'' @ n) # _"])
  next
    case False
    with eq fe have "res = (w1, n)" by simp
    with w1 show ?thesis by auto
  qed
qed

lemma moveConflictFile_frame:
  assumes "moveConflictFile w s d = Some w'"
  shows "same_env w w' \<and> (\<exists>tail. fs_calls w' = fs_calls w @ tail \<and> move_srcs tail = [s]) \<and>
         (\<exists>t. fs_present w' \<subseteq> insert t (fs_present w))"
proof -
  obtain b e where be: "split_ext (srcFileName_of s) = (b, e)" by fastforce
  from assms be obtain res where
    loop: "probe_loop w (dirPath_of d) b e (srcFileName_of s) 1 = Some res" and
    w': "w' = move_logged (fst res) s (dirPath_of d @ ''/'' @ snd res)"
    by (auto simp: moveConflictFile_def Let_def split: prod.splits)
  from probe_loop_frame [OF loop] obtain tail where
    fr: "fs_present (fst res) = fs_present w" "same_env w (fst res)"
      "fs_calls (fst res) = fs_calls w @ tail" "move_srcs tail = []" by blast
  have "same_env (fst res) w'" using w' by (simp add: same_env_def)
  moreover have "fs_present w' \<subseteq> insert (dirPath_of d @ ''/'' @ snd res) (fs_present w)"
    using w' fr(1) by (auto simp: move_logged_present)
  ultimately show ?thesis
    using fr w' by (auto intro: same_env_trans intro!: exI [of _ "tail @ [MoveFileCall s _]"])
qed

lemma move_conflicts_frame:
  "move_conflicts w cs = Some w' \<Longrightarrow>
     same_env w w' \<and> (\<exists>tail. fs_calls w' = fs_calls w @ tail \<and> move_srcs tail = map srcFile cs) \<and>
     (finite (fs_present w) \<longrightarrow> finite (fs_present w'))"
proof (induction cs arbitrary: w)
  case Nil
  then show ?case by auto
next
  case (Cons c cs)
  then obtain w1 where w1: "moveConflictFile w (srcFile c) (destFile c) = Some w1"
    and rest: "move_conflicts w1 cs = Some w'" by (auto split: option.splits)
  from moveConflictFile_frame [OF w1] obtain tail1 t where
    f1: "same_env w w1" "fs_calls w1 = fs_calls w @ tail1" "move_srcs tail1 = [srcFile c]"
      "fs_present w1 \<subseteq> insert t (fs_present w)" by blast
  from Cons.IH [OF rest] obtain tail2 where
    f2: "same_env w1 w'" "fs_calls w' = fs_calls w1 @ tail2" "move_srcs tail2 = map srcFile cs"
      "finite (fs_present w1) \<longrightarrow> finite (fs_present w')" by blast
  have "finite (fs_present w) \<longrightarrow> finite (fs_present w1)"
    using f1(4) by (meson finite_insert finite_subset)
  with f1 f2 show ?case
    by (auto intro: same_env_trans intro!: exI [of _ "tail1 @ tail2"])
qed

lemma moveConflictFile_Some:
  assumes "finite (fs_present w)"
  obtains j where
    "probe_free w (dirPath_of d @ ''/'' @ probe_name (srcFileName_of s) j)"
    "\<forall>i<j. \<not> probe_free w (dirPath_of d @ ''/'' @ probe_name (srcFileName_of s) i)"
    "moveConflictFile w s d =
       Some (move_logged
         (fst (isFileExist (w\<lparr>fs_calls := fs_calls w @
                              access_calls (dirPath_of d) (srcFileName_of s) [0..<j]\<rparr>)
                 (dirPath_of d @ ''/'' @ probe_name (srcFileName_of s) j)))
         s (dirPath_of d @ ''/'' @ probe_name (srcFileName_of s) j))"
  using first_free_exists [OF assms] moveConflictFile_trace by blast

lemma move_conflicts_terminates:
  "finite (fs_present w) \<Longrightarrow> \<exists>w'. move_conflicts w cs = Some w'"
proof (induction cs arbitrary: w)
  case Nil
  then show ?case by simp
next
  case (Cons c cs)
  obtain w1 where w1: "moveConflictFile w (srcFile c) (destFile c) = Some w1"
    using moveConflictFile_Some [OF Cons.prems] by blast
  from moveConflictFile_frame [OF w1] obtain t where "fs_present w1 \<subseteq> insert t (fs_present w)"
    by blast
  with Cons.prems have "finite (fs_present w1)" by (meson finite_insert finite_subset)
  with Cons.IH w1 show ?case by simp
qed

text \<open>With existence checks that succeed, one conflict keeps the number of files.\<close>

lemma moveConflictFile_card:
  assumes fin: "finite (fs_present w)"
    and ok: "\<forall>p. fs_access_err w p = None"
    and mv: "moveConflictFile w s d = Some w'"
  shows "card (fs_present w') = card (fs_present w)"
proof -
  obtain j where free: "probe_free w (dirPath_of d @ ''/'' @ probe_name (srcFileName_of s) j)"
    and res: "moveConflictFile w s d =
       Some (move_logged
         (fst (isFileExist (w\<lparr>fs_calls := fs_calls w @
                              access_calls (dirPath_of d) (srcFileName_of s) [0..<j]\<rparr>)
                 (dirPath_of d @ ''/'' @ probe_name (srcFileName_of s) j)))
         s (dirPath_of d @ ''/'' @ probe_name (srcFileName_of s) j))"
    using moveConflictFile_Some [OF fin] by blast
  let ?t = "dirPath_of d @ ''/'' @ probe_name (srcFileName_of s) j"
  have t: "?t \<notin> fs_present w" using free ok by (simp add: probe_free_def)
  have "fs_present w' = (if fs_move_err w s ?t = None \<and> s \<in> fs_present w
                         then insert ?t (fs_present w - {s}) else fs_present w)"
    using res mv by (simp add: move_logged_present)
  moreover have "s \<in> fs_present w \<Longrightarrow> card (insert ?t (fs_present w - {s})) = card (fs_present w)"
  proof -
    assume s: "s \<in> fs_present w"
    then have "0 < card (fs_present w)" using fin by (auto simp: card_gt_0_iff)
    with s fin t show ?thesis by (simp add: card_insert_disjoint card_Diff_singleton)
  qed
  ultimately show ?thesis by simp
qed

lemma move_conflicts_card:
  "finite (fs_present w) \<Longrightarrow> \<forall>p. fs_access_err w p = None \<Longrightarrow> move_conflicts w cs = Some w' \<Longrightarrow>
     finite (fs_present w') \<and> card (fs_present w') = card (fs_present w)"
proof (induction cs arbitrary: w)
  case Nil
  then show ?case by simp
next
  case (Cons c cs)
  then obtain w1 where w1: "moveConflictFile w (srcFile c) (destFile c) = Some w1"
    and rest: "move_conflicts w1 cs = Some w'" by (auto split: option.splits)
  from moveConflictFile_frame [OF w1] obtain t where
    "same_env w w1" "fs_present w1 \<subseteq> insert t (fs_present w)" by blast
  with Cons.prems have "finite (fs_present w1)" "\<forall>p. fs_access_err w1 p = None"
    by (auto simp: same_env_def intro: finite_subset)
  with Cons.IH [OF _ _ rest] moveConflictFile_card [OF Cons.prems(1,2) w1] show ?case by simp
qed

text \<open>
  C2 (safety). The conflict loop of \<open>moveRestFiles\<close> handles every entry of the conflict
  list, in the order received: on a finite directory it returns, and the sources of the
  \<open>moveFile\<close> calls it makes are the entries' \<open>srcFile\<close>s in list order. A failed
  move (any answer of \<open>fs_move_err\<close>) never stops the batch.
\<close>

theorem move_conflicts_in_order:
  assumes "finite (fs_present w)"
  shows "\<exists>w' tail. move_conflicts w cs = Some w' \<and> fs_calls w' = fs_calls w @ tail \<and>
           move_srcs tail = map srcFile cs"
  using move_conflicts_terminates [OF assms, of cs] move_conflicts_frame by blast

text \<open>
  C3 (invariant). When every existence check succeeds, resolving the conflicts never
  overwrites a file: the number of files is the same before and after the batch.
\<close>

theorem move_conflicts_keeps_file_count:
  assumes "finite (fs_present w)" and "\<forall>p. fs_access_err w p = None"
  shows "\<exists>w'. move_conflicts w cs = Some w' \<and> card (fs_present w') = card (fs_present w)"
  using move_conflicts_terminates [OF assms(1), of cs] move_conflicts_card [OF assms] by blast

subsection \<open>The restore\<close>

lemma fs_moveDir_eq:
  "fs_moveDir w src dst m =
     (w\<lparr>fs_present := fst (fs_dir_mover w (fs_present w) src dst m),
        fs_calls := fs_calls w @ [MoveDirCall src dst m]\<rparr>,
      snd (fs_dir_mover w (fs_present w) src dst m))"
  by (simp add: fs_moveDir_def split: prod.split)

lemma moveRestFiles_cases:
  "moveRestFiles w path =
     (let w' = w\<lparr>fs_present := fst (fs_dir_mover w (fs_present w) path documentPath 1),
                 fs_calls := fs_calls w @ [MoveDirCall path documentPath 1]\<rparr>
      in case snd (fs_dir_mover w (fs_present w) path documentPath 1) of
           DirMoved \<Rightarrow> Some (Inr w')
         | DirFailed e data \<Rightarrow>
             if err_code e = MOVE_ERR_CODE
             then (case data of None \<Rightarrow> Some (Inl TypeError)
                   | Some l \<Rightarrow> map_option Inr (move_conflicts w' l))
             else Some (Inr (w'\<lparr>console_log := console_log w' @ [LogMoveDirFailed e]\<rparr>)))"
  by (simp add: moveRestFiles_def fs_moveDir_eq Let_def split: dir_result.split option.split)

lemma moveRestFiles_calls:
  "moveRestFiles w path = Some (Inr w') \<Longrightarrow>
     \<exists>tail. fs_calls w' = fs_calls w @ MoveDirCall path documentPath 1 # tail"
  by (auto simp: moveRestFiles_cases Let_def split: dir_result.splits if_splits option.splits
      dest!: move_conflicts_frame)

lemma moveRestFiles_Some:
  "finite (fst (fs_dir_mover w (fs_present w) path documentPath 1)) \<Longrightarrow> moveRestFiles w path \<noteq> None"
  by (auto simp: moveRestFiles_cases Let_def split: dir_result.split option.split
      intro!: move_conflicts_terminates)

lemma moveRestFiles_Inl:
  "moveRestFiles w path = Some (Inl err) \<Longrightarrow>
     err = TypeError \<and>
     (\<exists>e. snd (fs_dir_mover w (fs_present w) path documentPath 1) = DirFailed e None \<and>
          err_code e = MOVE_ERR_CODE)"
  by (auto simp: moveRestFiles_cases Let_def split: dir_result.splits if_splits option.splits)

lemma startRestore_eq:
  "startRestore w t g m c = (w\<lparr>fs_calls := fs_calls w @ [StartRestoreCall t g m c]\<rparr>, fs_restore_err w t)"
  by (simp add: startRestore_def)

lemma onRestore_eq:
  "onRestore w bv =
     (case fs_restore_err w (fst (restore_mode bv)) of
        Some e \<Rightarrow> Some (Inl (Rejected e))
      | None \<Rightarrow> moveRestFiles
          (w\<lparr>fs_calls := fs_calls w @ [StartRestoreCall (fst (restore_mode bv))
                                        galleryAppName mediaAppName cameraAppName]\<rparr>)
          (snd (restore_mode bv)))"
  by (simp add: onRestore_def startRestore_eq split: prod.split option.split)

text \<open>
  C7 (termination). \<open>onRestore\<close> always settles (resolves or rejects) when the
  directory the bulk move leaves behind is finite.
\<close>

theorem onRestore_terminates:
  assumes "finite (fst (fs_dir_mover w (fs_present w) (snd (restore_mode bv)) documentPath 1))"
  shows "onRestore w bv \<noteq> None"
  using assms moveRestFiles_Some by (simp add: onRestore_eq split: option.split)

lemma onRestore_Inr_calls:
  assumes "onRestore w bv = Some (Inr w')"
  shows "\<exists>tail. fs_calls w' = fs_calls w @
           [StartRestoreCall (fst (restore_mode bv)) galleryAppName mediaAppName cameraAppName,
            MoveDirCall (snd (restore_mode bv)) documentPath 1] @ tail"
  using assms by (auto simp: onRestore_eq split: option.splits dest!: moveRestFiles_calls)

lemma onRestore_no_Inl:
  assumes "fs_restore_err w (fst (restore_mode bv)) = None"
    and "\<forall>e. err_code e = MOVE_ERR_CODE \<longrightarrow>
           snd (fs_dir_mover w (fs_present w) (snd (restore_mode bv)) documentPath 1) \<noteq> DirFailed e None"
  shows "onRestore w bv \<noteq> Some (Inl err)"
  using assms by (auto simp: onRestore_eq dest!: moveRestFiles_Inl)

text \<open>
  C6 (functional). \<open>onRestore\<close> first asks the restore service for an in-place update
  restore (type 0, from \<open>backupPath\<close>) when the bundle version is \<open>0.0.0.0\<close> with
  code 0 and for a clone restore (type 1, from \<open>backupClonePath\<close>) otherwise, then
  makes exactly one bulk move of that directory into \<open>documentPath\<close>, before any other
  file operation.
\<close>

theorem onRestore_call_order:
  assumes "fs_restore_err w (fst (restore_mode bv)) = None"
    and "finite (fst (fs_dir_mover w (fs_present w) (snd (restore_mode bv)) documentPath 1))"
    and "\<forall>e. err_code e = MOVE_ERR_CODE \<longrightarrow>
           snd (fs_dir_mover w (fs_present w) (snd (restore_mode bv)) documentPath 1) \<noteq> DirFailed e None"
  shows "\<exists>w' tail. onRestore w bv = Some (Inr w') \<and>
           fs_calls w' = fs_calls w @
             (if bv_name bv = ''0.0.0.0'' \<and> bv_code bv = 0
              then [StartRestoreCall 0 galleryAppName mediaAppName cameraAppName,
                    MoveDirCall backupPath documentPath 1]
              else [StartRestoreCall 1 galleryAppName mediaAppName cameraAppName,
                    MoveDirCall backupClonePath documentPath 1]) @ tail"
proof -
  have "onRestore w bv \<noteq> None"
    using assms(1,2) moveRestFiles_Some by (simp add: onRestore_eq)
  moreover have "\<And>err. onRestore w bv \<noteq> Some (Inl err)"
    using assms(1,3) by (rule onRestore_no_Inl)
  ultimately obtain w' where w': "onRestore w bv = Some (Inr w')"
    by (metis not_None_eq sum.exhaust)
  show ?thesis
    using onRestore_Inr_calls [OF w'] w'
    by (auto simp: restore_mode_def UPDATE_RESTORE_def CLONE_RESTORE_def)
qed

text \<open>
  C5 (error). \<open>onRestore\<close> rejects in exactly two situations: the restore service
  rejected, or the bulk move failed with the "already exists" code 13900015 but carried
  no conflict list, so that \<open>list.length\<close> throws a \<open>TypeError\<close>. Failed existence
  checks, failed single moves and other bulk-move errors are only logged.
\<close>

theorem onRestore_rejects:
  assumes "onRestore w bv = Some (Inl err)"
  shows "(\<exists>e. err = Rejected e \<and> fs_restore_err w (fst (restore_mode bv)) = Some e) \<or>
         (err = TypeError \<and> fs_restore_err w (fst (restore_mode bv)) = None \<and>
          (\<exists>e. snd (fs_dir_mover w (fs_present w) (snd (restore_mode bv)) documentPath 1) =
                 DirFailed e None \<and> err_code e = MOVE_ERR_CODE))"
  using assms by (auto simp: onRestore_eq split: option.splits dest!: moveRestFiles_Inl)

text \<open>
  C11 (error). A bulk-move failure with any other code is logged and ends the
  reconciliation: no conflict is processed and \<open>moveRestFiles\<close> returns normally.
\<close>

theorem moveRestFiles_other_error:
  assumes "fs_dir_mover w (fs_present w) path documentPath 1 = (P, DirFailed e data)"
    and "err_code e \<noteq> MOVE_ERR_CODE"
  shows "moveRestFiles w path =
           Some (Inr (w\<lparr>fs_present := P, fs_calls := fs_calls w @ [MoveDirCall path documentPath 1],
                        console_log := console_log w @ [LogMoveDirFailed e]\<rparr>))"
  using assms by (simp add: moveRestFiles_cases)

text \<open>
  C10 (safety). The no-overwrite guarantee of C3 needs the existence checks to succeed. In
  every world in which \<open>accessSync\<close> throws on the existing destination
  \<open>dirPath/srcFileName\<close>, \<open>isFileExist\<close> logs the error and answers "absent", and
  \<open>moveConflictFile\<close> moves the file onto that destination: the file that was there is
  replaced and the directory holds one file fewer.
\<close>

theorem restore_overwrites_on_access_error:
  assumes dst: "dirPath_of d @ ''/'' @ srcFileName_of s = p"
    and "p \<in> fs_present w" "fs_access_err w p = Some e"
    and "s \<in> fs_present w" "s \<noteq> p" "fs_move_err w s p = None"
  shows "\<exists>w'. moveConflictFile w s d = Some w' \<and> last (fs_calls w') = MoveFileCall s p \<and>
              fs_present w' = fs_present w - {s} \<and> LogAccessFailed e \<in> set (console_log w')"
proof -
  have p0: "dirPath_of d @ ''/'' @ probe_name (srcFileName_of s) 0 = p"
    using dst by (simp add: probe_name_def split: prod.split)
  have "probe_free w (dirPath_of d @ ''/'' @ probe_name (srcFileName_of s) 0)"
    using p0 assms(3) by (simp add: probe_free_def)
  from moveConflictFile_trace [OF this] p0 assms(2-6) show ?thesis
    by (auto simp: move_logged_def fs_moveFile_def isFileExist_eq Let_def)
qed

subsection \<open>Names\<close>

lemma dirPath_srcFileName:
  "CHR ''/'' \<in> set d \<Longrightarrow> dirPath_of d @ ''/'' @ srcFileName_of d = d"
  using js_split_last_decomp [of "CHR ''/''" d]
  by (simp add: dirPath_of_butlast srcFileName_of_last)

lemma split_ext_trailing_dot:
  assumes "n \<noteq> []" and "last n = CHR ''.''"
  shows "split_ext n = (butlast n, [])"
proof -
  have dot: "CHR ''.'' \<in> set n" using assms by (metis last_in_set)
  obtain pre e where pre: "pre = js_join ''.'' (butlast (js_split CHR ''.'' n))"
    and e: "e = last (js_split CHR ''.'' n)" by blast
  have n: "n = pre @ CHR ''.'' # e"
    using js_split_last_decomp [OF dot] by (simp add: pre e)
  have "CHR ''.'' \<notin> set e" using js_split_last_sep_free e by simp
  with n assms(2) have "e = []"
    by (cases e rule: rev_cases) auto
  with n have "butlast n = pre" by simp
  with dot \<open>e = []\<close> show ?thesis by (simp add: split_ext_dot pre e)
qed

text \<open>
  C9 (functional). A file name without a dot, or ending in a dot, gets alternates
  \<open>name(k)\<close> with no dot after the counter: \<open>archive.\<close> gives \<open>archive(1)\<close>,
  \<open>archive(2)\<close>, ...
\<close>

theorem alternates_without_extension:
  assumes "CHR ''.'' \<notin> set n \<or> (n \<noteq> [] \<and> last n = CHR ''.'')" and "0 < k"
  shows "probe_name n k =
           (if CHR ''.'' \<in> set n then butlast n else n) @ ''('' @ nat_str k @ '')''"
proof (cases "CHR ''.'' \<in> set n")
  case True
  with assms(1) have "split_ext n = (butlast n, [])"
    by (intro split_ext_trailing_dot) auto
  with True assms(2) show ?thesis by (simp add: probe_name_def next_name_def)
next
  case False
  with assms(2) show ?thesis by (simp add: probe_name_def next_name_def split_ext_no_dot)
qed

text \<open>
  C8 (functional). When the original destination is free again, the file goes to it
  unchanged: no suffix is added without a collision.
\<close>

theorem vacated_destination_kept:
  assumes "CHR ''/'' \<in> set d" and "srcFileName_of s = srcFileName_of d"
    and "d \<notin> fs_present w"
  shows "\<exists>w'. moveConflictFile w s d = Some w' \<and> last (fs_calls w') = MoveFileCall s d"
proof -
  have d: "dirPath_of d @ ''/'' @ probe_name (srcFileName_of s) 0 = d"
    using dirPath_srcFileName [OF assms(1)] assms(2) by simp
  have "probe_free w (dirPath_of d @ ''/'' @ probe_name (srcFileName_of s) 0)"
    using d assms(3) by (simp add: probe_free_def)
  from moveConflictFile_trace [OF this] show ?thesis using d by simp
qed

subsection \<open>Witnesses\<close>

text \<open>Each theorem with hypotheses above, applied to the sample worlds.\<close>

theorem moveConflictFile_spec_witness:
  "finite (fs_present spec_world) \<and>
   (\<exists>j w'. moveConflictFile spec_world ''/a/x.jpg'' ''/b/x.jpg'' = Some w' \<and>
      fs_calls w' = fs_calls spec_world @
        access_calls (dirPath_of ''/b/x.jpg'') (srcFileName_of ''/a/x.jpg'') [0..<Suc j] @
        [MoveFileCall ''/a/x.jpg'' (dirPath_of ''/b/x.jpg'' @ ''/'' @ probe_name (srcFileName_of ''/a/x.jpg'') j)] \<and>
      probe_free spec_world (dirPath_of ''/b/x.jpg'' @ ''/'' @ probe_name (srcFileName_of ''/a/x.jpg'') j) \<and>
      (\<forall>i<j. \<not> probe_free spec_world (dirPath_of ''/b/x.jpg'' @ ''/'' @ probe_name (srcFileName_of ''/a/x.jpg'') i)))"
proof -
  have h: "finite (fs_present spec_world)" by (simp add: spec_world_def)
  show ?thesis using h moveConflictFile_spec [OF h] by blast
qed

theorem move_conflicts_in_order_witness:
  "finite (fs_present spec_world) \<and>
   (\<exists>w' tail. move_conflicts spec_world spec_conflicts = Some w' \<and>
      fs_calls w' = fs_calls spec_world @ tail \<and> move_srcs tail = map srcFile spec_conflicts)"
proof -
  have h: "finite (fs_present spec_world)" by (simp add: spec_world_def)
  show ?thesis using h move_conflicts_in_order [OF h] by blast
qed

theorem move_conflicts_keeps_file_count_witness:
  "finite (fs_present spec_world) \<and> (\<forall>p. fs_access_err spec_world p = None) \<and>
   (\<exists>w'. move_conflicts spec_world spec_conflicts = Some w' \<and>
      card (fs_present w') = card (fs_present spec_world))"
proof -
  have h1: "finite (fs_present spec_world)" by (simp add: spec_world_def)
  have h2: "\<forall>p. fs_access_err spec_world p = None" by (simp add: spec_world_def)
  show ?thesis using h1 h2 move_conflicts_keeps_file_count [OF h1 h2] by blast
qed

theorem moveConflictFile_suffix_witness:
  "split_ext (srcFileName_of ''/a/x.jpg'') = (''x'', ''jpg'') \<and>
   fs_access_err spec_world (dirPath_of ''/b/x.jpg'' @ ''/'' @ probe_name (srcFileName_of ''/a/x.jpg'') 0) = None \<and>
   dirPath_of ''/b/x.jpg'' @ ''/'' @ probe_name (srcFileName_of ''/a/x.jpg'') 0 \<in> fs_present spec_world \<and>
   dirPath_of ''/b/x.jpg'' @ ''/'' @ next_name ''x'' ''jpg'' (Suc 0) \<notin> fs_present spec_world \<and>
   (\<exists>w'. moveConflictFile spec_world ''/a/x.jpg'' ''/b/x.jpg'' = Some w' \<and>
      last (fs_calls w') =
        MoveFileCall ''/a/x.jpg'' (dirPath_of ''/b/x.jpg'' @ ''/'' @ next_name ''x'' ''jpg'' (Suc 0)))"
proof -
  have h1: "split_ext (srcFileName_of ''/a/x.jpg'') = (''x'', ''jpg'')"
    by (simp add: split_ext_def srcFileName_of_def)
  have h2: "\<forall>i\<le>0. fs_access_err spec_world
             (dirPath_of ''/b/x.jpg'' @ ''/'' @ probe_name (srcFileName_of ''/a/x.jpg'') i) = None"
    by (simp add: spec_world_def)
  have h3: "\<forall>i\<le>0. dirPath_of ''/b/x.jpg'' @ ''/'' @ probe_name (srcFileName_of ''/a/x.jpg'') i
             \<in> fs_present spec_world"
    by (simp add: spec_world_def dirPath_of_def srcFileName_of_def)
  have h4: "dirPath_of ''/b/x.jpg'' @ ''/'' @ next_name ''x'' ''jpg'' (Suc 0) \<notin> fs_present spec_world"
    by (simp add: spec_world_def dirPath_of_def next_name_def js_simps)
  show ?thesis using h1 h2 h3 h4 moveConflictFile_suffix [OF h1 h2 h3 h4] by blast
qed

theorem onRestore_rejects_witness:
  "onRestore (spec_world\<lparr>fs_restore_err := \<lambda>_. Some sample_error\<rparr>) \<lparr>bv_name = ''1.0'', bv_code = 1\<rparr> =
     Some (Inl (Rejected sample_error)) \<and>
   ((\<exists>e. Rejected sample_error = Rejected e \<and>
        fs_restore_err (spec_world\<lparr>fs_restore_err := \<lambda>_. Some sample_error\<rparr>)
          (fst (restore_mode \<lparr>bv_name = ''1.0'', bv_code = 1\<rparr>)) = Some e) \<or>
    (Rejected sample_error = TypeError \<and>
     fs_restore_err (spec_world\<lparr>fs_restore_err := \<lambda>_. Some sample_error\<rparr>)
       (fst (restore_mode \<lparr>bv_name = ''1.0'', bv_code = 1\<rparr>)) = None \<and>
     (\<exists>e. snd (fs_dir_mover (spec_world\<lparr>fs_restore_err := \<lambda>_. Some sample_error\<rparr>)
                (fs_present (spec_world\<lparr>fs_restore_err := \<lambda>_. Some sample_error\<rparr>))
                (snd (restore_mode \<lparr>bv_name = ''1.0'', bv_code = 1\<rparr>)) documentPath 1) =
            DirFailed e None \<and> err_code e = MOVE_ERR_CODE)))"
proof -
  have h: "onRestore (spec_world\<lparr>fs_restore_err := \<lambda>_. Some sample_error\<rparr>) \<lparr>bv_name = ''1.0'', bv_code = 1\<rparr> =
     Some (Inl (Rejected sample_error))"
    by (simp add: onRestore_eq)
  show ?thesis using h onRestore_rejects [OF h] by blast
qed

theorem onRestore_call_order_witness:
  "fs_restore_err spec_world (fst (restore_mode \<lparr>bv_name = ''0.0.0.0'', bv_code = 0\<rparr>)) = None \<and>
   finite (fst (fs_dir_mover spec_world (fs_present spec_world)
                  (snd (restore_mode \<lparr>bv_name = ''0.0.0.0'', bv_code = 0\<rparr>)) documentPath 1)) \<and>
   snd (fs_dir_mover spec_world (fs_present spec_world)
          (snd (restore_mode \<lparr>bv_name = ''0.0.0.0'', bv_code = 0\<rparr>)) documentPath 1) =
     DirFailed \<lparr>err_code = 13900015, err_message = ''File exists''\<rparr> (Some spec_conflicts) \<and>
   (\<exists>w' tail. onRestore spec_world \<lparr>bv_name = ''0.0.0.0'', bv_code = 0\<rparr> = Some (Inr w') \<and>
      fs_calls w' = fs_calls spec_world @
        (if bv_name \<lparr>bv_name = ''0.0.0.0'', bv_code = 0\<rparr> = ''0.0.0.0'' \<and>
            bv_code \<lparr>bv_name = ''0.0.0.0'', bv_code = (0::int)\<rparr> = 0
         then [StartRestoreCall 0 galleryAppName mediaAppName cameraAppName,
               MoveDirCall backupPath documentPath 1]
         else [StartRestoreCall 1 galleryAppName mediaAppName cameraAppName,
               MoveDirCall backupClonePath documentPath 1]) @ tail)"
proof -
  have h1: "fs_restore_err spec_world (fst (restore_mode \<lparr>bv_name = ''0.0.0.0'', bv_code = 0\<rparr>)) = None"
    by (simp add: spec_world_def)
  have h2: "finite (fst (fs_dir_mover spec_world (fs_present spec_world)
                  (snd (restore_mode \<lparr>bv_name = ''0.0.0.0'', bv_code = 0\<rparr>)) documentPath 1))"
    by (simp add: spec_world_def)
  have h3: "\<forall>e. err_code e = MOVE_ERR_CODE \<longrightarrow>
      snd (fs_dir_mover spec_world (fs_present spec_world)
             (snd (restore_mode \<lparr>bv_name = ''0.0.0.0'', bv_code = 0\<rparr>)) documentPath 1) \<noteq> DirFailed e None"
    by (simp add: spec_world_def)
  have h4: "snd (fs_dir_mover spec_world (fs_present spec_world)
          (snd (restore_mode \<lparr>bv_name = ''0.0.0.0'', bv_code = 0\<rparr>)) documentPath 1) =
     DirFailed \<lparr>err_code = 13900015, err_message = ''File exists''\<rparr> (Some spec_conflicts)"
    by (simp add: spec_world_def)
  show ?thesis using h1 h2 h4 onRestore_call_order [OF h1 h2 h3] by blast
qed

theorem onRestore_terminates_witness:
  "finite (fst (fs_dir_mover spec_world (fs_present spec_world)
                  (snd (restore_mode \<lparr>bv_name = ''1.0'', bv_code = 1\<rparr>)) documentPath 1)) \<and>
   onRestore spec_world \<lparr>bv_name = ''1.0'', bv_code = 1\<rparr> \<noteq> None"
proof -
  have h: "finite (fst (fs_dir_mover spec_world (fs_present spec_world)
                  (snd (restore_mode \<lparr>bv_name = ''1.0'', bv_code = 1\<rparr>)) documentPath 1))"
    by (simp add: spec_world_def)
  show ?thesis using h onRestore_terminates [OF h] by blast
qed

theorem vacated_destination_kept_witness:
  "CHR ''/'' \<in> set ''/b/y.png'' \<and> srcFileName_of ''/a/y.png'' = srcFileName_of ''/b/y.png'' \<and>
   ''/b/y.png'' \<notin> fs_present spec_world \<and>
   (\<exists>w'. moveConflictFile spec_world ''/a/y.png'' ''/b/y.png'' = Some w' \<and>
      last (fs_calls w') = MoveFileCall ''/a/y.png'' ''/b/y.png'')"
proof -
  have h1: "CHR ''/'' \<in> set ''/b/y.png''" by simp
  have h2: "srcFileName_of ''/a/y.png'' = srcFileName_of ''/b/y.png''" by (simp add: srcFileName_of_def)
  have h3: "''/b/y.png'' \<notin> fs_present spec_world" by (simp add: spec_world_def)
  show ?thesis using h1 h2 h3 vacated_destination_kept [OF h1 h2 h3] by blast
qed

theorem alternates_without_extension_witness:
  "last ''archive.'' = CHR ''.'' \<and> 0 < (2::nat) \<and>
   probe_name ''archive.'' 2 =
     (if CHR ''.'' \<in> set ''archive.'' then butlast ''archive.'' else ''archive.'') @ ''('' @ nat_str 2 @ '')''"
proof -
  have h1: "CHR ''.'' \<notin> set ''archive.'' \<or> (''archive.'' \<noteq> [] \<and> last ''archive.'' = CHR ''.'')" by simp
  have h2: "0 < (2::nat)" by simp
  show ?thesis using h2 alternates_without_extension [OF h1 h2] by simp
qed

theorem moveRestFiles_other_error_witness:
  "fs_dir_mover (spec_world\<lparr>fs_dir_mover := \<lambda>P _ _ _. (P, DirFailed sample_error None)\<rparr>)
     (fs_present spec_world) backupPath documentPath 1 = (fs_present spec_world, DirFailed sample_error None) \<and>
   err_code sample_error \<noteq> MOVE_ERR_CODE \<and>
   moveRestFiles (spec_world\<lparr>fs_dir_mover := \<lambda>P _ _ _. (P, DirFailed sample_error None)\<rparr>) backupPath =
     Some (Inr ((spec_world\<lparr>fs_dir_mover := \<lambda>P _ _ _. (P, DirFailed sample_error None)\<rparr>)
       \<lparr>fs_present := fs_present spec_world,
        fs_calls := fs_calls spec_world @ [MoveDirCall backupPath documentPath 1],
        console_log := console_log spec_world @ [LogMoveDirFailed sample_error]\<rparr>))"
proof -
  have h1: "fs_dir_mover (spec_world\<lparr>fs_dir_mover := \<lambda>P _ _ _. (P, DirFailed sample_error None)\<rparr>)
     (fs_present (spec_world\<lparr>fs_dir_mover := \<lambda>P _ _ _. (P, DirFailed sample_error None)\<rparr>))
     backupPath documentPath 1 = (fs_present spec_world, DirFailed sample_error None)" by simp
  have h2: "err_code sample_error \<noteq> MOVE_ERR_CODE" by (simp add: sample_error_def MOVE_ERR_CODE_def)
  show ?thesis using h1 h2 moveRestFiles_other_error [OF h1 h2] by simp
qed

theorem restore_overwrites_on_access_error_witness:
  "\<exists>w'. moveConflictFile overwrite_world ''/a/x.jpg'' ''/b/x.jpg'' = Some w' \<and>
        last (fs_calls w') = MoveFileCall ''/a/x.jpg'' ''/b/x.jpg'' \<and>
        fs_present w' = {''/b/x.jpg''} \<and> LogAccessFailed sample_error \<in> set (console_log w')"
proof -
  have "dirPath_of ''/b/x.jpg'' @ ''/'' @ srcFileName_of ''/a/x.jpg'' = ''/b/x.jpg''"
    by (simp add: dirPath_of_def srcFileName_of_def js_simps)
  moreover have "fs_present overwrite_world - {''/a/x.jpg''} = {''/b/x.jpg''}"
    by (auto simp: overwrite_world_def)
  ultimately show ?thesis
    using restore_overwrites_on_access_error [of "''/b/x.jpg''" "''/a/x.jpg''" "''/b/x.jpg''" overwrite_world sample_error]
    by (simp add: overwrite_world_def)
qed

end
