(* ===== verification/BackupNames.thy ===== *)
theory BackupNames
  imports Backup
begin

text \<open>
  Two further views of \<open>moveConflictFile\<close> in
  \<open>src/frameworks/innerkitsimpl/medialibrary_data_extension/MediaLibraryExt/entry/src/main/ets/MediaBackupExtensionAbility/MediaBackupExtensionAbility.ts\<close>:
  its split of a file name into name and extension (lines 78 to 86, \<open>split('.')\<close>,
  \<open>pop()\<close> and \<open>slice\<close>) is the plain cut at \<open>lastIndexOf('.')\<close> that its guard tests
  (\<open>split_ext_ref\<close>); and its probing loop, whose counter is a JavaScript number, makes at
  most one probe more than there are files, so the counter stays far below \<open>2^53\<close> and
  modelling it as a \<open>nat\<close> is exact. It also holds \<open>onBackup\<close>, the ability's other
  callback, which only logs.
\<close>

text \<open>The reference split: the text before the last dot and the text after it.\<close>

definition split_ext_ref :: "string \<Rightarrow> string \<times> string" where
  "split_ext_ref n =
     (let i = js_lastIndexOf CHR ''.'' n
      in if i = -1 then (n, []) else (take (nat i) n, drop (nat i + 1) n))"

text \<open>\<open>onBackup\<close> only writes \<open>TAG\<close> and \<open>'onBackup ok.'\<close> to \<open>console.log\<close>, a stream the
  world does not record (it keeps the \<open>console.error\<close> trail); its promise always
  fulfils and the world is unchanged. The model returns the settled promise and the logged
  line, the two arguments joined by a space as \<open>console.log\<close> does.\<close>

definition TAG :: string where
  "TAG = ''MediaBackupExtAbility''"

definition onBackup :: "world \<Rightarrow> (js_error + world) \<times> string" where
  "onBackup w = (Inr w, js_join '' '' [TAG, ''onBackup ok.''])"

lemma probes_busy_bound:
  assumes "finite (fs_present w)"
    and "\<forall>i<j. \<not> probe_free w (dir @ ''/'' @ probe_name n i)"
  shows "j \<le> card (fs_present w)"
proof -
  let ?f = "\<lambda>k. dir @ ''/'' @ probe_name n k"
  have sub: "?f ` {..<j} \<subseteq> fs_present w"
    using assms(2) by (auto simp: probe_free_def)
  have "inj_on ?f {..<j}"
    using inj_probe_path [of dir n] by (rule inj_on_subset) simp
  then have "card (?f ` {..<j}) = j" by (simp add: card_image)
  then show ?thesis
    using card_mono [OF assms(1) sub] by simp
qed

text \<open>
  C22. The code's split of a file name into name and extension equals the reference cut at
  \<open>lastIndexOf('.')\<close>: without a dot the whole name and no extension, otherwise the text
  before and after the last dot.
\<close>

theorem split_ext_eq_ref: "split_ext n = split_ext_ref n"
proof (cases "CHR ''.'' \<in> set n")
  case True
  obtain pre e where pre: "pre = js_join ''.'' (butlast (js_split CHR ''.'' n))"
    and e: "e = last (js_split CHR ''.'' n)" by blast
  have n: "n = pre @ CHR ''.'' # e"
    using js_split_last_decomp [OF True] by (simp add: pre e)
  have "CHR ''.'' \<notin> set e"
    using js_split_last_sep_free e by simp
  then have "js_lastIndexOf CHR ''.'' n = int (length pre)"
    using n js_lastIndexOf_last by simp
  moreover have "split_ext n = (pre, e)"
    using split_ext_dot [OF True] by (simp add: pre e)
  moreover have "take (length pre) n = pre" "drop (Suc (length pre)) n = e"
    using n by simp_all
  ultimately show ?thesis by (simp add: split_ext_ref_def)
next
  case False
  then show ?thesis by (simp add: split_ext_no_dot split_ext_ref_def js_lastIndexOf_none)
qed

text \<open>
  C23. In a finite directory \<open>moveConflictFile\<close> tries at most one name more than there are
  files: the index of the name it moves to is at most the number of files, and each earlier
  index cost one \<open>accessSync\<close>.
\<close>

theorem moveConflictFile_probe_bound:
  assumes "finite (fs_present w)"
  shows "\<exists>j \<le> card (fs_present w). \<exists>w'. moveConflictFile w s d = Some w' \<and>
           fs_calls w' = fs_calls w @ access_calls (dirPath_of d) (srcFileName_of s) [0..<Suc j] @
             [MoveFileCall s (dirPath_of d @ ''/'' @ probe_name (srcFileName_of s) j)]"
proof -
  obtain j where stop: "probe_free w (dirPath_of d @ ''/'' @ probe_name (srcFileName_of s) j)"
    and busy: "\<forall>i<j. \<not> probe_free w (dirPath_of d @ ''/'' @ probe_name (srcFileName_of s) i)"
    using first_free_exists [OF assms] by blast
  have "j \<le> card (fs_present w)" using probes_busy_bound [OF assms busy] .
  then show ?thesis
    using moveConflictFile_trace [OF stop busy] stop
    by (intro exI [of _ j]) (simp add: access_calls_def)
qed

subsection \<open>Witnesses\<close>

theorem moveConflictFile_probe_bound_witness:
  "\<exists>j \<le> card (fs_present spec_world). \<exists>w'. moveConflictFile spec_world ''/a/x.jpg'' ''/b/x.jpg'' = Some w' \<and>
     fs_calls w' = fs_calls spec_world @ access_calls (dirPath_of ''/b/x.jpg'') (srcFileName_of ''/a/x.jpg'') [0..<Suc j] @
       [MoveFileCall ''/a/x.jpg'' (dirPath_of ''/b/x.jpg'' @ ''/'' @ probe_name (srcFileName_of ''/a/x.jpg'') j)]"
  by (rule moveConflictFile_probe_bound) (simp add: spec_world_def)

end
