(* ===== verification/ImageTypes.thy ===== *)
theory ImageTypes
  imports Prelude "HOL-Library.Word"
begin

text \<open>
  The data vocabulary of the image API, \<open>src/interfaces/kits/js/@ohos.multimedia.image.d.ts\<close>:
  its enums (\<open>PixelMapFormat\<close>, \<open>PropertyKey\<close>, \<open>ImageFormat\<close>, \<open>AlphaType\<close>,
  \<open>ScaleMode\<close>, \<open>ComponentType\<close>) as datatypes with the source's member names and
  values, and its option interfaces (\<open>Size\<close>, \<open>Region\<close>, \<open>PositionArea\<close>, \<open>ImageInfo\<close>,
  \<open>PackingOption\<close>, \<open>GetImagePropertyOptions\<close>, \<open>DecodingOptions\<close>, \<open>Component\<close>,
  \<open>InitializationOptions\<close>, \<open>SourceOptions\<close>) as records, an optional member \<open>m?: T\<close>
  as a \<open>T option\<close> field. Members that two enums share (\<open>UNKNOWN\<close>, \<open>JPEG\<close>) are
  written with their enum's name, as in TypeScript (\<open>AlphaType.UNKNOWN\<close>).
  A numeric enum also has its value (\<open>*_code\<close>) and the reverse mapping of the compiled
  enum object (\<open>*_of\<close>, via \<open>ts_enum_reverse\<close>). A JavaScript \<open>number\<close> that the API
  uses as a count, size or code is an \<open>int\<close>; an \<open>ArrayBuffer\<close> is a list of bytes.
  The theory also holds the rules the declarations' documentation states about these values:
  the bits of a pixel in each format, the ten-megabyte default of a packing buffer, the
  original size meant by a desired size (0, 0), and the formats an image receiver accepts.
\<close>

type_synonym ArrayBuffer = "8 word list"

subsection \<open>Enums\<close>

datatype PixelMapFormat =
    UNKNOWN | RGB_565 | RGBA_8888 | BGRA_8888 | RGB_888 | ALPHA_8 | RGBA_F16 | NV21 | NV12

primrec PixelMapFormat_code :: "PixelMapFormat \<Rightarrow> int" where
  "PixelMapFormat_code UNKNOWN = 0"
| "PixelMapFormat_code RGB_565 = 2"
| "PixelMapFormat_code RGBA_8888 = 3"
| "PixelMapFormat_code BGRA_8888 = 4"
| "PixelMapFormat_code RGB_888 = 5"
| "PixelMapFormat_code ALPHA_8 = 6"
| "PixelMapFormat_code RGBA_F16 = 7"
| "PixelMapFormat_code NV21 = 8"
| "PixelMapFormat_code NV12 = 9"

definition PixelMapFormat_members :: "PixelMapFormat list" where
  "PixelMapFormat_members =
     [UNKNOWN, RGB_565, RGBA_8888, BGRA_8888, RGB_888, ALPHA_8, RGBA_F16, NV21, NV12]"

definition PixelMapFormat_of :: "int \<Rightarrow> PixelMapFormat option" where
  "PixelMapFormat_of = ts_enum_reverse PixelMapFormat_code PixelMapFormat_members"

text \<open>\<open>PropertyKey\<close> is a string enum: its members are Exif tag names, and a string enum
  has no reverse mapping.\<close>

datatype (plugins only: code) PropertyKey
  = BITS_PER_SAMPLE
  | ORIENTATION
  | IMAGE_LENGTH
  | IMAGE_WIDTH
  | GPS_LATITUDE
  | GPS_LONGITUDE
  | GPS_LATITUDE_REF
  | GPS_LONGITUDE_REF
  | DATE_TIME_ORIGINAL
  | EXPOSURE_TIME
  | SCENE_TYPE
  | ISO_SPEED_RATINGS
  | F_NUMBER
  | DATE_TIME
  | GPS_TIME_STAMP
  | GPS_DATE_STAMP
  | IMAGE_DESCRIPTION
  | MAKE
  | MODEL
  | PHOTO_MODE
  | SENSITIVITY_TYPE
  | STANDARD_OUTPUT_SENSITIVITY
  | RECOMMENDED_EXPOSURE_INDEX
  | ISO_SPEED
  | APERTURE_VALUE
  | EXPOSURE_BIAS_VALUE
  | METERING_MODE
  | LIGHT_SOURCE
  | FLASH
  | FOCAL_LENGTH
  | USER_COMMENT
  | PIXEL_X_DIMENSION
  | PIXEL_Y_DIMENSION
  | WHITE_BALANCE
  | FOCAL_LENGTH_IN_35_MM_FILM
  | CAPTURE_MODE
  | PHYSICAL_APERTURE
  | ROLL_ANGLE
  | PITCH_ANGLE
  | SCENE_FOOD_CONF
  | SCENE_STAGE_CONF
  | SCENE_BLUE_SKY_CONF
  | SCENE_GREEN_PLANT_CONF
  | SCENE_BEACH_CONF
  | SCENE_SNOW_CONF
  | SCENE_SUNSET_CONF
  | SCENE_FLOWERS_CONF
  | SCENE_NIGHT_CONF
  | SCENE_TEXT_CONF
  | FACE_COUNT
  | FOCUS_MODE

primrec PropertyKey_value :: "PropertyKey \<Rightarrow> string" where
  "PropertyKey_value BITS_PER_SAMPLE = ''BitsPerSample''"
| "PropertyKey_value ORIENTATION = ''Orientation''"
| "PropertyKey_value IMAGE_LENGTH = ''ImageLength''"
| "PropertyKey_value IMAGE_WIDTH = ''ImageWidth''"
| "PropertyKey_value GPS_LATITUDE = ''GPSLatitude''"
| "PropertyKey_value GPS_LONGITUDE = ''GPSLongitude''"
| "PropertyKey_value GPS_LATITUDE_REF = ''GPSLatitudeRef''"
| "PropertyKey_value GPS_LONGITUDE_REF = ''GPSLongitudeRef''"
| "PropertyKey_value DATE_TIME_ORIGINAL = ''DateTimeOriginal''"
| "PropertyKey_value EXPOSURE_TIME = ''ExposureTime''"
| "PropertyKey_value SCENE_TYPE = ''SceneType''"
| "PropertyKey_value ISO_SPEED_RATINGS = ''ISOSpeedRatings''"
| "PropertyKey_value F_NUMBER = ''FNumber''"
| "PropertyKey_value DATE_TIME = ''DateTime''"
| "PropertyKey_value GPS_TIME_STAMP = ''GPSTimeStamp''"
| "PropertyKey_value GPS_DATE_STAMP = ''GPSDateStamp''"
| "PropertyKey_value IMAGE_DESCRIPTION = ''ImageDescription''"
| "PropertyKey_value MAKE = ''Make''"
| "PropertyKey_value MODEL = ''Model''"
| "PropertyKey_value PHOTO_MODE = ''PhotoMode''"
| "PropertyKey_value SENSITIVITY_TYPE = ''SensitivityType''"
| "PropertyKey_value STANDARD_OUTPUT_SENSITIVITY = ''StandardOutputSensitivity''"
| "PropertyKey_value RECOMMENDED_EXPOSURE_INDEX = ''RecommendedExposureIndex''"
| "PropertyKey_value ISO_SPEED = ''ISOSpeedRatings''"
| "PropertyKey_value APERTURE_VALUE = ''ApertureValue''"
| "PropertyKey_value EXPOSURE_BIAS_VALUE = ''ExposureBiasValue''"
| "PropertyKey_value METERING_MODE = ''MeteringMode''"
| "PropertyKey_value LIGHT_SOURCE = ''LightSource''"
| "PropertyKey_value FLASH = ''Flash''"
| "PropertyKey_value FOCAL_LENGTH = ''FocalLength''"
| "PropertyKey_value USER_COMMENT = ''UserComment''"
| "PropertyKey_value PIXEL_X_DIMENSION = ''PixelXDimension''"
| "PropertyKey_value PIXEL_Y_DIMENSION = ''PixelYDimension''"
| "PropertyKey_value WHITE_BALANCE = ''WhiteBalance''"
| "PropertyKey_value FOCAL_LENGTH_IN_35_MM_FILM = ''FocalLengthIn35mmFilm''"
| "PropertyKey_value CAPTURE_MODE = ''HwMnoteCaptureMode''"
| "PropertyKey_value PHYSICAL_APERTURE = ''HwMnotePhysicalAperture''"
| "PropertyKey_value ROLL_ANGLE = ''HwMnoteRollAngle''"
| "PropertyKey_value PITCH_ANGLE = ''HwMnotePitchAngle''"
| "PropertyKey_value SCENE_FOOD_CONF = ''HwMnoteSceneFoodConf''"
| "PropertyKey_value SCENE_STAGE_CONF = ''HwMnoteSceneStageConf''"
| "PropertyKey_value SCENE_BLUE_SKY_CONF = ''HwMnoteSceneBlueSkyConf''"
| "PropertyKey_value SCENE_GREEN_PLANT_CONF = ''HwMnoteSceneGreenPlantConf''"
| "PropertyKey_value SCENE_BEACH_CONF = ''HwMnoteSceneBeachConf''"
| "PropertyKey_value SCENE_SNOW_CONF = ''HwMnoteSceneSnowConf''"
| "PropertyKey_value SCENE_SUNSET_CONF = ''HwMnoteSceneSunsetConf''"
| "PropertyKey_value SCENE_FLOWERS_CONF = ''HwMnoteSceneFlowersConf''"
| "PropertyKey_value SCENE_NIGHT_CONF = ''HwMnoteSceneNightConf''"
| "PropertyKey_value SCENE_TEXT_CONF = ''HwMnoteSceneTextConf''"
| "PropertyKey_value FACE_COUNT = ''HwMnoteFaceCount''"
| "PropertyKey_value FOCUS_MODE = ''HwMnoteFocusMode''"

definition PropertyKey_members :: "PropertyKey list" where
  "PropertyKey_members = [BITS_PER_SAMPLE, ORIENTATION, IMAGE_LENGTH, IMAGE_WIDTH, GPS_LATITUDE, GPS_LONGITUDE, GPS_LATITUDE_REF, GPS_LONGITUDE_REF, DATE_TIME_ORIGINAL, EXPOSURE_TIME, SCENE_TYPE, ISO_SPEED_RATINGS, F_NUMBER, DATE_TIME, GPS_TIME_STAMP, GPS_DATE_STAMP, IMAGE_DESCRIPTION, MAKE, MODEL, PHOTO_MODE, SENSITIVITY_TYPE, STANDARD_OUTPUT_SENSITIVITY, RECOMMENDED_EXPOSURE_INDEX, ISO_SPEED, APERTURE_VALUE, EXPOSURE_BIAS_VALUE, METERING_MODE, LIGHT_SOURCE, FLASH, FOCAL_LENGTH, USER_COMMENT, PIXEL_X_DIMENSION, PIXEL_Y_DIMENSION, WHITE_BALANCE, FOCAL_LENGTH_IN_35_MM_FILM, CAPTURE_MODE, PHYSICAL_APERTURE, ROLL_ANGLE, PITCH_ANGLE, SCENE_FOOD_CONF, SCENE_STAGE_CONF, SCENE_BLUE_SKY_CONF, SCENE_GREEN_PLANT_CONF, SCENE_BEACH_CONF, SCENE_SNOW_CONF, SCENE_SUNSET_CONF, SCENE_FLOWERS_CONF, SCENE_NIGHT_CONF, SCENE_TEXT_CONF, FACE_COUNT, FOCUS_MODE]"

datatype ImageFormat = YCBCR_422_SP | JPEG

primrec ImageFormat_code :: "ImageFormat \<Rightarrow> int" where
  "ImageFormat_code YCBCR_422_SP = 1000"
| "ImageFormat_code ImageFormat.JPEG = 2000"

definition ImageFormat_members :: "ImageFormat list" where
  "ImageFormat_members = [YCBCR_422_SP, ImageFormat.JPEG]"

definition ImageFormat_of :: "int \<Rightarrow> ImageFormat option" where
  "ImageFormat_of = ts_enum_reverse ImageFormat_code ImageFormat_members"

datatype AlphaType = UNKNOWN | OPAQUE | PREMUL | UNPREMUL

primrec AlphaType_code :: "AlphaType \<Rightarrow> int" where
  "AlphaType_code AlphaType.UNKNOWN = 0"
| "AlphaType_code OPAQUE = 1"
| "AlphaType_code PREMUL = 2"
| "AlphaType_code UNPREMUL = 3"

definition AlphaType_members :: "AlphaType list" where
  "AlphaType_members = [AlphaType.UNKNOWN, OPAQUE, PREMUL, UNPREMUL]"

definition AlphaType_of :: "int \<Rightarrow> AlphaType option" where
  "AlphaType_of = ts_enum_reverse AlphaType_code AlphaType_members"

datatype ScaleMode = FIT_TARGET_SIZE | CENTER_CROP

primrec ScaleMode_code :: "ScaleMode \<Rightarrow> int" where
  "ScaleMode_code FIT_TARGET_SIZE = 0"
| "ScaleMode_code CENTER_CROP = 1"

definition ScaleMode_members :: "ScaleMode list" where
  "ScaleMode_members = [FIT_TARGET_SIZE, CENTER_CROP]"

definition ScaleMode_of :: "int \<Rightarrow> ScaleMode option" where
  "ScaleMode_of = ts_enum_reverse ScaleMode_code ScaleMode_members"

datatype ComponentType = YUV_Y | YUV_U | YUV_V | JPEG

primrec ComponentType_code :: "ComponentType \<Rightarrow> int" where
  "ComponentType_code YUV_Y = 1"
| "ComponentType_code YUV_U = 2"
| "ComponentType_code YUV_V = 3"
| "ComponentType_code ComponentType.JPEG = 4"

definition ComponentType_members :: "ComponentType list" where
  "ComponentType_members = [YUV_Y, YUV_U, YUV_V, ComponentType.JPEG]"

definition ComponentType_of :: "int \<Rightarrow> ComponentType option" where
  "ComponentType_of = ts_enum_reverse ComponentType_code ComponentType_members"

subsection \<open>Option records\<close>

text \<open>Field names carry their interface's prefix, since several interfaces share member
  names (\<open>size\<close>, \<open>index\<close>, \<open>format\<close>).\<close>

record Size =
  height :: int
  width :: int

record Region =
  region_size :: Size
  region_x :: int
  region_y :: int

record PositionArea =
  area_pixels :: ArrayBuffer
  area_offset :: int
  area_stride :: int
  area_region :: Region

record ImageInfo =
  info_size :: Size
  info_density :: int

record PackingOption =
  pack_format :: string
  pack_quality :: int
  pack_bufferSize :: "int option"

record GetImagePropertyOptions =
  prop_index :: "int option"
  prop_defaultValue :: "string option"

record DecodingOptions =
  dec_index :: "int option"
  dec_sampleSize :: "int option"
  dec_rotate :: "int option"
  dec_editable :: "bool option"
  dec_desiredSize :: "Size option"
  dec_desiredRegion :: "Region option"
  dec_desiredPixelFormat :: "PixelMapFormat option"
  dec_fitDensity :: "int option"

record Component =
  comp_componentType :: ComponentType
  comp_rowStride :: int
  comp_pixelStride :: int
  comp_byteBuffer :: ArrayBuffer

record InitializationOptions =
  init_size :: Size
  init_pixelFormat :: "PixelMapFormat option"
  init_editable :: "bool option"
  init_alphaType :: "AlphaType option"
  init_scaleMode :: "ScaleMode option"

record SourceOptions =
  src_sourceDensity :: int
  src_sourcePixelFormat :: "PixelMapFormat option"
  src_sourceSize :: "Size option"

subsection \<open>Documented rules on these values\<close>

text \<open>
  The documentation of each \<open>PixelMapFormat\<close> member gives the bits a pixel is stored on
  and its components from the higher-order to the lower-order bits. The two YUV formats
  describe planes, not pixels, and \<open>UNKNOWN\<close> describes nothing: they have no pixel size.
  \<open>RGBA_8888\<close> is documented with the same component order as \<open>BGRA_8888\<close> (B, G, R, A),
  and \<open>RGBA_F16\<close> with 8-bit components on 32 bits although its values are half floats;
  the table keeps what the documentation says.
\<close>

primrec pixel_bits :: "PixelMapFormat \<Rightarrow> nat option" where
  "pixel_bits RGB_565 = Some 16"
| "pixel_bits RGBA_8888 = Some 32"
| "pixel_bits BGRA_8888 = Some 32"
| "pixel_bits RGB_888 = Some 24"
| "pixel_bits ALPHA_8 = Some 8"
| "pixel_bits RGBA_F16 = Some 32"
| "pixel_bits NV21 = None"
| "pixel_bits NV12 = None"
| "pixel_bits PixelMapFormat.UNKNOWN = None"

primrec pixel_components :: "PixelMapFormat \<Rightarrow> (string \<times> nat) list" where
  "pixel_components RGB_565 = [(''R'', 5), (''G'', 6), (''B'', 5)]"
| "pixel_components RGBA_8888 = [(''B'', 8), (''G'', 8), (''R'', 8), (''A'', 8)]"
| "pixel_components BGRA_8888 = [(''B'', 8), (''G'', 8), (''R'', 8), (''A'', 8)]"
| "pixel_components RGB_888 = [(''R'', 8), (''G'', 8), (''B'', 8)]"
| "pixel_components ALPHA_8 = [(''ALPHA'', 8)]"
| "pixel_components RGBA_F16 = [(''B'', 8), (''G'', 8), (''R'', 8), (''A'', 8)]"
| "pixel_components NV21 = [(''Y'', 8), (''V'', 8), (''U'', 8)]"
| "pixel_components NV12 = [(''Y'', 8), (''U'', 8), (''V'', 8)]"
| "pixel_components PixelMapFormat.UNKNOWN = []"

text \<open>Bytes per pixel, where a pixel has a documented size.\<close>

definition bytes_per_pixel :: "PixelMapFormat \<Rightarrow> nat option" where
  "bytes_per_pixel f = map_option (\<lambda>b. b div 8) (pixel_bits f)"

text \<open>\<open>PackingOption.bufferSize\<close>: a size less than or equal to 0 is converted to 10MB
  (read as \<open>10 * 2^20\<close> bytes). The documentation does not say what an absent size means;
  the model gives it the same default.\<close>

definition DEFAULT_PACKING_BUFFER :: int where
  "DEFAULT_PACKING_BUFFER = 10 * 1024 * 1024"

definition packing_bufferSize :: "PackingOption \<Rightarrow> int" where
  "packing_bufferSize opt =
     (case pack_bufferSize opt of
        None \<Rightarrow> DEFAULT_PACKING_BUFFER
      | Some b \<Rightarrow> if b \<le> 0 then DEFAULT_PACKING_BUFFER else b)"

text \<open>\<open>PackingOption.quality\<close> is an integer from 0 to 100; \<open>DecodingOptions.rotate\<close>
  ranges from 0 to 360.\<close>

definition packing_quality_ok :: "PackingOption \<Rightarrow> bool" where
  "packing_quality_ok opt \<longleftrightarrow> 0 \<le> pack_quality opt \<and> pack_quality opt \<le> 100"

definition decoding_rotate_ok :: "DecodingOptions \<Rightarrow> bool" where
  "decoding_rotate_ok opt \<longleftrightarrow> (case dec_rotate opt of None \<Rightarrow> True | Some r \<Rightarrow> 0 \<le> r \<and> r \<le> 360)"

text \<open>\<open>DecodingOptions.desiredSize\<close>: the value (0, 0), like an absent one, decodes at the
  image's original size.\<close>

definition decoding_size :: "Size \<Rightarrow> DecodingOptions \<Rightarrow> Size" where
  "decoding_size original opt =
     (case dec_desiredSize opt of
        None \<Rightarrow> original
      | Some s \<Rightarrow> if height s = 0 \<and> width s = 0 then original else s)"

text \<open>\<open>createImageReceiver\<close> and \<open>createImageCreator\<close>: the format must be one of the
  \<open>ImageFormat\<close> constants.\<close>

definition image_format_ok :: "int \<Rightarrow> bool" where
  "image_format_ok format \<longleftrightarrow> ImageFormat_of format \<noteq> None"

subsection \<open>Enum members and values\<close>

text \<open>Every member list names each member once, and the numeric values are distinct, so
  the compiled reverse mapping is a proper inverse.\<close>

lemma PixelMapFormat_members_UNIV [simp]: "set PixelMapFormat_members = UNIV"
  by (auto simp: PixelMapFormat_members_def intro: PixelMapFormat.exhaust)

lemma ImageFormat_members_UNIV [simp]: "set ImageFormat_members = UNIV"
  by (auto simp: ImageFormat_members_def intro: ImageFormat.exhaust)

lemma AlphaType_members_UNIV [simp]: "set AlphaType_members = UNIV"
  by (auto simp: AlphaType_members_def intro: AlphaType.exhaust)

lemma ScaleMode_members_UNIV [simp]: "set ScaleMode_members = UNIV"
  by (auto simp: ScaleMode_members_def intro: ScaleMode.exhaust)

lemma ComponentType_members_UNIV [simp]: "set ComponentType_members = UNIV"
  by (auto simp: ComponentType_members_def intro: ComponentType.exhaust)

lemma PropertyKey_members_UNIV [simp]: "set PropertyKey_members = UNIV"
  by (auto simp: PropertyKey_members_def intro: PropertyKey.exhaust)

lemmas enum_members_defs = PixelMapFormat_members_def ImageFormat_members_def
  AlphaType_members_def ScaleMode_members_def ComponentType_members_def

lemma enum_codes_distinct:
  "distinct (map PixelMapFormat_code PixelMapFormat_members)"
  "distinct (map ImageFormat_code ImageFormat_members)"
  "distinct (map AlphaType_code AlphaType_members)"
  "distinct (map ScaleMode_code ScaleMode_members)"
  "distinct (map ComponentType_code ComponentType_members)"
  by (simp_all add: enum_members_defs)

lemma packing_bufferSize_pos: "0 < packing_bufferSize opt"
  by (simp add: packing_bufferSize_def DEFAULT_PACKING_BUFFER_def split: option.split)

lemma packing_bufferSize_given: "pack_bufferSize opt = Some b \<Longrightarrow> 0 < b \<Longrightarrow> packing_bufferSize opt = b"
  by (simp add: packing_bufferSize_def)

subsection \<open>Exif keys\<close>

lemma PropertyKey_values_distinct:
  "distinct (map PropertyKey_value (remove1 ISO_SPEED PropertyKey_members))"
  by (simp add: PropertyKey_members_def)

lemma PropertyKey_value_ISO_SPEED:
  "PropertyKey_value k = PropertyKey_value ISO_SPEED \<longleftrightarrow> k = ISO_SPEED \<or> k = ISO_SPEED_RATINGS"
  by (cases k) simp_all

lemma PropertyKey_value_inj_on:
  "a \<noteq> ISO_SPEED \<Longrightarrow> b \<noteq> ISO_SPEED \<Longrightarrow> PropertyKey_value a = PropertyKey_value b \<Longrightarrow> a = b"
proof -
  assume a: "a \<noteq> ISO_SPEED" and b: "b \<noteq> ISO_SPEED" and eq: "PropertyKey_value a = PropertyKey_value b"
  have "inj_on PropertyKey_value (set (remove1 ISO_SPEED PropertyKey_members))"
    using PropertyKey_values_distinct by (simp add: distinct_map)
  moreover have "a \<in> set (remove1 ISO_SPEED PropertyKey_members)"
    using a by (simp add: in_set_remove1)
  moreover have "b \<in> set (remove1 ISO_SPEED PropertyKey_members)"
    using b by (simp add: in_set_remove1)
  ultimately show "a = b" using eq by (blast dest: inj_onD)
qed

end
