(* ===== verification/SampleMedia.thy ===== *)
theory SampleMedia
  imports Prelude
begin

text \<open>
  The media helpers of the sample application, compiled into
  \<open>src/test/ets/stage/receiver/entry/build/default/intermediates/assets/default/ets/pages/CameraPage.js\<close>:
  \<^item> \<open>DateTimeUtil\<close> renders a date as \<open>yyyyMMdd\<close> and a time as \<open>HHmmss\<close>, padding
    one-digit values with a zero (\<open>fill\<close>, \<open>concatDate\<close>, \<open>concatTime\<close>); each of
    \<open>getDate\<close> and \<open>getTime\<close> reads the clock (\<open>new Date()\<close>) on its own, so the
    model passes each the reading it gets;
  \<^item> \<open>MediaUtils\<close> names a new asset \<open>prefix + date + '_' + time + suffix\<close> after its
    media type (\<open>getInfoFromType\<close>, \<open>createAndGetUri\<close>) and counts the assets of each
    type for the album list (\<open>getFileAssetsFromType\<close>, \<open>getAlbums\<close>).
  The media library itself (\<open>@ohos.multimedia.mediaLibrary\<close>) is not code of this
  repository: its \<open>MediaType\<close> and \<open>DirectoryType\<close> constants and its asset store are
  modelled from its public declarations.
\<close>

subsection \<open>\<open>DateTimeUtil\<close>\<close>

text \<open>A reading of the clock: the fields \<open>getFullYear()\<close>, \<open>getMonth()\<close> (from 0),
  \<open>getDate()\<close>, \<open>getHours()\<close>, \<open>getMinutes()\<close> and \<open>getSeconds()\<close> of a \<open>Date\<close>.\<close>

record js_date =
  fullYear :: int
  month0 :: int
  day :: int
  hours :: int
  minutes :: int
  seconds :: int

text \<open>\<open>fill(value)\<close> is \<open>(value > 9 ? '' : '0') + value\<close>: string concatenation
  renders the number in decimal.\<close>

definition fill :: "int \<Rightarrow> string" where
  "fill value = (if value > 9 then [] else ''0'') @ js_int_str value"

definition concatDate :: "int \<Rightarrow> int \<Rightarrow> int \<Rightarrow> string" where
  "concatDate year month date = js_int_str year @ fill month @ fill date"

definition concatTime :: "int \<Rightarrow> int \<Rightarrow> int \<Rightarrow> string" where
  "concatTime hrs mins secs = fill hrs @ fill mins @ fill secs"

definition getTime :: "js_date \<Rightarrow> string" where
  "getTime now = concatTime (hours now) (minutes now) (seconds now)"

definition getDate :: "js_date \<Rightarrow> string" where
  "getDate now = concatDate (fullYear now) (month0 now + 1) (day now)"

text \<open>A clock reading with every field in its calendar range and a four-digit year.\<close>

definition valid_date :: "js_date \<Rightarrow> bool" where
  "valid_date d \<longleftrightarrow>
     1000 \<le> fullYear d \<and> fullYear d \<le> 9999 \<and> 0 \<le> month0 d \<and> month0 d \<le> 11 \<and>
     1 \<le> day d \<and> day d \<le> 31 \<and> 0 \<le> hours d \<and> hours d \<le> 23 \<and>
     0 \<le> minutes d \<and> minutes d \<le> 59 \<and> 0 \<le> seconds d \<and> seconds d \<le> 59"

definition same_second :: "js_date \<Rightarrow> js_date \<Rightarrow> bool" where
  "same_second d e \<longleftrightarrow>
     fullYear d = fullYear e \<and> month0 d = month0 e \<and> day d = day e \<and>
     hours d = hours e \<and> minutes d = minutes e \<and> seconds d = seconds e"

subsection \<open>The media library\<close>

text \<open>\<open>mediaLibrary.MediaType\<close> (\<open>FILE = 0, IMAGE, VIDEO, AUDIO\<close>) and
  \<open>mediaLibrary.DirectoryType\<close> (\<open>DIR_CAMERA = 0, DIR_VIDEO, DIR_IMAGE, DIR_AUDIO,
  DIR_DOCUMENTS, DIR_DOWNLOAD\<close>).\<close>

datatype MediaType = FILE | IMAGE | VIDEO | AUDIO

primrec MediaType_code :: "MediaType \<Rightarrow> int" where
  "MediaType_code FILE = 0"
| "MediaType_code IMAGE = 1"
| "MediaType_code VIDEO = 2"
| "MediaType_code AUDIO = 3"

definition DIR_VIDEO :: int where "DIR_VIDEO = 1"
definition DIR_IMAGE :: int where "DIR_IMAGE = 2"
definition DIR_AUDIO :: int where "DIR_AUDIO = 3"
definition DIR_DOCUMENTS :: int where "DIR_DOCUMENTS = 4"

text \<open>The library's store: its assets, each with the display name and relative path it was
  created under, the public directory of each directory type, and the next asset id.
  \<open>createAsset\<close> rejects a display name that already exists in the same relative path.\<close>

record media_asset =
  asset_id :: nat
  asset_mediaType :: int
  asset_displayName :: string
  asset_relativePath :: string

record media_lib =
  lib_assets :: "media_asset list"
  lib_publicDir :: "int \<Rightarrow> string"
  lib_next_id :: nat

datatype media_error = FileExists | TypeError

definition getPublicDirectory :: "media_lib \<Rightarrow> int \<Rightarrow> string" where
  "getPublicDirectory lib dirType = lib_publicDir lib dirType"

definition createAsset ::
  "media_lib \<Rightarrow> int \<Rightarrow> string \<Rightarrow> string \<Rightarrow> media_error + (media_lib \<times> media_asset)" where
  "createAsset lib mediaType displayName relativePath =
     (if list_ex (\<lambda>a. asset_displayName a = displayName \<and> asset_relativePath a = relativePath)
           (lib_assets lib)
      then Inl FileExists
      else (let a = \<lparr>asset_id = lib_next_id lib, asset_mediaType = mediaType,
                     asset_displayName = displayName, asset_relativePath = relativePath\<rparr>
            in Inr (lib\<lparr>lib_assets := lib_assets lib @ [a], lib_next_id := Suc (lib_next_id lib)\<rparr>, a)))"

subsection \<open>\<open>MediaUtils\<close>\<close>

record media_info =
  prefix :: string
  suffix :: string
  directory :: int

text \<open>\<open>getInfoFromType\<close>: a \<open>switch\<close> on the media type; an unknown type keeps the
  initial \<open>{prefix: '', suffix: '', directory: 0}\<close>.\<close>

definition getInfoFromType :: "int \<Rightarrow> media_info" where
  "getInfoFromType mediaType =
     (let result = \<lparr>prefix = [], suffix = [], directory = 0\<rparr> in
      if mediaType = MediaType_code FILE
        then result\<lparr>prefix := ''FILE_'', suffix := ''.txt'', directory := DIR_DOCUMENTS\<rparr>
      else if mediaType = MediaType_code IMAGE
        then result\<lparr>prefix := ''IMG_'', suffix := ''.jpg'', directory := DIR_IMAGE\<rparr>
      else if mediaType = MediaType_code VIDEO
        then result\<lparr>prefix := ''VID_'', suffix := ''.mp4'', directory := DIR_VIDEO\<rparr>
      else if mediaType = MediaType_code AUDIO
        then result\<lparr>prefix := ''AUD_'', suffix := ''.wav'', directory := DIR_AUDIO\<rparr>
      else result)"

text \<open>The display name \<open>createAndGetUri\<close> builds from the two clock readings of
  \<open>getDate()\<close> and \<open>getTime()\<close>, in that order.\<close>

definition displayName_of :: "int \<Rightarrow> js_date \<Rightarrow> js_date \<Rightarrow> string" where
  "displayName_of mediaType dateNow timeNow =
     (let info = getInfoFromType mediaType
      in prefix info @ getDate dateNow @ ''_'' @ getTime timeNow @ suffix info)"

definition createAndGetUri ::
  "media_lib \<Rightarrow> int \<Rightarrow> js_date \<Rightarrow> js_date \<Rightarrow> media_error + (media_lib \<times> media_asset)" where
  "createAndGetUri lib mediaType dateNow timeNow =
     (let info = getInfoFromType mediaType;
          displayName = displayName_of mediaType dateNow timeNow;
          publicPath = getPublicDirectory lib (directory info)
      in createAsset lib mediaType displayName publicPath)"

text \<open>\<open>getFileAssetsFromType\<close> fetches the assets whose media type is the given one;
  \<open>getAlbums\<close> runs it for the four types (\<open>Promise.all\<close>, no shared state) and lists
  one album per type with its count.\<close>

definition getFileAssetsFromType :: "media_lib \<Rightarrow> int \<Rightarrow> media_asset list" where
  "getFileAssetsFromType lib mediaType =
     (let fetched = filter (\<lambda>a. asset_mediaType a = mediaType) (lib_assets lib)
      in if length fetched > 0 then fetched else [])"

record album =
  albumName :: string
  album_count :: nat
  album_mediaType :: int

definition getAlbums :: "media_lib \<Rightarrow> album list" where
  "getAlbums lib =
     (let files = getFileAssetsFromType lib (MediaType_code FILE);
          images = getFileAssetsFromType lib (MediaType_code IMAGE);
          videos = getFileAssetsFromType lib (MediaType_code VIDEO);
          audios = getFileAssetsFromType lib (MediaType_code AUDIO)
      in [\<lparr>albumName = ''Documents'', album_count = length files, album_mediaType = MediaType_code FILE\<rparr>,
          \<lparr>albumName = ''Pictures'', album_count = length images, album_mediaType = MediaType_code IMAGE\<rparr>,
          \<lparr>albumName = ''Videos'', album_count = length videos, album_mediaType = MediaType_code VIDEO\<rparr>,
          \<lparr>albumName = ''Audios'', album_count = length audios, album_mediaType = MediaType_code AUDIO\<rparr>])"

subsection \<open>Sample inputs\<close>

text \<open>Clock readings and a library the witnesses below run the code on.\<close>

definition sample_noon :: js_date where
  "sample_noon = \<lparr>fullYear = 2022, month0 = 10, day = 5, hours = 12, minutes = 0, seconds = 0\<rparr>"

definition sample_noon_1s :: js_date where
  "sample_noon_1s = \<lparr>fullYear = 2022, month0 = 10, day = 5, hours = 12, minutes = 0, seconds = 1\<rparr>"

definition sample_lib :: media_lib where
  "sample_lib = \<lparr>lib_assets = [], lib_publicDir = (\<lambda>_. ''Pictures/''), lib_next_id = 0\<rparr>"

definition sample_asset :: media_asset where
  "sample_asset = \<lparr>asset_id = 0, asset_mediaType = 1, asset_displayName = ''IMG_20221105_120000.jpg'',
     asset_relativePath = ''Pictures/''\<rparr>"

subsection \<open>Rendering facts\<close>

lemma length_nat_str_range:
  "10 ^ k \<le> n \<Longrightarrow> n < 10 ^ Suc k \<Longrightarrow> length (nat_str n) = Suc k"
proof (induction k arbitrary: n)
  case 0
  then show ?case by (simp add: nat_str_small)
next
  case (Suc k)
  have "10 ^ k \<le> n div 10" and "n div 10 < 10 ^ Suc k"
    using Suc.prems by (simp_all add: less_eq_div_iff_mult_less_eq div_less_iff_less_mult mult.commute)
  moreover have "(10::nat) \<le> 10 ^ Suc k" by simp
  then have "\<not> n < 10" using Suc.prems(1) by linarith
  ultimately show ?case using Suc.IH by (simp add: nat_str_big)
qed

lemma fill_two_digits:
  assumes "0 \<le> v" "v \<le> 99"
  shows "length (fill v) = 2 \<and> digits_val (fill v) = nat v"
proof (cases "v > 9")
  case True
  then have "length (nat_str (nat v)) = 2"
    using assms length_nat_str_range [of 1 "nat v"] by simp
  with True show ?thesis by (simp add: fill_def)
next
  case False
  then have "nat v < 10" by simp
  with False assms show ?thesis
    by (simp add: fill_def nat_str_small digits_val_def)
qed

lemma fill_inj:
  "0 \<le> v \<Longrightarrow> v \<le> 99 \<Longrightarrow> 0 \<le> w \<Longrightarrow> w \<le> 99 \<Longrightarrow> fill v = fill w \<longleftrightarrow> v = w"
  using fill_two_digits by (metis nat_eq_iff2)

lemma year_str:
  assumes "1000 \<le> y" "y \<le> 9999"
  shows "length (js_int_str y) = 4 \<and> digits_val (js_int_str y) = nat y"
proof -
  have "length (nat_str (nat y)) = 4"
    using assms length_nat_str_range [of 3 "nat y"] by simp
  with assms show ?thesis by simp
qed

lemma concat_eq_lengths:
  "length a = length c \<Longrightarrow> a @ b = c @ d \<longleftrightarrow> a = c \<and> b = d"
  by simp

lemma getDate_facts:
  "valid_date d \<Longrightarrow> length (getDate d) = 8"
  using year_str [of "fullYear d"] fill_two_digits [of "month0 d + 1"] fill_two_digits [of "day d"]
  by (simp add: valid_date_def getDate_def concatDate_def)

lemma getTime_facts:
  "valid_date d \<Longrightarrow> length (getTime d) = 6"
  using fill_two_digits [of "hours d"] fill_two_digits [of "minutes d"] fill_two_digits [of "seconds d"]
  by (simp add: valid_date_def getTime_def concatTime_def)

lemma getDate_inj:
  assumes "valid_date d" "valid_date e"
  shows "getDate d = getDate e \<longleftrightarrow> fullYear d = fullYear e \<and> month0 d = month0 e \<and> day d = day e"
proof -
  have y: "js_int_str (fullYear d) = js_int_str (fullYear e) \<longleftrightarrow> fullYear d = fullYear e"
    using assms year_str [of "fullYear d"] year_str [of "fullYear e"]
    by (auto simp: valid_date_def)
  have m: "fill (month0 d + 1) = fill (month0 e + 1) \<longleftrightarrow> month0 d = month0 e"
    using assms fill_inj [of "month0 d + 1" "month0 e + 1"] by (simp add: valid_date_def)
  have dd: "fill (day d) = fill (day e) \<longleftrightarrow> day d = day e"
    using assms fill_inj [of "day d" "day e"] by (simp add: valid_date_def)
  have l: "length (js_int_str (fullYear d)) = length (js_int_str (fullYear e))"
    "length (fill (month0 d + 1)) = length (fill (month0 e + 1))"
    using assms year_str [of "fullYear d"] year_str [of "fullYear e"]
      fill_two_digits [of "month0 d + 1"] fill_two_digits [of "month0 e + 1"]
    by (simp_all add: valid_date_def)
  show ?thesis
    unfolding getDate_def concatDate_def concat_eq_lengths [OF l(1)] concat_eq_lengths [OF l(2)]
    using y m dd by blast
qed

lemma getTime_inj:
  assumes "valid_date d" "valid_date e"
  shows "getTime d = getTime e \<longleftrightarrow> hours d = hours e \<and> minutes d = minutes e \<and> seconds d = seconds e"
proof -
  have h: "fill (hours d) = fill (hours e) \<longleftrightarrow> hours d = hours e"
    using assms fill_inj [of "hours d" "hours e"] by (simp add: valid_date_def)
  have m: "fill (minutes d) = fill (minutes e) \<longleftrightarrow> minutes d = minutes e"
    using assms fill_inj [of "minutes d" "minutes e"] by (simp add: valid_date_def)
  have s: "fill (seconds d) = fill (seconds e) \<longleftrightarrow> seconds d = seconds e"
    using assms fill_inj [of "seconds d" "seconds e"] by (simp add: valid_date_def)
  have l: "length (fill (hours d)) = length (fill (hours e))"
    "length (fill (minutes d)) = length (fill (minutes e))"
    using assms fill_two_digits [of "hours d"] fill_two_digits [of "hours e"]
      fill_two_digits [of "minutes d"] fill_two_digits [of "minutes e"]
    by (simp_all add: valid_date_def)
  show ?thesis
    unfolding getTime_def concatTime_def concat_eq_lengths [OF l(1)] concat_eq_lengths [OF l(2)]
    using h m s by blast
qed

lemma displayName_same_second:
  "same_second d e \<Longrightarrow> displayName_of t d d = displayName_of t e e"
  by (simp add: same_second_def displayName_of_def getDate_def getTime_def)

lemma createAsset_Inr:
  "createAsset lib t n p = Inr (lib', a) \<Longrightarrow>
   lib_publicDir lib' = lib_publicDir lib \<and> a \<in> set (lib_assets lib') \<and>
   asset_displayName a = n \<and> asset_relativePath a = p \<and>
   set (lib_assets lib) \<subseteq> set (lib_assets lib')"
  by (auto simp: createAsset_def Let_def split: if_splits)

lemma createAsset_exists:
  "a \<in> set (lib_assets lib) \<Longrightarrow> asset_displayName a = n \<Longrightarrow> asset_relativePath a = p \<Longrightarrow>
   createAsset lib t n p = Inl FileExists"
  by (auto simp: createAsset_def list_ex_iff)

lemma MediaType_UNIV: "(UNIV :: MediaType set) = {FILE, IMAGE, VIDEO, AUDIO}"
proof -
  have "x \<in> {FILE, IMAGE, VIDEO, AUDIO}" for x by (cases x) simp_all
  then show ?thesis by blast
qed

lemma filter_four_types:
  "\<forall>a \<in> set xs. f a \<in> {0, 1, 2, 3::int} \<Longrightarrow>
   length (filter (\<lambda>a. f a = 0) xs) + length (filter (\<lambda>a. f a = 1) xs) +
   length (filter (\<lambda>a. f a = 2) xs) + length (filter (\<lambda>a. f a = 3) xs) = length xs"
  by (induction xs) auto

lemma getFileAssetsFromType_filter:
  "getFileAssetsFromType lib t = filter (\<lambda>a. asset_mediaType a = t) (lib_assets lib)"
  by (simp add: getFileAssetsFromType_def Let_def)

subsection \<open>Asset names\<close>

text \<open>
  C12. For clock readings in calendar range, two assets of one media type get the same
  display name exactly when both names were made in the same second: \<open>fill\<close> pads every
  field to two digits, so the name encodes the reading without ambiguity.
\<close>

theorem displayName_unique:
  assumes "valid_date d" "valid_date e"
  shows "displayName_of mediaType d d = displayName_of mediaType e e \<longleftrightarrow> same_second d e"
proof -
  have "length (getDate d) = length (getDate e)"
    using assms getDate_facts by simp
  moreover have "length (getTime d) = length (getTime e)"
    using assms getTime_facts by simp
  ultimately show ?thesis
    using getDate_inj [OF assms] getTime_inj [OF assms]
    by (simp add: displayName_of_def same_second_def Let_def)
qed

text \<open>
  C13. A second \<open>createAndGetUri\<close> within the same second as a successful one is rejected
  by the library: its display name is that of the asset just created, in the same public
  directory. In \<open>savePicture\<close> the rejection is awaited without a \<open>try\<close>, so a second
  photo taken in the same second is not saved.
\<close>

theorem createAndGetUri_same_second:
  assumes "createAndGetUri lib t d d = Inr (lib', a)" and "same_second d e"
  shows "createAndGetUri lib' t e e = Inl FileExists"
proof -
  let ?p = "getPublicDirectory lib (directory (getInfoFromType t))"
  have c: "createAsset lib t (displayName_of t d d) ?p = Inr (lib', a)"
    using assms(1) by (simp add: createAndGetUri_def)
  note facts = createAsset_Inr [OF c]
  have p: "getPublicDirectory lib' (directory (getInfoFromType t)) = ?p"
    using facts by (simp add: getPublicDirectory_def)
  have "createAsset lib' t (displayName_of t e e) ?p = Inl FileExists"
    using facts displayName_same_second [OF assms(2), of t] by (intro createAsset_exists [of a]) auto
  then show ?thesis using p by (simp add: createAndGetUri_def)
qed

subsection \<open>Albums\<close>

text \<open>
  C14. \<open>getAlbums\<close> lists the four media types in the order Documents, Pictures, Videos,
  Audios, and when every asset has one of these types the album counts add up to the number
  of assets in the library.
\<close>

theorem getAlbums_counts:
  assumes "\<forall>a \<in> set (lib_assets lib). asset_mediaType a \<in> MediaType_code ` UNIV"
  shows "map album_mediaType (getAlbums lib) = map MediaType_code [FILE, IMAGE, VIDEO, AUDIO] \<and>
         sum_list (map album_count (getAlbums lib)) = length (lib_assets lib)"
proof -
  have "MediaType_code ` UNIV = {0, 1, 2, 3}"
    by (simp add: MediaType_UNIV)
  then show ?thesis
    using filter_four_types [of "lib_assets lib" asset_mediaType] assms
    by (simp add: getAlbums_def getFileAssetsFromType_filter Let_def add.assoc)
qed

subsection \<open>Witnesses\<close>

lemmas sample_defs = sample_noon_def sample_noon_1s_def sample_lib_def sample_asset_def

lemmas render_defs = displayName_of_def getInfoFromType_def getDate_def getTime_def
  concatDate_def concatTime_def fill_def js_int_str_def nat_str_small nat_str_big digit_char_def

theorem displayName_unique_witness:
  "displayName_of 1 sample_noon sample_noon \<noteq> displayName_of 1 sample_noon_1s sample_noon_1s"
proof -
  have v: "valid_date sample_noon" "valid_date sample_noon_1s"
    by (simp_all add: sample_defs valid_date_def)
  have "\<not> same_second sample_noon sample_noon_1s"
    by (simp add: sample_defs same_second_def)
  then show ?thesis using displayName_unique [OF v, of 1] by simp
qed

theorem createAndGetUri_same_second_witness:
  "createAndGetUri (sample_lib\<lparr>lib_assets := [sample_asset], lib_next_id := 1\<rparr>) 1 sample_noon sample_noon
   = Inl FileExists"
proof -
  have "createAndGetUri sample_lib 1 sample_noon sample_noon =
        Inr (sample_lib\<lparr>lib_assets := [sample_asset], lib_next_id := 1\<rparr>, sample_asset)"
    by (simp add: createAndGetUri_def createAsset_def getPublicDirectory_def sample_defs render_defs Let_def)
  moreover have "same_second sample_noon sample_noon" by (simp add: same_second_def)
  ultimately show ?thesis by (rule createAndGetUri_same_second)
qed

theorem getAlbums_counts_witness:
  "sum_list (map album_count (getAlbums (sample_lib\<lparr>lib_assets := [sample_asset, sample_asset\<lparr>asset_mediaType := 3\<rparr>]\<rparr>))) = 2"
proof -
  have "\<forall>a \<in> set (lib_assets (sample_lib\<lparr>lib_assets := [sample_asset, sample_asset\<lparr>asset_mediaType := 3\<rparr>]\<rparr>)).
          asset_mediaType a \<in> MediaType_code ` UNIV"
    by (simp add: sample_defs image_iff) (metis MediaType_code.simps(2,4))
  from getAlbums_counts [OF this] show ?thesis by simp
qed

end
