(* ===== verification/CameraService.thy ===== *)
theory CameraService
  imports ImageTypes SampleMedia
begin

text \<open>
  The camera service of the sample application (\<open>class CameraService\<close> in
  \<open>src/test/ets/stage/receiver/entry/build/default/intermediates/assets/default/ets/pages/CameraPage.js\<close>).
  Its state is the record \<open>cam_svc\<close>, one field per member the constructor initialises;
  the camera framework (\<open>@ohos.multimedia.camera\<close>) is the environment \<open>cam_env\<close>:
  the camera devices, a counter that names each object it creates by a handle, the set of
  released objects, whether releasing an object twice is rejected (the framework's
  declarations do not say; the model keeps it as a parameter), and the trace of every call
  the service makes. Each method is a function from a state to a settled promise
  (\<open>js_then\<close> of the prelude): the rejection reason, if any, and the state reached, since
  the effects before a rejection remain. A member read on \<open>undefined\<close> is the rejection
  \<open>TypeError\<close>.
\<close>

subsection \<open>Constants and state\<close>

definition MODE_PHOTO :: int where "MODE_PHOTO = 0"
definition MODE_VIDEO :: int where "MODE_VIDEO = 1"

definition CameraSize_WIDTH :: int where "CameraSize_WIDTH = 1920"
definition CameraSize_HEIGHT :: int where "CameraSize_HEIGHT = 1080"

text \<open>The constructor's receiver: \<open>createImageReceiver(CameraSize.WIDTH, CameraSize.HEIGHT,
  4, 8)\<close>, as width, height, format and capacity.\<close>

definition receiver_args :: "int \<times> int \<times> int \<times> int" where
  "receiver_args = (CameraSize_WIDTH, CameraSize_HEIGHT, 4, 8)"

type_synonym handle = nat

datatype cam_call =
    GetCameraManager
  | GetCameras
  | CreateCameraInput string
  | CreatePreviewOutput string
  | GetReceivingSurfaceId
  | CreatePhotoOutput string
  | CreateCaptureSession
  | BeginConfig handle
  | AddInput handle "handle option"
  | AddOutput handle "handle option"
  | CommitConfig handle
  | Start handle
  | Capture handle
  | Stop handle
  | Release handle

datatype cam_error = TypeError | Rejected handle

record cam_env =
  cam_devices :: "string list"
  cam_next :: handle
  cam_released :: "handle set"
  release_rejects_twice :: bool
  receiver_surface :: string
  cam_calls :: "cam_call list"

record cam_svc =
  cameraManager :: "handle option"
  cameras :: "string list option"
  cameraId :: string
  cameraInput :: "handle option"
  previewOutput :: "handle option"
  photoOutPut :: "handle option"
  captureSession :: "handle option"
  photoUri :: string
  fd :: int
  curMode :: int
  handleTakePicture :: bool

type_synonym cam_state = "cam_svc \<times> cam_env"
type_synonym cam_result = "cam_error option \<times> cam_state"

text \<open>The state right after the constructor (lines 47 to 62); the receiver is created and
  subscribed there and is not part of the lifecycle below.\<close>

definition svc_init :: cam_svc where
  "svc_init = \<lparr>cameraManager = None, cameras = None, cameraId = [], cameraInput = None,
     previewOutput = None, photoOutPut = None, captureSession = None, photoUri = [],
     fd = -1, curMode = MODE_PHOTO, handleTakePicture = False\<rparr>"

subsection \<open>The camera framework\<close>

text \<open>A call that creates an object returns a fresh handle; every call is traced. Releasing
  an object marks it released; releasing a released one is rejected when the framework
  does so. A capture on a released photo output is rejected.\<close>

definition cam_log :: "cam_call \<Rightarrow> cam_env \<Rightarrow> cam_env" where
  "cam_log c e = e\<lparr>cam_calls := cam_calls e @ [c]\<rparr>"

definition cam_new :: "cam_call \<Rightarrow> cam_env \<Rightarrow> handle \<times> cam_env" where
  "cam_new c e = (cam_next e, (cam_log c e)\<lparr>cam_next := Suc (cam_next e)\<rparr>)"

definition cam_release :: "handle \<Rightarrow> cam_svc \<Rightarrow> cam_env \<Rightarrow> cam_result" where
  "cam_release h s e =
     (let e' = cam_log (Release h) e in
      if h \<in> cam_released e \<and> release_rejects_twice e then (Some (Rejected h), s, e')
      else (None, s, e'\<lparr>cam_released := insert h (cam_released e)\<rparr>))"

text \<open>\<open>if (x) { await x.release(); }\<close>\<close>

definition release_if :: "handle option \<Rightarrow> cam_state \<Rightarrow> cam_result" where
  "release_if x st = (case x of None \<Rightarrow> (None, st) | Some h \<Rightarrow> cam_release h (fst st) (snd st))"

text \<open>\<open>await x.release()\<close> without a guard: \<open>undefined.release\<close> throws.\<close>

definition release_must :: "handle option \<Rightarrow> cam_state \<Rightarrow> cam_result" where
  "release_must x st = (case x of None \<Rightarrow> (Some TypeError, st) | Some h \<Rightarrow> cam_release h (fst st) (snd st))"

subsection \<open>Methods\<close>

text \<open>\<open>releaseCamera\<close> (lines 256 to 270): stop the session, release the input and the two
  outputs when present, then release the input a second time and the session.\<close>

definition releaseCamera :: "cam_state \<Rightarrow> cam_result" where
  "releaseCamera st =
     (let (s, e) = st in
      case captureSession s of
        None \<Rightarrow> (Some TypeError, s, e)
      | Some ses \<Rightarrow>
          js_then (None, s, cam_log (Stop ses) e) (\<lambda>st.
          js_then (release_if (cameraInput s) st) (\<lambda>st.
          js_then (release_if (previewOutput s) st) (\<lambda>st.
          js_then (release_if (photoOutPut s) st) (\<lambda>st.
          js_then (release_must (cameraInput s) st) (\<lambda>st.
          cam_release ses (fst st) (snd st)))))))"

text \<open>\<open>initCamera(surfaceId)\<close> (lines 203 to 234), awaiting each framework call in turn.
  With no camera it returns after \<open>getCameras\<close>.\<close>

definition initCamera_rest :: "string \<Rightarrow> cam_state \<Rightarrow> cam_result" where
  "initCamera_rest surfaceId st =
     (let (s, e) = st;
          (mgr, e) = cam_new GetCameraManager e;
          s = s\<lparr>cameraManager := Some mgr\<rparr>;
          e = cam_log GetCameras e;
          s = s\<lparr>cameras := Some (cam_devices e)\<rparr>
      in if cam_devices e = [] then (None, s, e)
      else
        (let s = s\<lparr>cameraId := hd (cam_devices e)\<rparr>;
             (inp, e) = cam_new (CreateCameraInput (cameraId s)) e;
             s = s\<lparr>cameraInput := Some inp\<rparr>;
             (prev, e) = cam_new (CreatePreviewOutput surfaceId) e;
             s = s\<lparr>previewOutput := Some prev\<rparr>;
             e = cam_log GetReceivingSurfaceId e;
             (ph, e) = cam_new (CreatePhotoOutput (receiver_surface e)) e;
             s = s\<lparr>photoOutPut := Some ph\<rparr>;
             (ses, e) = cam_new CreateCaptureSession e;
             s = s\<lparr>captureSession := Some ses\<rparr>;
             e = cam_log (BeginConfig ses) e;
             e = cam_log (AddInput ses (Some inp)) e;
             e = cam_log (AddOutput ses (Some prev)) e;
             e = cam_log (AddOutput ses (Some ph)) e;
             e = cam_log (CommitConfig ses) e;
             e = cam_log (Start ses) e
         in (None, s, e)))"

definition initCamera :: "string \<Rightarrow> cam_state \<Rightarrow> cam_result" where
  "initCamera surfaceId st =
     (if curMode (fst st) = MODE_VIDEO
      then js_then (releaseCamera st) (\<lambda>(s, e). initCamera_rest surfaceId (s\<lparr>curMode := MODE_PHOTO\<rparr>, e))
      else initCamera_rest surfaceId st)"

definition setTakePictureCallback :: "cam_state \<Rightarrow> cam_state" where
  "setTakePictureCallback st = (let (s, e) = st in (s\<lparr>handleTakePicture := True\<rparr>, e))"

text \<open>\<open>takePicture\<close> (lines 238 to 255): the photo settings are constants.\<close>

definition takePicture :: "cam_state \<Rightarrow> cam_result" where
  "takePicture st =
     (let (s, e) = st;
          s = (if curMode s = MODE_VIDEO then s\<lparr>curMode := MODE_PHOTO\<rparr> else s)
      in case photoOutPut s of
           None \<Rightarrow> (Some TypeError, s, e)
         | Some ph \<Rightarrow>
             if ph \<in> cam_released e then (Some (Rejected ph), s, cam_log (Capture ph) e)
             else (None, s, cam_log (Capture ph) e))"

text \<open>A framework state in which the handles it will create are not yet released.\<close>

definition env_wf :: "cam_env \<Rightarrow> bool" where
  "env_wf e \<longleftrightarrow> (\<forall>h \<in> cam_released e. h < cam_next e)"

subsection \<open>Sample framework\<close>

text \<open>One camera, no object created yet, a framework that accepts a second release.\<close>

definition sample_env :: cam_env where
  "sample_env = \<lparr>cam_devices = [''0''], cam_next = 0, cam_released = {}, release_rejects_twice = False,
     receiver_surface = ''rcv'', cam_calls = []\<rparr>"

subsection \<open>Behaviour of the methods\<close>

lemmas cam_defs = cam_log_def cam_new_def

lemma initCamera_rest_devices:
  assumes "cam_devices e = d # ds"
  shows "initCamera_rest sid (s, e) =
    (None,
     s\<lparr>cameraManager := Some (cam_next e), cameras := Some (d # ds), cameraId := d,
       cameraInput := Some (cam_next e + 1), previewOutput := Some (cam_next e + 2),
       photoOutPut := Some (cam_next e + 3), captureSession := Some (cam_next e + 4)\<rparr>,
     e\<lparr>cam_next := cam_next e + 5,
       cam_calls := cam_calls e @
         [GetCameraManager, GetCameras, CreateCameraInput d, CreatePreviewOutput sid,
          GetReceivingSurfaceId, CreatePhotoOutput (receiver_surface e), CreateCaptureSession,
          BeginConfig (cam_next e + 4), AddInput (cam_next e + 4) (Some (cam_next e + 1)),
          AddOutput (cam_next e + 4) (Some (cam_next e + 2)), AddOutput (cam_next e + 4) (Some (cam_next e + 3)),
          CommitConfig (cam_next e + 4), Start (cam_next e + 4)]\<rparr>)"
  using assms by (simp add: initCamera_rest_def cam_defs Let_def)

lemma initCamera_rest_no_devices:
  "cam_devices e = [] \<Longrightarrow> initCamera_rest sid (s, e) =
     (None, s\<lparr>cameraManager := Some (cam_next e), cameras := Some []\<rparr>,
      e\<lparr>cam_next := Suc (cam_next e), cam_calls := cam_calls e @ [GetCameraManager, GetCameras]\<rparr>)"
  by (simp add: initCamera_rest_def cam_defs Let_def)

lemma releaseCamera_fresh:
  assumes "captureSession s = Some ses" "cameraInput s = Some i" "previewOutput s = Some p"
    "photoOutPut s = Some h" "{i, p, h, ses} \<inter> cam_released e = {}" "distinct [i, p, h, ses]"
  shows "releaseCamera (s, e) =
    (if release_rejects_twice e
     then (Some (Rejected i), s,
           e\<lparr>cam_released := {h, p, i} \<union> cam_released e,
             cam_calls := cam_calls e @ [Stop ses, Release i, Release p, Release h, Release i]\<rparr>)
     else (None, s,
           e\<lparr>cam_released := {ses, h, p, i} \<union> cam_released e,
             cam_calls := cam_calls e @ [Stop ses, Release i, Release p, Release h, Release i, Release ses]\<rparr>))"
  using assms
  by (simp add: releaseCamera_def release_if_def release_must_def cam_release_def cam_log_def Let_def insert_commute)

lemma cam_release_err:
  "fst (cam_release h s e) = Some err \<Longrightarrow> err = Rejected h \<and> release_rejects_twice e"
  by (simp add: cam_release_def Let_def split: if_splits)

lemma cam_release_flag [simp]: "release_rejects_twice (snd (snd (cam_release h s e))) = release_rejects_twice e"
  by (simp add: cam_release_def cam_log_def Let_def)

lemma releaseCamera_errors:
  "fst (releaseCamera (s, e)) = Some err \<Longrightarrow>
   (err = TypeError \<and> (captureSession s = None \<or> cameraInput s = None)) \<or>
   (release_rejects_twice e \<and> (\<exists>h. err = Rejected h))"
  by (cases "captureSession s"; cases "cameraInput s"; cases "previewOutput s"; cases "photoOutPut s")
     (auto simp: releaseCamera_def release_if_def release_must_def js_then_def cam_log_def
        dest!: cam_release_err split: option.splits)

text \<open>No method but \<open>initCamera\<close> changes the service's fields; \<open>releaseCamera\<close> releases
  the framework objects and leaves the fields pointing at them.\<close>

lemma cam_release_svc [simp]: "fst (snd (cam_release h s e)) = s"
  by (simp add: cam_release_def Let_def)

lemma release_if_svc [simp]: "fst (snd (release_if x st)) = fst st"
  by (simp add: release_if_def split: option.split)

lemma release_must_svc [simp]: "fst (snd (release_must x st)) = fst st"
  by (simp add: release_must_def split: option.split)

lemma js_then_svc:
  "fst (snd r) = s \<Longrightarrow> (\<And>st. fst st = s \<Longrightarrow> fst (snd (f st)) = s) \<Longrightarrow> fst (snd (js_then r f)) = s"
  by (cases r) (auto simp: js_then_def split: option.split)

lemma releaseCamera_svc: "fst (snd (releaseCamera (s, e))) = s"
  unfolding releaseCamera_def by (auto split: option.split intro!: js_then_svc)

subsection \<open>Properties\<close>

text \<open>
  C15. With a camera available, \<open>initCamera\<close> creates the manager, the input on the first
  camera, the preview output on the page's surface, the photo output on the receiver's
  surface and a session, in that order, configures the session with the input and both
  outputs and starts it.
\<close>

theorem initCamera_session:
  assumes "curMode s \<noteq> MODE_VIDEO" "cam_devices e = d # ds"
  shows "initCamera sid (s, e) =
    (None,
     s\<lparr>cameraManager := Some (cam_next e), cameras := Some (d # ds), cameraId := d,
       cameraInput := Some (cam_next e + 1), previewOutput := Some (cam_next e + 2),
       photoOutPut := Some (cam_next e + 3), captureSession := Some (cam_next e + 4)\<rparr>,
     e\<lparr>cam_next := cam_next e + 5,
       cam_calls := cam_calls e @
         [GetCameraManager, GetCameras, CreateCameraInput d, CreatePreviewOutput sid,
          GetReceivingSurfaceId, CreatePhotoOutput (receiver_surface e), CreateCaptureSession,
          BeginConfig (cam_next e + 4), AddInput (cam_next e + 4) (Some (cam_next e + 1)),
          AddOutput (cam_next e + 4) (Some (cam_next e + 2)), AddOutput (cam_next e + 4) (Some (cam_next e + 3)),
          CommitConfig (cam_next e + 4), Start (cam_next e + 4)]\<rparr>)"
  using assms by (simp add: initCamera_def initCamera_rest_devices)

text \<open>
  C16. \<open>releaseCamera\<close> after a successful \<open>initCamera\<close> releases the camera input twice
  (lines 260 and 268). When the framework rejects the second release, \<open>releaseCamera\<close>
  rejects with it and the capture session is never released; otherwise the input is
  released twice and then the session.
\<close>

theorem releaseCamera_double_release:
  assumes "curMode s \<noteq> MODE_VIDEO" "cam_devices e = d # ds" "env_wf e"
    and "initCamera sid (s, e) = (r, s', e')"
  shows "releaseCamera (s', e') =
    (if release_rejects_twice e
     then (Some (Rejected (cam_next e + 1)), s',
           e'\<lparr>cam_released := {cam_next e + 3, cam_next e + 2, cam_next e + 1} \<union> cam_released e,
              cam_calls := cam_calls e' @ [Stop (cam_next e + 4), Release (cam_next e + 1),
                Release (cam_next e + 2), Release (cam_next e + 3), Release (cam_next e + 1)]\<rparr>)
     else (None, s',
           e'\<lparr>cam_released := {cam_next e + 4, cam_next e + 3, cam_next e + 2, cam_next e + 1} \<union> cam_released e,
              cam_calls := cam_calls e' @ [Stop (cam_next e + 4), Release (cam_next e + 1),
                Release (cam_next e + 2), Release (cam_next e + 3), Release (cam_next e + 1),
                Release (cam_next e + 4)]\<rparr>))"
proof -
  have e': "cam_released e' = cam_released e" "release_rejects_twice e' = release_rejects_twice e"
    and s': "captureSession s' = Some (cam_next e + 4)" "cameraInput s' = Some (cam_next e + 1)"
      "previewOutput s' = Some (cam_next e + 2)" "photoOutPut s' = Some (cam_next e + 3)"
    using assms(1,2,4) by (auto simp: initCamera_def initCamera_rest_devices)
  have "{cam_next e + 1, cam_next e + 2, cam_next e + 3, cam_next e + 4} \<inter> cam_released e' = {}"
    using assms(3) e' by (auto simp: env_wf_def)
  then show ?thesis
    using releaseCamera_fresh [OF s'] e' by simp
qed

subsection \<open>Witnesses\<close>

theorem initCamera_session_witness:
  "fst (initCamera ''xc'' (svc_init, sample_env)) = None \<and>
   captureSession (fst (snd (initCamera ''xc'' (svc_init, sample_env)))) = Some 4"
  using initCamera_session [of svc_init sample_env "''0''" "[]" "''xc''"]
  by (simp add: svc_init_def sample_env_def MODE_PHOTO_def MODE_VIDEO_def)

theorem releaseCamera_double_release_witness:
  "cam_calls (snd (snd (releaseCamera (snd (initCamera ''xc'' (svc_init, sample_env)))))) =
   cam_calls (snd (snd (initCamera ''xc'' (svc_init, sample_env)))) @
     [Stop 4, Release 1, Release 2, Release 3, Release 1, Release 4]"
proof -
  obtain r s' e' where i: "initCamera ''xc'' (svc_init, sample_env) = (r, s', e')"
    by (cases "initCamera ''xc'' (svc_init, sample_env)") auto
  have "curMode svc_init \<noteq> MODE_VIDEO" "cam_devices sample_env = ''0'' # []" "env_wf sample_env"
    by (simp_all add: svc_init_def sample_env_def env_wf_def MODE_PHOTO_def MODE_VIDEO_def)
  from releaseCamera_double_release [OF this i] i show ?thesis
    by (simp add: sample_env_def)
qed

end
