(* ===== verification/CameraPage.thy ===== *)
theory CameraPage
  imports CameraService
begin

text \<open>
  The camera page of the sample application (\<open>class CameraPage\<close> in
  \<open>src/test/ets/stage/receiver/entry/build/default/intermediates/assets/default/ets/pages/CameraPage.js\<close>)
  and the concurrency it creates: the page starts \<open>CameraService.initCamera\<close> and
  \<open>takePicture\<close> without awaiting them, so its events interleave with the steps of a running
  \<open>initCamera\<close>. The theory holds the step decomposition of \<open>initCamera\<close>, its refinement
  of the sequential definition, the page's events as a step function, the reachable states as
  an inductive predicate with their invariant, and runs that show which interleavings reject.
\<close>

subsection \<open>\<open>initCamera\<close> as a task\<close>

text \<open>
  The page starts \<open>initCamera\<close> without awaiting it, so other events run at each of its
  \<open>await\<close>s. The task is a sequence of steps: \<open>init_start\<close> runs the code up to the first
  framework call and issues it; each \<open>init_resume\<close> receives the value the awaited call
  resolves to (carried by the resume point \<open>init_pc\<close>), assigns it, and runs on to the next
  call. A framework call takes effect when it is issued; the service's field changes only
  when the task resumes. Member reads on the service fields happen at the step that runs
  them, so a step after the session exists reads the fields as they are then.
\<close>

datatype init_pc =
    AwaitManager handle
  | AwaitCameras
  | AwaitInput handle
  | AwaitPreview handle
  | AwaitSurface
  | AwaitPhoto handle
  | AwaitSession handle
  | AwaitBegin
  | AwaitAddInput
  | AwaitAddPreview
  | AwaitAddPhoto
  | AwaitCommit
  | AwaitStart

definition init_start :: "cam_state \<Rightarrow> cam_state \<times> init_pc" where
  "init_start st = (let (s, e) = st; (mgr, e) = cam_new GetCameraManager e in ((s, e), AwaitManager mgr))"

text \<open>A session call \<open>this.captureSession.f(...)\<close> at a resume point: \<open>TypeError\<close> when
  the field is \<open>undefined\<close>; the framework rejects a call on a released session.\<close>

definition session_call ::
  "(handle \<Rightarrow> cam_call) \<Rightarrow> init_pc \<Rightarrow> cam_state \<Rightarrow> cam_error option \<times> cam_state \<times> init_pc option" where
  "session_call c pc st =
     (let (s, e) = st in
      case captureSession s of
        None \<Rightarrow> (Some TypeError, (s, e), None)
      | Some ses \<Rightarrow>
          if ses \<in> cam_released e then (Some (Rejected ses), (s, cam_log (c ses) e), None)
          else (None, (s, cam_log (c ses) e), Some pc))"

fun init_resume ::
  "string \<Rightarrow> init_pc \<Rightarrow> cam_state \<Rightarrow> cam_error option \<times> cam_state \<times> init_pc option" where
  "init_resume sid (AwaitManager mgr) (s, e) =
     (None, (s\<lparr>cameraManager := Some mgr\<rparr>, cam_log GetCameras e), Some AwaitCameras)"
| "init_resume sid AwaitCameras (s, e) =
     (let s = s\<lparr>cameras := Some (cam_devices e)\<rparr> in
      if cam_devices e = [] then (None, (s, e), None)
      else (let s = s\<lparr>cameraId := hd (cam_devices e)\<rparr>;
                (inp, e) = cam_new (CreateCameraInput (cameraId s)) e
            in (None, (s, e), Some (AwaitInput inp))))"
| "init_resume sid (AwaitInput inp) (s, e) =
     (let s = s\<lparr>cameraInput := Some inp\<rparr>; (prev, e) = cam_new (CreatePreviewOutput sid) e
      in (None, (s, e), Some (AwaitPreview prev)))"
| "init_resume sid (AwaitPreview prev) (s, e) =
     (None, (s\<lparr>previewOutput := Some prev\<rparr>, cam_log GetReceivingSurfaceId e), Some AwaitSurface)"
| "init_resume sid AwaitSurface (s, e) =
     (let (ph, e) = cam_new (CreatePhotoOutput (receiver_surface e)) e in (None, (s, e), Some (AwaitPhoto ph)))"
| "init_resume sid (AwaitPhoto ph) (s, e) =
     (let s = s\<lparr>photoOutPut := Some ph\<rparr>; (ses, e) = cam_new CreateCaptureSession e
      in (None, (s, e), Some (AwaitSession ses)))"
| "init_resume sid (AwaitSession ses) (s, e) =
     session_call BeginConfig AwaitBegin (s\<lparr>captureSession := Some ses\<rparr>, e)"
| "init_resume sid AwaitBegin (s, e) = session_call (\<lambda>ses. AddInput ses (cameraInput s)) AwaitAddInput (s, e)"
| "init_resume sid AwaitAddInput (s, e) = session_call (\<lambda>ses. AddOutput ses (previewOutput s)) AwaitAddPreview (s, e)"
| "init_resume sid AwaitAddPreview (s, e) = session_call (\<lambda>ses. AddOutput ses (photoOutPut s)) AwaitAddPhoto (s, e)"
| "init_resume sid AwaitAddPhoto (s, e) = session_call CommitConfig AwaitCommit (s, e)"
| "init_resume sid AwaitCommit (s, e) = session_call Start AwaitStart (s, e)"
| "init_resume sid AwaitStart (s, e) = (None, (s, e), None)"

text \<open>Running the task to its end without other events, with fuel: \<open>None\<close> is fuel run out.\<close>

fun run_init :: "nat \<Rightarrow> string \<Rightarrow> init_pc \<Rightarrow> cam_state \<Rightarrow> cam_result option" where
  "run_init 0 sid pc st = None"
| "run_init (Suc n) sid pc st =
     (case init_resume sid pc st of
        (Some err, st', _) \<Rightarrow> Some (Some err, st')
      | (None, st', None) \<Rightarrow> Some (None, st')
      | (None, st', Some pc') \<Rightarrow> run_init n sid pc' st')"

subsection \<open>The camera page\<close>

text \<open>
  \<open>CameraPage\<close> (lines 621 to 785) drives the service: the surface's \<open>onLoad\<close> sets
  \<open>curModel\<close> to photo mode and starts \<open>initCamera\<close> without awaiting it; a click on the
  shutter in photo mode calls \<open>takePicture()\<close> without awaiting it; \<open>aboutToDisappear\<close>
  awaits \<open>releaseCamera()\<close>, and nothing awaits \<open>aboutToDisappear\<close>. A rejection of any of
  these promises is therefore unhandled; the model collects them in \<open>sys_unhandled\<close>.
  The events interleave with the steps of a running \<open>initCamera\<close>; \<open>takePicture\<close> has
  all its effects before its first \<open>await\<close>, and \<open>releaseCamera\<close> is taken as one step.
  The model runs one \<open>initCamera\<close> task at a time (the surface loads once).
\<close>

record page_sys =
  sys_cam :: cam_state
  sys_init :: "init_pc option"
  sys_curModel :: int
  sys_unhandled :: "cam_error list"
  sys_surfaceId :: string

datatype page_event = OnLoad | InitResume | Click | Disappear

definition page_start :: "cam_env \<Rightarrow> string \<Rightarrow> page_sys" where
  "page_start e sid = \<lparr>sys_cam = (svc_init, e), sys_init = None, sys_curModel = MODE_PHOTO,
     sys_unhandled = [], sys_surfaceId = sid\<rparr>"

definition unhandled :: "cam_error option \<Rightarrow> page_sys \<Rightarrow> page_sys" where
  "unhandled r p = (case r of None \<Rightarrow> p | Some err \<Rightarrow> p\<lparr>sys_unhandled := sys_unhandled p @ [err]\<rparr>)"

text \<open>\<open>onLoad\<close> (lines 731 to 738) and the synchronous part of \<open>initCamera\<close>: in video mode
  the awaited \<open>releaseCamera\<close> comes first.\<close>

definition page_onLoad :: "page_sys \<Rightarrow> page_sys" where
  "page_onLoad p =
     (let p = p\<lparr>sys_curModel := MODE_PHOTO\<rparr>; st = sys_cam p in
      if curMode (fst st) = MODE_VIDEO then
        (case releaseCamera st of
           (Some err, st') \<Rightarrow> unhandled (Some err) (p\<lparr>sys_cam := st'\<rparr>)
         | (None, (s, e)) \<Rightarrow>
             (let (st'', pc) = init_start (s\<lparr>curMode := MODE_PHOTO\<rparr>, e)
              in p\<lparr>sys_cam := st'', sys_init := Some pc\<rparr>))
      else (let (st', pc) = init_start st in p\<lparr>sys_cam := st', sys_init := Some pc\<rparr>))"

definition page_step :: "page_event \<Rightarrow> page_sys \<Rightarrow> page_sys option" where
  "page_step ev p =
     (case ev of
        OnLoad \<Rightarrow> if sys_init p = None then Some (page_onLoad p) else None
      | InitResume \<Rightarrow>
          (case sys_init p of
             None \<Rightarrow> None
           | Some pc \<Rightarrow>
               (let (r, st, pc') = init_resume (sys_surfaceId p) pc (sys_cam p)
                in Some (unhandled r (p\<lparr>sys_cam := st, sys_init := pc'\<rparr>))))
      | Click \<Rightarrow>
          if sys_curModel p = MODE_PHOTO
          then (let (r, st) = takePicture (sys_cam p) in Some (unhandled r (p\<lparr>sys_cam := st\<rparr>)))
          else Some p
      | Disappear \<Rightarrow>
          (let (r, st) = releaseCamera (sys_cam p) in Some (unhandled r (p\<lparr>sys_cam := st\<rparr>))))"

fun run_events :: "page_event list \<Rightarrow> page_sys \<Rightarrow> page_sys option" where
  "run_events [] p = Some p"
| "run_events (ev # evs) p = (case page_step ev p of None \<Rightarrow> None | Some p' \<Rightarrow> run_events evs p')"

inductive reach :: "cam_env \<Rightarrow> string \<Rightarrow> page_sys \<Rightarrow> bool" for e0 sid where
  reach_start: "reach e0 sid (page_start e0 sid)"
| reach_step: "reach e0 sid p \<Longrightarrow> page_step ev p = Some p' \<Longrightarrow> reach e0 sid p'"

subsection \<open>Invariant\<close>

text \<open>The service fields are filled in the order of \<open>initCamera\<close> and never cleared, and
  nothing sets video mode.\<close>

definition svc_wf :: "cam_svc \<Rightarrow> bool" where
  "svc_wf s \<longleftrightarrow> curMode s = MODE_PHOTO \<and>
     (captureSession s \<noteq> None \<longrightarrow> photoOutPut s \<noteq> None) \<and>
     (photoOutPut s \<noteq> None \<longrightarrow> previewOutput s \<noteq> None) \<and>
     (previewOutput s \<noteq> None \<longrightarrow> cameraInput s \<noteq> None)"

text \<open>What a resume point of the task needs of the fields assigned before it.\<close>

fun pc_wf :: "init_pc \<Rightarrow> cam_svc \<Rightarrow> bool" where
  "pc_wf (AwaitPreview _) s = (cameraInput s \<noteq> None)"
| "pc_wf AwaitSurface s = (previewOutput s \<noteq> None)"
| "pc_wf (AwaitPhoto _) s = (previewOutput s \<noteq> None)"
| "pc_wf (AwaitSession _) s = (photoOutPut s \<noteq> None)"
| "pc_wf _ s = True"

definition page_inv :: "page_sys \<Rightarrow> bool" where
  "page_inv p \<longleftrightarrow> svc_wf (fst (sys_cam p)) \<and> sys_curModel p = MODE_PHOTO \<and>
     (case sys_init p of None \<Rightarrow> True | Some pc \<Rightarrow> pc_wf pc (fst (sys_cam p)))"

subsection \<open>The task refines \<open>initCamera\<close>\<close>

lemma session_call_svc:
  "session_call c pc (s, e) = (r, st, pc') \<Longrightarrow> fst st = s \<and> (pc' = None \<or> pc' = Some pc)"
  by (auto simp: session_call_def split: option.splits if_splits)

text \<open>
  Run to its end with no other event in between, the step decomposition of
  \<open>initCamera\<close> (the first step and thirteen resumptions) gives exactly the result of the
  sequential \<open>initCamera\<close>: the task model is a refinement of the method.
\<close>

lemma run_init_refines:
  "curMode s \<noteq> MODE_VIDEO \<Longrightarrow> env_wf e \<Longrightarrow>
   (case init_start (s, e) of (st, pc) \<Rightarrow> run_init 13 sid pc st) = Some (initCamera sid (s, e))"
  by (cases "cam_devices e")
     (auto simp: initCamera_def initCamera_rest_def init_start_def session_call_def cam_defs env_wf_def
        Let_def numeral_eq_Suc)

subsection \<open>Reachable states\<close>

lemma init_resume_wf:
  assumes "init_resume sid pc (s, e) = (r, (s', e'), pc')" "svc_wf s" "pc_wf pc s"
  shows "svc_wf s' \<and> (case pc' of None \<Rightarrow> True | Some pc'' \<Rightarrow> pc_wf pc'' s')"
  using assms
  by (cases pc) (auto simp: svc_wf_def cam_defs Let_def session_call_def split: if_splits option.splits prod.splits)

lemma page_onLoad_photo:
  "curMode (fst (sys_cam p)) \<noteq> MODE_VIDEO \<Longrightarrow> \<exists>e' h. page_onLoad p =
     p\<lparr>sys_curModel := MODE_PHOTO, sys_cam := (fst (sys_cam p), e'), sys_init := Some (AwaitManager h)\<rparr>"
  by (cases "sys_cam p") (auto simp: page_onLoad_def init_start_def Let_def cam_defs)

lemma page_step_inv:
  assumes "page_step ev p = Some p'" "page_inv p"
  shows "page_inv p'"
proof (cases ev)
  case OnLoad
  have "curMode (fst (sys_cam p)) \<noteq> MODE_VIDEO"
    using assms(2) by (simp add: page_inv_def svc_wf_def MODE_PHOTO_def MODE_VIDEO_def)
  then obtain e' h where "page_onLoad p =
      p\<lparr>sys_curModel := MODE_PHOTO, sys_cam := (fst (sys_cam p), e'), sys_init := Some (AwaitManager h)\<rparr>"
    using page_onLoad_photo by blast
  then have "p' = p\<lparr>sys_curModel := MODE_PHOTO, sys_cam := (fst (sys_cam p), e'), sys_init := Some (AwaitManager h)\<rparr>"
    using OnLoad assms(1) by (simp add: page_step_def split: if_splits)
  with assms(2) show ?thesis by (simp add: page_inv_def)
next
  case InitResume
  then obtain pc r s' e' pc' where pc: "sys_init p = Some pc"
    and ir: "init_resume (sys_surfaceId p) pc (sys_cam p) = (r, (s', e'), pc')"
    and p': "p' = unhandled r (p\<lparr>sys_cam := (s', e'), sys_init := pc'\<rparr>)"
    using assms(1) by (auto simp: page_step_def split: option.splits prod.splits)
  have "svc_wf s' \<and> (case pc' of None \<Rightarrow> True | Some pc'' \<Rightarrow> pc_wf pc'' s')"
    using init_resume_wf [of _ pc "fst (sys_cam p)" "snd (sys_cam p)"] ir assms(2) pc
    by (auto simp: page_inv_def)
  then show ?thesis using p' assms(2)
    by (auto simp: page_inv_def unhandled_def split: option.splits)
next
  case Click
  with assms show ?thesis
    by (auto simp: page_step_def page_inv_def takePicture_def unhandled_def svc_wf_def cam_defs Let_def
             MODE_PHOTO_def MODE_VIDEO_def split: option.splits if_splits prod.splits)
next
  case Disappear
  then obtain r st where rc: "releaseCamera (sys_cam p) = (r, st)" and p': "p' = unhandled r (p\<lparr>sys_cam := st\<rparr>)"
    using assms(1) by (auto simp: page_step_def split: prod.splits)
  have "fst st = fst (sys_cam p)"
    using releaseCamera_svc [of "fst (sys_cam p)" "snd (sys_cam p)"] rc by simp
  then show ?thesis using p' assms(2)
    by (auto simp: page_inv_def unhandled_def split: option.splits)
qed

lemma reach_page_inv: "reach e0 sid p \<Longrightarrow> page_inv p"
proof (induction rule: reach.induct)
  case reach_start
  then show ?case by (simp add: page_start_def page_inv_def svc_wf_def svc_init_def)
next
  case (reach_step p ev p')
  then show ?case using page_step_inv by blast
qed

lemma run_events_reach: "run_events evs p = Some p' \<Longrightarrow> reach e0 sid p \<Longrightarrow> reach e0 sid p'"
  by (induction evs arbitrary: p) (auto split: option.splits intro: reach_step)

text \<open>
  C17. In every reachable state of the page the service is in photo mode (the branches of
  \<open>initCamera\<close> and \<open>takePicture\<close> for video mode are dead code), the page is in photo mode,
  and a capture session exists only together with the camera input and both outputs.
\<close>

theorem reach_invariant:
  "reach e0 sid p \<Longrightarrow>
   curMode (fst (sys_cam p)) = MODE_PHOTO \<and> sys_curModel p = MODE_PHOTO \<and>
   (captureSession (fst (sys_cam p)) \<noteq> None \<longrightarrow>
      cameraInput (fst (sys_cam p)) \<noteq> None \<and> previewOutput (fst (sys_cam p)) \<noteq> None \<and>
      photoOutPut (fst (sys_cam p)) \<noteq> None)"
  using reach_page_inv [of e0 sid p] by (auto simp: page_inv_def svc_wf_def)

text \<open>
  C18. In a reachable state, \<open>releaseCamera\<close> (run by \<open>aboutToDisappear\<close>) throws a
  \<open>TypeError\<close> only when no capture session has been created yet, and is otherwise rejected
  only by a framework that refuses to release an object twice.
\<close>

theorem reach_releaseCamera_errors:
  assumes "reach e0 sid p" "fst (releaseCamera (sys_cam p)) = Some err"
  shows "(err = TypeError \<and> captureSession (fst (sys_cam p)) = None) \<or>
         (release_rejects_twice (snd (sys_cam p)) \<and> (\<exists>h. err = Rejected h))"
proof -
  have "page_inv p" using assms(1) by (rule reach_page_inv)
  moreover have "(err = TypeError \<and> (captureSession (fst (sys_cam p)) = None \<or> cameraInput (fst (sys_cam p)) = None)) \<or>
         (release_rejects_twice (snd (sys_cam p)) \<and> (\<exists>h. err = Rejected h))"
    using releaseCamera_errors [of "fst (sys_cam p)" "snd (sys_cam p)"] assms(2) by simp
  ultimately show ?thesis by (auto simp: page_inv_def svc_wf_def)
qed

subsection \<open>Interleavings\<close>

text \<open>
  C19. In every reachable state of the page in which \<open>initCamera\<close> has not yet assigned the
  photo output (from the surface's load until the task resumes after
  \<open>createPhotoOutput\<close>), a click on the shutter calls \<open>takePicture\<close> on an
  \<open>undefined\<close> photo output: the click's promise rejects with a \<open>TypeError\<close> that nothing
  handles, and nothing else changes.
\<close>

theorem click_before_photo_output:
  assumes "reach e0 sid p" "photoOutPut (fst (sys_cam p)) = None"
  shows "page_step Click p = Some (p\<lparr>sys_unhandled := sys_unhandled p @ [TypeError]\<rparr>)"
proof -
  have "page_inv p" using assms(1) by (rule reach_page_inv)
  then show ?thesis
    using assms(2)
    by (cases "sys_cam p")
       (auto simp: page_step_def page_inv_def svc_wf_def takePicture_def unhandled_def Let_def)
qed

text \<open>
  C20. With a camera available, once \<open>initCamera\<close> has run all its steps the task has ended
  and a click takes a picture without any rejection.
\<close>

theorem click_after_init:
  "cam_devices e \<noteq> [] \<Longrightarrow> env_wf e \<Longrightarrow>
   \<exists>p. run_events (OnLoad # replicate 13 InitResume @ [Click]) (page_start e sid) = Some p \<and>
       sys_unhandled p = [] \<and> sys_init p = None"
  by (auto simp: page_step_def page_start_def page_onLoad_def svc_init_def init_start_def takePicture_def
      session_call_def unhandled_def cam_defs Let_def MODE_PHOTO_def MODE_VIDEO_def numeral_eq_Suc env_wf_def)

text \<open>
  C21. When the page disappears after \<open>initCamera\<close> has created the capture session but
  before it has configured it, \<open>releaseCamera\<close> releases the session, and the task's next
  step (\<open>addInput\<close>) is rejected by the framework: the \<open>initCamera\<close> promise rejects and
  nothing handles it.
\<close>

theorem disappear_during_init:
  "cam_devices e \<noteq> [] \<Longrightarrow> env_wf e \<Longrightarrow> \<not> release_rejects_twice e \<Longrightarrow>
   \<exists>p. run_events (OnLoad # replicate 7 InitResume @ [Disappear, InitResume]) (page_start e sid) = Some p \<and>
       sys_unhandled p = [Rejected (cam_next e + 4)] \<and> sys_init p = None"
  by (auto simp: page_step_def page_start_def page_onLoad_def svc_init_def init_start_def
      session_call_def unhandled_def releaseCamera_def release_if_def release_must_def cam_release_def
      cam_defs Let_def MODE_PHOTO_def MODE_VIDEO_def numeral_eq_Suc env_wf_def)

subsection \<open>Witnesses\<close>

lemma sample_env_facts: "cam_devices sample_env = [''0'']" "env_wf sample_env"
  "\<not> release_rejects_twice sample_env" "cam_next sample_env = 0"
  by (simp_all add: sample_env_def env_wf_def)

theorem reach_invariant_witness:
  "curMode (fst (sys_cam (page_start sample_env ''xc''))) = MODE_PHOTO \<and>
   sys_curModel (page_start sample_env ''xc'') = MODE_PHOTO"
  using reach_invariant [OF reach.reach_start [of sample_env "''xc''"]] by simp

theorem reach_releaseCamera_errors_witness:
  "captureSession (fst (sys_cam (page_start sample_env ''xc''))) = None"
proof -
  have "fst (releaseCamera (sys_cam (page_start sample_env ''xc''))) = Some TypeError"
    by (simp add: page_start_def svc_init_def releaseCamera_def)
  from reach_releaseCamera_errors [OF reach.reach_start this] show ?thesis
    by (simp add: sample_env_def page_start_def)
qed

theorem click_after_init_witness:
  "\<exists>p. run_events (OnLoad # replicate 13 InitResume @ [Click]) (page_start sample_env ''xc'') = Some p \<and>
       sys_unhandled p = [] \<and> sys_init p = None"
  using click_after_init [of sample_env "''xc''"] sample_env_facts by simp

theorem disappear_during_init_witness:
  "\<exists>p. run_events (OnLoad # replicate 7 InitResume @ [Disappear, InitResume]) (page_start sample_env ''xc'') = Some p \<and>
       sys_unhandled p = [Rejected 4]"
  using disappear_during_init [of sample_env "''xc''"] sample_env_facts by auto

theorem click_before_photo_output_witness:
  "page_step Click (the (run_events [OnLoad] (page_start sample_env ''xc''))) =
   Some ((the (run_events [OnLoad] (page_start sample_env ''xc'')))\<lparr>sys_unhandled := [TypeError]\<rparr>)"
proof -
  have r: "run_events [OnLoad] (page_start sample_env ''xc'') =
           Some (the (run_events [OnLoad] (page_start sample_env ''xc'')))"
    by (simp add: page_step_def page_start_def)
  have "reach sample_env ''xc'' (the (run_events [OnLoad] (page_start sample_env ''xc'')))"
    by (rule run_events_reach [OF r reach.reach_start])
  moreover have "photoOutPut (fst (sys_cam (the (run_events [OnLoad] (page_start sample_env ''xc''))))) = None"
    and "sys_unhandled (the (run_events [OnLoad] (page_start sample_env ''xc''))) = []"
    by (simp_all add: page_step_def page_start_def page_onLoad_def svc_init_def init_start_def
        cam_defs Let_def MODE_PHOTO_def MODE_VIDEO_def)
  ultimately show ?thesis using click_before_photo_output by simp
qed

end
