(* ===== verification/CameraSave.thy ===== *)
theory CameraSave
  imports CameraService
begin

text \<open>
  How the sample's camera service stores a picture
  (\<open>src/test/ets/stage/receiver/entry/build/default/intermediates/assets/default/ets/pages/CameraPage.js\<close>):
  the \<open>imageArrival\<close> handler the constructor subscribes (lines 137 to 160) reads the next
  image of the receiver, asks it for its JPEG component (\<open>getComponent(4)\<close>) and passes the
  component's bytes to \<open>savePicture\<close> (lines 188 to 202), which creates an image asset with
  \<open>MediaUtils.createAndGetUri\<close>, opens it, writes the bytes, closes it, releases the
  image back to the receiver and reports the asset's URI to the page. The theory composes
  the service's state \<open>cam_svc\<close> with the media library of \<open>SampleMedia\<close> and the
  declarations of \<open>ImageTypes\<close> (the \<open>Component\<close> record); the file store and the
  receiver's released images are the environment \<open>save_env\<close>.
\<close>

subsection \<open>State\<close>

text \<open>The library, the URI it gives each asset, the file descriptors \<open>fileAsset.open\<close> hands
  out, the content written to each asset, the images released back to the receiver, and the
  URIs passed to the page's \<open>handleTakePicture\<close>.\<close>

record save_env =
  sv_lib :: media_lib
  sv_uri :: "nat \<Rightarrow> string"
  sv_next_fd :: int
  sv_open_fds :: "int set"
  sv_files :: "nat \<Rightarrow> ArrayBuffer option"
  sv_released_images :: "handle set"
  sv_thumbnails :: "string list"

type_synonym save_state = "cam_svc \<times> save_env"
type_synonym save_result = "media_error option \<times> save_state"

text \<open>An image the receiver hands out: its handle and the answer of \<open>getComponent(4)\<close>,
  \<open>None\<close> when the callback gets an error or \<open>undefined\<close>.\<close>

record rcv_image =
  img_handle :: handle
  img_component :: "Component option"

subsection \<open>\<open>savePicture\<close>\<close>

text \<open>Each \<open>await\<close> of the library is a step; a rejection of \<open>createAndGetUri\<close> ends
  \<open>savePicture\<close> before anything is written or released. Opening, writing and closing are
  taken to succeed.\<close>

definition savePicture ::
  "ArrayBuffer \<Rightarrow> handle \<Rightarrow> js_date \<Rightarrow> js_date \<Rightarrow> save_state \<Rightarrow> save_result" where
  "savePicture buffer img dateNow timeNow st =
     (let (s, v) = st in
      case createAndGetUri (sv_lib v) (MediaType_code IMAGE) dateNow timeNow of
        Inl err \<Rightarrow> (Some err, s, v)
      | Inr (lib, asset) \<Rightarrow>
          (let uri = sv_uri v (asset_id asset);
               s = s\<lparr>photoUri := uri\<rparr>;
               fdv = sv_next_fd v;
               v = v\<lparr>sv_lib := lib, sv_next_fd := fdv + 1, sv_open_fds := insert fdv (sv_open_fds v)\<rparr>;
               s = s\<lparr>fd := fdv\<rparr>;
               v = v\<lparr>sv_files := (sv_files v)(asset_id asset \<mapsto> buffer)\<rparr>;
               v = v\<lparr>sv_open_fds := sv_open_fds v - {fdv}\<rparr>;
               v = v\<lparr>sv_released_images := insert img (sv_released_images v)\<rparr>;
               v = (if handleTakePicture s then v\<lparr>sv_thumbnails := sv_thumbnails v @ [photoUri s]\<rparr> else v)
           in (None, s, v)))"

subsection \<open>The \<open>imageArrival\<close> handler\<close>

text \<open>
  \<open>readNextImage()\<close> gives an image or \<open>undefined\<close>; on \<open>undefined\<close> the handler logs and
  returns. \<open>getComponent(4)\<close> (4 is \<open>ComponentType.JPEG\<close>) calls back with the component or
  an error; on an error it logs and returns. The buffer starts as \<open>new ArrayBuffer(4096)\<close>
  and is replaced by \<open>img.byteBuffer\<close> when that is truthy; the declaration types
  \<open>byteBuffer\<close> as an \<open>ArrayBuffer\<close>, and every \<open>ArrayBuffer\<close> object is truthy, so the
  component's bytes are saved. \<open>savePicture\<close> is not awaited.
\<close>

definition onImageArrival ::
  "rcv_image option \<Rightarrow> js_date \<Rightarrow> js_date \<Rightarrow> save_state \<Rightarrow> save_result" where
  "onImageArrival nextImage dateNow timeNow st =
     (case nextImage of
        None \<Rightarrow> (None, st)
      | Some im \<Rightarrow>
          (case img_component im of
             None \<Rightarrow> (None, st)
           | Some c \<Rightarrow>
               (let buffer = comp_byteBuffer c
                in savePicture buffer (img_handle im) dateNow timeNow st)))"

subsection \<open>Sample inputs\<close>

definition sample_save_env :: save_env where
  "sample_save_env = \<lparr>sv_lib = sample_lib, sv_uri = (\<lambda>i. ''file://media/Photo/'' @ nat_str i),
     sv_next_fd = 3, sv_open_fds = {}, sv_files = (\<lambda>_. None), sv_released_images = {}, sv_thumbnails = []\<rparr>"

definition sample_jpeg :: Component where
  "sample_jpeg = \<lparr>comp_componentType = ComponentType.JPEG, comp_rowStride = 0, comp_pixelStride = 0,
     comp_byteBuffer = [255, 216, 255, 217]\<rparr>"

definition sample_image :: rcv_image where
  "sample_image = \<lparr>img_handle = 7, img_component = Some sample_jpeg\<rparr>"

subsection \<open>Behaviour\<close>

lemma savePicture_Inr:
  assumes "createAndGetUri (sv_lib v) (MediaType_code IMAGE) d1 d2 = Inr (lib, asset)"
  shows "savePicture buf img d1 d2 (s, v) =
    (None, s\<lparr>photoUri := sv_uri v (asset_id asset), fd := sv_next_fd v\<rparr>,
     (if handleTakePicture s then (\<lambda>x. x\<lparr>sv_thumbnails := sv_thumbnails v @ [sv_uri v (asset_id asset)]\<rparr>) else id)
       (v\<lparr>sv_lib := lib, sv_next_fd := sv_next_fd v + 1,
          sv_open_fds := insert (sv_next_fd v) (sv_open_fds v) - {sv_next_fd v},
          sv_files := (sv_files v)(asset_id asset \<mapsto> buf),
          sv_released_images := insert img (sv_released_images v)\<rparr>))"
  using assms by (simp add: savePicture_def Let_def)

lemma savePicture_Inl:
  "createAndGetUri (sv_lib v) (MediaType_code IMAGE) d1 d2 = Inl err \<Longrightarrow>
   savePicture buf img d1 d2 (s, v) = (Some err, s, v)"
  by (simp add: savePicture_def)

lemma createAndGetUri_fresh_asset:
  "createAndGetUri lib t d1 d2 = Inr (lib', a) \<Longrightarrow>
   lib_publicDir lib' = lib_publicDir lib \<and> a \<in> set (lib_assets lib') \<and>
   asset_displayName a = displayName_of t d1 d2 \<and>
   asset_relativePath a = getPublicDirectory lib (directory (getInfoFromType t))"
  using createAsset_Inr by (fastforce simp: createAndGetUri_def)

text \<open>
  C24. When the library accepts the new asset, \<open>savePicture\<close> fulfils: the bytes are the
  asset's content, the file descriptor it opened is closed again, the image is released to
  the receiver, and the page's callback, when set, receives the asset's URI.
\<close>

theorem savePicture_saves:
  assumes "createAndGetUri (sv_lib v) (MediaType_code IMAGE) d1 d2 = Inr (lib, asset)"
    and "savePicture buf img d1 d2 (s, v) = (r, s', v')"
  shows "r = None \<and> sv_files v' (asset_id asset) = Some buf \<and> sv_open_fds v' = sv_open_fds v - {sv_next_fd v} \<and>
         img \<in> sv_released_images v' \<and> photoUri s' = sv_uri v (asset_id asset) \<and>
         sv_thumbnails v' = sv_thumbnails v @ (if handleTakePicture s then [sv_uri v (asset_id asset)] else [])"
  using assms(2) savePicture_Inr [OF assms(1), of buf img s] by (auto split: if_splits)

text \<open>
  C25. Two images saved within the same second: the second \<open>savePicture\<close> gets the display
  name of the first asset, the library rejects it, and the promise (which the handler does
  not await) rejects before the image is released; nothing is written, and the receiver
  never gets that image's buffer back.
\<close>

theorem savePicture_same_second_keeps_image:
  assumes "savePicture buf1 img1 d d (s, v) = (None, s1, v1)" and "same_second d e"
  shows "savePicture buf2 img2 e e (s1, v1) = (Some FileExists, s1, v1)"
proof -
  obtain lib a where c: "createAndGetUri (sv_lib v) (MediaType_code IMAGE) d d = Inr (lib, a)"
    using assms(1) by (cases "createAndGetUri (sv_lib v) (MediaType_code IMAGE) d d")
      (auto simp: savePicture_Inl)
  have v1: "sv_lib v1 = lib"
    using assms(1) savePicture_Inr [OF c, of buf1 img1 s] by (auto split: if_splits)
  note fresh = createAndGetUri_fresh_asset [OF c]
  let ?p = "getPublicDirectory (sv_lib v) (directory (getInfoFromType (MediaType_code IMAGE)))"
  have pd: "getPublicDirectory lib (directory (getInfoFromType (MediaType_code IMAGE))) = ?p"
    using fresh by (simp add: getPublicDirectory_def)
  have "createAsset lib (MediaType_code IMAGE) (displayName_of (MediaType_code IMAGE) e e) ?p = Inl FileExists"
    using fresh displayName_same_second [OF assms(2), of "MediaType_code IMAGE"]
    by (intro createAsset_exists [of a]) auto
  then have "createAndGetUri lib (MediaType_code IMAGE) e e = Inl FileExists"
    using pd by (simp add: createAndGetUri_def)
  then show ?thesis using v1 by (simp add: savePicture_Inl)
qed

text \<open>
  C26. The handler returns an image to the receiver exactly when it obtained the image's
  component and \<open>savePicture\<close> fulfilled: an image whose \<open>getComponent\<close> fails, or whose
  asset the library rejects, is never released.
\<close>

theorem onImageArrival_release:
  assumes "onImageArrival (Some im) d1 d2 (s, v) = (r, s', v')"
  shows "img_handle im \<in> sv_released_images v' \<longleftrightarrow>
         img_handle im \<in> sv_released_images v \<or> (img_component im \<noteq> None \<and> r = None)"
proof (cases "img_component im")
  case None
  then show ?thesis using assms by (simp add: onImageArrival_def)
next
  case (Some c)
  show ?thesis
  proof (cases "createAndGetUri (sv_lib v) (MediaType_code IMAGE) d1 d2")
    case (Inl err)
    then show ?thesis using assms Some by (auto simp: onImageArrival_def savePicture_Inl)
  next
    case (Inr la)
    then obtain lib a where "createAndGetUri (sv_lib v) (MediaType_code IMAGE) d1 d2 = Inr (lib, a)"
      by (cases la) auto
    from savePicture_Inr [OF this, of "comp_byteBuffer c" "img_handle im" s] show ?thesis
      using assms Some by (auto simp: onImageArrival_def split: if_splits)
  qed
qed

subsection \<open>Witnesses\<close>

lemma sample_first_asset:
  "createAndGetUri (sv_lib sample_save_env) (MediaType_code IMAGE) sample_noon sample_noon =
   Inr (sample_lib\<lparr>lib_assets := [sample_asset], lib_next_id := 1\<rparr>, sample_asset)"
  by (simp add: sample_save_env_def createAndGetUri_def createAsset_def getPublicDirectory_def
      sample_defs render_defs Let_def)

theorem savePicture_saves_witness:
  "sv_files (snd (snd (savePicture [1, 2] 7 sample_noon sample_noon (svc_init, sample_save_env)))) 0 = Some [1, 2] \<and>
   7 \<in> sv_released_images (snd (snd (savePicture [1, 2] 7 sample_noon sample_noon (svc_init, sample_save_env))))"
proof -
  obtain r s' v' where sp: "savePicture [1, 2] 7 sample_noon sample_noon (svc_init, sample_save_env) = (r, s', v')"
    by (cases "savePicture [1, 2] 7 sample_noon sample_noon (svc_init, sample_save_env)") auto
  from savePicture_saves [OF sample_first_asset sp] sp show ?thesis
    by (simp add: sample_asset_def)
qed

theorem savePicture_same_second_keeps_image_witness:
  "savePicture [3] 8 sample_noon sample_noon (snd (savePicture [1, 2] 7 sample_noon sample_noon (svc_init, sample_save_env))) =
   (Some FileExists, snd (savePicture [1, 2] 7 sample_noon sample_noon (svc_init, sample_save_env)))"
proof -
  obtain s1 v1 where sp: "savePicture [1, 2] 7 sample_noon sample_noon (svc_init, sample_save_env) = (None, s1, v1)"
    using savePicture_Inr [OF sample_first_asset] by simp
  have "same_second sample_noon sample_noon" by (simp add: same_second_def)
  from savePicture_same_second_keeps_image [OF sp this] sp show ?thesis by simp
qed

theorem onImageArrival_release_witness:
  "7 \<in> sv_released_images (snd (snd (onImageArrival (Some sample_image) sample_noon sample_noon (svc_init, sample_save_env))))"
proof -
  obtain r s' v' where o: "onImageArrival (Some sample_image) sample_noon sample_noon (svc_init, sample_save_env) = (r, s', v')"
    by (cases "onImageArrival (Some sample_image) sample_noon sample_noon (svc_init, sample_save_env)") auto
  have "r = None"
    using o savePicture_Inr [OF sample_first_asset]
    by (simp add: onImageArrival_def sample_image_def sample_jpeg_def)
  with onImageArrival_release [OF o] o show ?thesis
    by (simp add: sample_image_def sample_save_env_def)
qed

end
