(* ===== verification/ReceiverQueue.thy ===== *)
theory ReceiverQueue
  imports CameraSave
begin

text \<open>
  The image receiver the sample's camera service reads its pictures from, and what the
  service's handling of each picture does to it. The receiver is the native object behind
  \<open>interface ImageReceiver\<close> of \<open>src/interfaces/kits/js/@ohos.multimedia.image.d.ts\<close>; the
  model takes from its declarations what they document: \<open>createImageReceiver\<close>'s
  \<open>capacity\<close> is the maximum number of images the user accesses at once, an arriving image
  raises \<open>imageArrival\<close>, \<open>readNextImage\<close> hands out the next image and
  \<open>readLatestImage\<close> the latest one, and \<open>Image.release\<close> gives an image back "to receive
  another". The receiver is a record of its capacity, the images that arrived and were not
  read yet (in order), the images read and not released, and the next image handle.
  \<open>camera_frame\<close> composes one arrival with the handler of \<open>CameraSave\<close>
  (\<open>onImageArrival\<close>), whose \<open>savePicture\<close> releases the image when it succeeds.
\<close>

subsection \<open>The receiver\<close>

record rcv_queue =
  rq_capacity :: nat
  rq_pending :: "handle list"
  rq_held :: "handle list"
  rq_next :: handle

text \<open>A new image is accepted only while fewer than \<open>capacity\<close> images are in the
  receiver, waiting or held; otherwise the producer has no buffer and the frame is dropped.\<close>

definition rcv_arrive :: "rcv_queue \<Rightarrow> bool \<times> rcv_queue" where
  "rcv_arrive q =
     (if length (rq_pending q) + length (rq_held q) < rq_capacity q
      then (True, q\<lparr>rq_pending := rq_pending q @ [rq_next q], rq_next := Suc (rq_next q)\<rparr>)
      else (False, q))"

definition readNextImage :: "rcv_queue \<Rightarrow> handle option \<times> rcv_queue" where
  "readNextImage q =
     (case rq_pending q of
        [] \<Rightarrow> (None, q)
      | h # hs \<Rightarrow> (Some h, q\<lparr>rq_pending := hs, rq_held := rq_held q @ [h]\<rparr>))"

text \<open>\<open>readLatestImage\<close> hands out the newest waiting image and gives the older waiting
  ones back.\<close>

definition readLatestImage :: "rcv_queue \<Rightarrow> handle option \<times> rcv_queue" where
  "readLatestImage q =
     (case rq_pending q of
        [] \<Rightarrow> (None, q)
      | hs \<Rightarrow> (Some (last hs), q\<lparr>rq_pending := [], rq_held := rq_held q @ [last hs]\<rparr>))"

definition image_release :: "handle \<Rightarrow> rcv_queue \<Rightarrow> rcv_queue" where
  "image_release h q = q\<lparr>rq_held := removeAll h (rq_held q)\<rparr>"

definition rcv_new :: "nat \<Rightarrow> handle \<Rightarrow> rcv_queue" where
  "rcv_new capacity h0 = \<lparr>rq_capacity = capacity, rq_pending = [], rq_held = [], rq_next = h0\<rparr>"

definition rcv_wf :: "rcv_queue \<Rightarrow> bool" where
  "rcv_wf q \<longleftrightarrow> length (rq_pending q) + length (rq_held q) \<le> rq_capacity q"

subsection \<open>One camera frame\<close>

text \<open>
  A frame from the camera: the receiver accepts it or drops it; on acceptance the
  \<open>imageArrival\<close> handler reads the next image and runs \<open>onImageArrival\<close> with the answer
  of its \<open>getComponent(4)\<close>; when \<open>savePicture\<close> released the image, the receiver gets
  it back. The frame carries the component the image will give and the clock readings of
  the save.
\<close>

type_synonym frame = "Component option \<times> js_date \<times> js_date"

definition camera_frame :: "frame \<Rightarrow> rcv_queue \<times> save_state \<Rightarrow> rcv_queue \<times> save_state" where
  "camera_frame fr qs =
     (let (comp, d1, d2) = fr; (q, st) = qs in
      case rcv_arrive q of
        (False, q') \<Rightarrow> (q', st)
      | (True, q1) \<Rightarrow>
          (case readNextImage q1 of
             (None, q2) \<Rightarrow> (q2, st)
           | (Some h, q2) \<Rightarrow>
               (let st' = snd (onImageArrival (Some \<lparr>img_handle = h, img_component = comp\<rparr>) d1 d2 st)
                in (if h \<in> sv_released_images (snd st') - sv_released_images (snd st)
                    then image_release h q2 else q2, st'))))"

fun run_frames :: "frame list \<Rightarrow> rcv_queue \<times> save_state \<Rightarrow> rcv_queue \<times> save_state" where
  "run_frames [] qs = qs"
| "run_frames (fr # frs) qs = run_frames frs (camera_frame fr qs)"

subsection \<open>Behaviour\<close>

lemma rcv_arrive_wf: "rcv_wf q \<Longrightarrow> rcv_wf (snd (rcv_arrive q))"
  by (simp add: rcv_arrive_def rcv_wf_def)

lemma readNextImage_wf: "rcv_wf q \<Longrightarrow> rcv_wf (snd (readNextImage q))"
  by (auto simp: readNextImage_def rcv_wf_def split: list.split)

lemma image_release_wf: "rcv_wf q \<Longrightarrow> rcv_wf (image_release h q)"
  unfolding image_release_def rcv_wf_def
  using length_removeAll_less_eq [of h "rq_held q"] by (simp (no_asm_simp))

lemma camera_frame_wf: "rcv_wf (fst qs) \<Longrightarrow> rcv_wf (fst (camera_frame fr qs))"
  using rcv_arrive_wf readNextImage_wf image_release_wf
  by (auto simp: camera_frame_def Let_def split: prod.splits bool.splits option.splits) fastforce+

text \<open>A frame whose \<open>getComponent\<close> fails leaves the stored pictures alone and keeps
  its image.\<close>

lemma camera_frame_failed:
  "camera_frame (None, d1, d2) (q, st) =
     (case rcv_arrive q of
        (False, q') \<Rightarrow> (q', st)
      | (True, q1) \<Rightarrow> (snd (readNextImage q1), st))"
  by (auto simp: camera_frame_def onImageArrival_def split: prod.splits bool.splits option.splits)

lemma rcv_full_drops: "\<not> length (rq_pending q) + length (rq_held q) < rq_capacity q \<Longrightarrow> rcv_arrive q = (False, q)"
  by (simp add: rcv_arrive_def)

lemma run_frames_full: "\<not> length (rq_pending q) + length (rq_held q) < rq_capacity q \<Longrightarrow> run_frames frs (q, st) = (q, st)"
  by (induction frs) (simp_all add: camera_frame_def rcv_full_drops)

lemma run_failed_frames_fill:
  assumes "rq_pending q = []" "length (rq_held q) + k \<le> rq_capacity q"
  shows "\<exists>q'. run_frames (replicate k (None, d1, d2)) (q, st) = (q', st) \<and>
           rq_pending q' = [] \<and> length (rq_held q') = length (rq_held q) + k \<and>
           rq_capacity q' = rq_capacity q"
  using assms
proof (induction k arbitrary: q)
  case 0
  then show ?case by simp
next
  case (Suc k)
  let ?q1 = "q\<lparr>rq_pending := [], rq_held := rq_held q @ [rq_next q], rq_next := Suc (rq_next q)\<rparr>"
  have "camera_frame (None, d1, d2) (q, st) = (?q1, st)"
    using Suc.prems by (simp add: camera_frame_failed rcv_arrive_def readNextImage_def)
  moreover have "\<exists>q'. run_frames (replicate k (None, d1, d2)) (?q1, st) = (q', st) \<and>
      rq_pending q' = [] \<and> length (rq_held q') = length (rq_held ?q1) + k \<and> rq_capacity q' = rq_capacity ?q1"
    using Suc.prems by (intro Suc.IH) simp_all
  ultimately show ?case by auto
qed

lemma run_frames_append: "run_frames (xs @ ys) qs = run_frames ys (run_frames xs qs)"
  by (induction xs arbitrary: qs) simp_all

text \<open>
  C27. The handler releases an image only through a successful \<open>savePicture\<close>. After as
  many frames as the receiver's capacity whose \<open>getComponent\<close> fails, every image is
  held, the receiver drops every later frame, and no later picture is ever saved: with the
  sample's capacity of 8, eight failed reads stop the camera from saving.
\<close>

theorem failed_frames_block_receiver:
  assumes "run_frames (replicate c (None, d1, d2) @ frs) (rcv_new c h0, st) = (q', st')"
  shows "st' = st \<and> length (rq_held q') = c \<and> rq_pending q' = []"
proof -
  obtain q1 where fill: "run_frames (replicate c (None, d1, d2)) (rcv_new c h0, st) = (q1, st)"
    and q1: "rq_pending q1 = []" "length (rq_held q1) = c" "rq_capacity q1 = c"
    using run_failed_frames_fill [of "rcv_new c h0" c d1 d2 st] by (auto simp: rcv_new_def)
  have "run_frames frs (q1, st) = (q1, st)"
    using q1 by (intro run_frames_full) simp
  then show ?thesis
    using assms fill q1 by (simp add: run_frames_append)
qed

subsection \<open>Witnesses\<close>

theorem failed_frames_block_receiver_witness:
  "snd (run_frames (replicate (nat (snd (snd (snd receiver_args)))) (None, sample_noon, sample_noon) @
                    [(Some sample_jpeg, sample_noon, sample_noon)])
         (rcv_new (nat (snd (snd (snd receiver_args)))) 0, (svc_init, sample_save_env))) =
   (svc_init, sample_save_env)"
proof -
  obtain q' st' where r: "run_frames (replicate (nat (snd (snd (snd receiver_args)))) (None, sample_noon, sample_noon) @
                    [(Some sample_jpeg, sample_noon, sample_noon)])
         (rcv_new (nat (snd (snd (snd receiver_args)))) 0, (svc_init, sample_save_env)) = (q', st')"
    by (metis prod.exhaust)
  from failed_frames_block_receiver [OF r] r show ?thesis by simp
qed

end
