(* ===== verification/IndexPage.thy ===== *)
theory IndexPage
  imports SampleMedia
begin

text \<open>
  The sample's start page, \<open>class Index\<close>, and the album list it embeds, \<open>class MediaView\<close>,
  of the compiled \<open>pages/Index.js\<close> of the receiver sample. The page is a record of its three
  observed properties (\<open>albums\<close>, \<open>selectIndex\<close>, \<open>operateVisible\<close>) and of what it hands to
  the platform: the permission requests, the router's pushed pages and the alert dialogs
  shown. Each user action or lifecycle callback is an event; \<open>index_step\<close> runs its
  handler, and is \<open>None\<close> when the event cannot happen (a click on a button or a list
  item that \<open>render\<close> did not create). \<open>index_reach\<close> is the set of states the
  page reaches from \<open>loadDocument(new Index("1", undefined, {}))\<close>.
\<close>

subsection \<open>State and constructor\<close>

definition PERMISSIONS :: "string list" where
  "PERMISSIONS = [''ohos.permission.CAMERA'', ''ohos.permission.MICROPHONE'',
                  ''ohos.permission.READ_MEDIA'', ''ohos.permission.WRITE_MEDIA'',
                  ''ohos.permission.MEDIA_LOCATION'']"

text \<open>A page the router pushes: its url and, for the album page, the parameters
  \<open>{albumName, mediaType}\<close>.\<close>

datatype route = CameraPage_url | AlbumPage_url string int

record index_page =
  albums :: "album list"
  selectIndex :: int
  operateVisible :: bool
  ix_permission_requests :: "string list list"
  ix_router :: "route list"
  ix_alerts :: nat

text \<open>The constructor's \<open>params\<close>: each field is \<open>None\<close> when it is \<open>undefined\<close>.\<close>

record index_params =
  p_albums :: "album list option"
  p_selectIndex :: "int option"
  p_operateVisible :: "bool option"

definition no_params :: index_params where
  "no_params = \<lparr>p_albums = None, p_selectIndex = None, p_operateVisible = None\<rparr>"

definition updateWithValueParams :: "index_params \<Rightarrow> index_page \<Rightarrow> index_page" where
  "updateWithValueParams params s =
     (let s1 = (case p_albums params of None \<Rightarrow> s | Some a \<Rightarrow> s\<lparr>albums := a\<rparr>);
          s2 = (case p_selectIndex params of None \<Rightarrow> s1 | Some i \<Rightarrow> s1\<lparr>selectIndex := i\<rparr>)
      in case p_operateVisible params of None \<Rightarrow> s2 | Some v \<Rightarrow> s2\<lparr>operateVisible := v\<rparr>)"

definition Index_new :: "index_params \<Rightarrow> index_page" where
  "Index_new params =
     updateWithValueParams params
       \<lparr>albums = [], selectIndex = 0, operateVisible = False,
        ix_permission_requests = [], ix_router = [], ix_alerts = 0\<rparr>"

subsection \<open>Handlers\<close>

text \<open>\<open>aboutToAppear\<close> asks the user for the five permissions. \<open>onPageShow\<close> has its
  whole body commented out in the source (the album loading through \<open>MediaUtils.getAlbums\<close>),
  so it does nothing.\<close>

definition aboutToAppear :: "index_page \<Rightarrow> index_page" where
  "aboutToAppear s = s\<lparr>ix_permission_requests := ix_permission_requests s @ [PERMISSIONS]\<rparr>"

definition onPageShow :: "index_page \<Rightarrow> index_page" where
  "onPageShow s = s"

text \<open>The main \<open>OperateBtn\<close> toggles \<open>operateVisible\<close> (inside \<open>animateTo\<close>); the camera
  button exists only while \<open>operateVisible\<close> holds, toggles it back and pushes the camera
  page.\<close>

definition mainButton_click :: "index_page \<Rightarrow> index_page" where
  "mainButton_click s = s\<lparr>operateVisible := \<not> operateVisible s\<rparr>"

definition cameraButton_click :: "index_page \<Rightarrow> index_page option" where
  "cameraButton_click s =
     (if operateVisible s
      then Some (s\<lparr>operateVisible := \<not> operateVisible s, ix_router := ix_router s @ [CameraPage_url]\<rparr>)
      else None)"

text \<open>\<open>MediaView\<close> renders one list item per album (\<open>ForEach\<close> keyed by \<open>albumName\<close>);
  clicking item \<open>i\<close> opens the album page when the album has assets and shows an alert
  otherwise.\<close>

definition mediaView_click :: "nat \<Rightarrow> index_page \<Rightarrow> index_page option" where
  "mediaView_click i s =
     (if i < length (albums s)
      then (let item = albums s ! i in
            if 0 < album_count item
            then Some (s\<lparr>ix_router := ix_router s @ [AlbumPage_url (albumName item) (album_mediaType item)]\<rparr>)
            else Some (s\<lparr>ix_alerts := Suc (ix_alerts s)\<rparr>))
      else None)"

datatype index_event = PageShow | MainButton | CameraButton | AlbumClick nat

fun index_step :: "index_event \<Rightarrow> index_page \<Rightarrow> index_page option" where
  "index_step PageShow s = Some (onPageShow s)"
| "index_step MainButton s = Some (mainButton_click s)"
| "index_step CameraButton s = cameraButton_click s"
| "index_step (AlbumClick i) s = mediaView_click i s"

fun run_index :: "index_event list \<Rightarrow> index_page \<Rightarrow> index_page option" where
  "run_index [] s = Some s"
| "run_index (e # es) s = (case index_step e s of None \<Rightarrow> None | Some s' \<Rightarrow> run_index es s')"

definition index_load :: index_page where
  "index_load = aboutToAppear (Index_new no_params)"

inductive index_reach :: "index_page \<Rightarrow> bool" where
  load: "index_reach index_load"
| step: "index_reach s \<Longrightarrow> index_step e s = Some s' \<Longrightarrow> index_reach s'"

definition index_inv :: "index_page \<Rightarrow> bool" where
  "index_inv s \<longleftrightarrow> albums s = [] \<and> set (ix_router s) \<subseteq> {CameraPage_url} \<and> ix_alerts s = 0 \<and>
                    ix_permission_requests s = [PERMISSIONS]"

subsection \<open>Behaviour\<close>

lemma index_step_inv: "index_inv s \<Longrightarrow> index_step e s = Some s' \<Longrightarrow> index_inv s'"
  by (cases e)
     (auto simp: index_inv_def onPageShow_def mainButton_click_def cameraButton_click_def
                 mediaView_click_def split: if_splits)

lemma run_index_append:
  "run_index (xs @ ys) s = (case run_index xs s of None \<Rightarrow> None | Some s' \<Rightarrow> run_index ys s')"
  by (induction xs arbitrary: s) (simp_all split: option.split)

lemma run_index_reach: "index_reach s \<Longrightarrow> run_index es s = Some s' \<Longrightarrow> index_reach s'"
proof (induction es arbitrary: s)
  case Nil
  then show ?case by simp
next
  case (Cons e es)
  then obtain s1 where "index_step e s = Some s1" "run_index es s1 = Some s'"
    by (auto split: option.splits)
  then show ?case using Cons index_reach.step by blast
qed

lemma getAlbums_nth:
  "i < 4 \<Longrightarrow> getAlbums lib ! i =
     \<lparr>albumName = [''Documents'', ''Pictures'', ''Videos'', ''Audios''] ! i,
      album_count = length (filter (\<lambda>a. asset_mediaType a = MediaType_code ([FILE, IMAGE, VIDEO, AUDIO] ! i)) (lib_assets lib)),
      album_mediaType = MediaType_code ([FILE, IMAGE, VIDEO, AUDIO] ! i)\<rparr>"
  by (auto simp: getAlbums_def getFileAssetsFromType_filter Let_def less_Suc_eq numeral_eq_Suc)

lemma getAlbums_names: "map albumName (getAlbums lib) = [''Documents'', ''Pictures'', ''Videos'', ''Audios'']"
  by (simp add: getAlbums_def Let_def)

text \<open>
  C28. In every state the start page reaches from its load, the album list is empty, so
  \<open>MediaView\<close> shows no item and no album click can happen; the router has only ever been
  asked for the camera page, no alert was shown, and the permissions were requested once.
  \<open>onPageShow\<close>, which was to load the albums, has its body commented out.
\<close>

theorem index_reach_no_albums:
  assumes "index_reach s"
  shows "albums s = [] \<and> set (ix_router s) \<subseteq> {CameraPage_url} \<and> ix_alerts s = 0 \<and>
         ix_permission_requests s = [PERMISSIONS] \<and> (\<forall>i. index_step (AlbumClick i) s = None)"
proof -
  have "index_inv s"
    using assms
  proof (induction rule: index_reach.induct)
    case load
    then show ?case by (simp add: index_load_def aboutToAppear_def Index_new_def no_params_def
                                  updateWithValueParams_def index_inv_def)
  next
    case (step s e s')
    from step.IH step.hyps(2) show ?case by (rule index_step_inv)
  qed
  then show ?thesis by (simp add: index_inv_def mediaView_click_def)
qed

text \<open>
  C29. When the page holds the albums \<open>MediaView\<close> was written for, the list of
  \<open>getAlbums\<close>, the \<open>ForEach\<close> keys (the album names) are distinct, and clicking item
  \<open>i\<close> opens the album page with that album's name and media type exactly when the library
  has an asset of that type; otherwise it shows an alert and pushes nothing.
\<close>

theorem mediaView_click_getAlbums:
  assumes "albums s = getAlbums lib" "i < 4" "t = [FILE, IMAGE, VIDEO, AUDIO] ! i"
  shows "distinct (map albumName (albums s)) \<and>
         index_step (AlbumClick i) s =
           Some (if list_ex (\<lambda>a. asset_mediaType a = MediaType_code t) (lib_assets lib)
                 then s\<lparr>ix_router := ix_router s @
                          [AlbumPage_url ([''Documents'', ''Pictures'', ''Videos'', ''Audios''] ! i) (MediaType_code t)]\<rparr>
                 else s\<lparr>ix_alerts := Suc (ix_alerts s)\<rparr>)"
proof -
  have len: "length (getAlbums lib) = 4" by (simp add: getAlbums_def Let_def)
  have "(0 < length (filter (\<lambda>a. asset_mediaType a = MediaType_code t) (lib_assets lib))) =
        list_ex (\<lambda>a. asset_mediaType a = MediaType_code t) (lib_assets lib)"
    by (simp add: list_ex_iff filter_empty_conv)
  then show ?thesis
    using assms getAlbums_nth [OF assms(2), of lib]
    by (simp add: getAlbums_names mediaView_click_def len)
qed

text \<open>
  From any state of the start page the camera page is at most two clicks away: the
  camera button when it is shown, the main button and then the camera button otherwise;
  either way the menu ends closed.
\<close>

lemma camera_two_clicks:
  "\<exists>es s'. es \<in> {[CameraButton], [MainButton, CameraButton]} \<and> run_index es s = Some s' \<and>
           ix_router s' = ix_router s @ [CameraPage_url] \<and> \<not> operateVisible s' \<and> albums s' = albums s"
proof (cases "operateVisible s")
  case True
  then show ?thesis
    by (intro exI [of _ "[CameraButton]"]) (simp add: cameraButton_click_def)
next
  case False
  then show ?thesis
    by (intro exI [of _ "[MainButton, CameraButton]"]) (simp add: mainButton_click_def cameraButton_click_def)
qed

subsection \<open>Witnesses\<close>

theorem index_reach_no_albums_witness:
  "index_step (AlbumClick 0) (the (run_index [MainButton, CameraButton, PageShow] index_load)) = None"
proof -
  have r: "run_index [MainButton, CameraButton, PageShow] index_load =
           Some (the (run_index [MainButton, CameraButton, PageShow] index_load))"
    by (simp add: index_load_def aboutToAppear_def Index_new_def no_params_def updateWithValueParams_def
                  mainButton_click_def cameraButton_click_def onPageShow_def)
  have "index_reach (the (run_index [MainButton, CameraButton, PageShow] index_load))"
    by (rule run_index_reach [OF index_reach.load r])
  from index_reach_no_albums [OF this] show ?thesis by simp
qed

theorem mediaView_click_getAlbums_witness:
  "index_step (AlbumClick 1) (Index_new (no_params\<lparr>p_albums := Some (getAlbums (sample_lib\<lparr>lib_assets := [sample_asset]\<rparr>))\<rparr>)) =
   Some ((Index_new (no_params\<lparr>p_albums := Some (getAlbums (sample_lib\<lparr>lib_assets := [sample_asset]\<rparr>))\<rparr>))
           \<lparr>ix_router := [AlbumPage_url ''Pictures'' 1]\<rparr>)"
proof -
  have a: "albums (Index_new (no_params\<lparr>p_albums := Some (getAlbums (sample_lib\<lparr>lib_assets := [sample_asset]\<rparr>))\<rparr>)) =
           getAlbums (sample_lib\<lparr>lib_assets := [sample_asset]\<rparr>)"
    by (simp add: Index_new_def no_params_def updateWithValueParams_def)
  have "(1::nat) < 4" "IMAGE = [FILE, IMAGE, VIDEO, AUDIO] ! 1" by simp_all
  from mediaView_click_getAlbums [OF a this] show ?thesis
    by (simp add: sample_defs Index_new_def no_params_def updateWithValueParams_def)
qed

end
