(* ===== verification/MediaFiles.thy ===== *)
theory MediaFiles
  imports CameraSave
begin

text \<open>
  The rest of the sample's \<open>MediaUtils\<close> class
  (\<open>src/test/ets/stage/receiver/entry/build/default/intermediates/assets/default/ets/pages/CameraPage.js\<close>,
  lines 430 to 551): the singleton \<open>getInstance\<close>, \<open>queryFile\<close>, \<open>getFdPath\<close>,
  \<open>createFile\<close>, \<open>deleteFile\<close> and the change subscriptions \<open>onDateChange\<close> and
  \<open>offDateChange\<close>. The media library and the file descriptors are those of
  \<open>save_env\<close> (theory \<open>CameraSave\<close>); the listeners of the library are a list of
  registrations in order, each an event name and a callback. The library's own behaviour
  (\<open>getFileAssets\<close> selecting by a column, \<open>open\<close> handing out a fresh descriptor,
  \<open>deleteAsset\<close>, \<open>on\<close> and \<open>off\<close>) is modelled from the mediaLibrary documentation.
\<close>

subsection \<open>The singleton\<close>

text \<open>The constructor binds the library of \<open>globalThis.abilityContext\<close>, \<open>None\<close> when the
  context is \<open>undefined\<close>; \<open>getInstance\<close> builds the instance once and returns it ever
  after.\<close>

record media_utils =
  mu_tag :: string
  mu_context :: "nat option"

definition MediaUtils_new :: "nat option \<Rightarrow> media_utils" where
  "MediaUtils_new ctx = \<lparr>mu_tag = ''MediaUtils'', mu_context = ctx\<rparr>"

definition getInstance :: "media_utils option \<Rightarrow> nat option \<Rightarrow> media_utils \<times> media_utils option" where
  "getInstance instance ctx =
     (case instance of
        None \<Rightarrow> (let m = MediaUtils_new ctx in (m, Some m))
      | Some m \<Rightarrow> (m, Some m))"

subsection \<open>Files\<close>

text \<open>\<open>queryFile\<close> returns \<open>undefined\<close> for an \<open>undefined\<close> argument; otherwise it selects
  the assets whose \<open>ID\<close> column equals \<open>dataUri.id.toString()\<close> and returns the first,
  \<open>undefined\<close> when there is none (\<open>fileAsset[0]\<close> of an empty array).\<close>

definition getFileAssets_ID :: "string \<Rightarrow> save_env \<Rightarrow> media_asset list" where
  "getFileAssets_ID arg v = filter (\<lambda>a. nat_str (asset_id a) = arg) (lib_assets (sv_lib v))"

definition queryFile :: "media_asset option \<Rightarrow> save_env \<Rightarrow> media_asset option" where
  "queryFile dataUri v =
     (case dataUri of
        None \<Rightarrow> None
      | Some d \<Rightarrow>
          (let args = nat_str (asset_id d);
               fileAsset = getFileAssets_ID args v
           in if fileAsset = [] then None else Some (hd fileAsset)))"

text \<open>\<open>getFdPath\<close>: \<open>fileAsset.open('Rw')\<close> hands out the next descriptor, which stays
  open.\<close>

definition getFdPath :: "media_asset \<Rightarrow> save_env \<Rightarrow> int \<times> save_env" where
  "getFdPath fileAsset v =
     (let fd = sv_next_fd v
      in (fd, v\<lparr>sv_next_fd := fd + 1, sv_open_fds := insert fd (sv_open_fds v)\<rparr>))"



subsection \<open>Change subscriptions\<close>

text \<open>The library's listeners: \<open>on(type, cb)\<close> adds a registration, \<open>off(type)\<close> removes
  every registration of the type, and a change of a type calls the callbacks registered for
  it, in registration order.\<close>

type_synonym 'cb listeners = "(string \<times> 'cb) list"

definition media_on :: "string \<Rightarrow> 'cb \<Rightarrow> 'cb listeners \<Rightarrow> 'cb listeners" where
  "media_on t cb ls = ls @ [(t, cb)]"

definition media_off :: "string \<Rightarrow> 'cb listeners \<Rightarrow> 'cb listeners" where
  "media_off t ls = filter (\<lambda>(t', _). t' \<noteq> t) ls"

definition media_notify :: "string \<Rightarrow> 'cb listeners \<Rightarrow> 'cb list" where
  "media_notify t ls = map snd (filter (\<lambda>(t', _). t' = t) ls)"

definition change_types :: "string list" where
  "change_types = [''albumChange'', ''imageChange'', ''audioChange'', ''videoChange'', ''fileChange'']"

text \<open>\<open>onDateChange\<close> registers, for each of the five change types, a listener that logs
  and calls \<open>callback\<close>; \<open>offDateChange\<close> removes the five types.\<close>

definition onDateChange :: "'cb \<Rightarrow> 'cb listeners \<Rightarrow> 'cb listeners" where
  "onDateChange callback ls =
     media_on ''fileChange'' callback (media_on ''videoChange'' callback (media_on ''audioChange'' callback
       (media_on ''imageChange'' callback (media_on ''albumChange'' callback ls))))"

definition offDateChange :: "'cb listeners \<Rightarrow> 'cb listeners" where
  "offDateChange ls =
     media_off ''fileChange'' (media_off ''videoChange'' (media_off ''audioChange''
       (media_off ''imageChange'' (media_off ''albumChange'' ls))))"


subsection \<open>Behaviour\<close>

lemma getInstance_once:
  "getInstance (snd (getInstance instance c1)) c2 = getInstance instance c1"
  by (simp add: getInstance_def Let_def split: option.split)

lemma getInstance_first:
  "fst (getInstance None ctx) = \<lparr>mu_tag = ''MediaUtils'', mu_context = ctx\<rparr>"
  by (simp add: getInstance_def MediaUtils_new_def Let_def)





lemma queryFile_absent:
  "asset_id a \<notin> asset_id ` set (lib_assets (sv_lib v)) \<Longrightarrow> queryFile (Some a) v = None"
  by (auto simp: queryFile_def getFileAssets_ID_def filter_empty_conv image_iff)

text \<open>The descriptor \<open>savePicture\<close> opens is the one \<open>getFdPath\<close> would hand out.\<close>

lemma savePicture_getFdPath:
  assumes "createAndGetUri (sv_lib v) (MediaType_code IMAGE) d1 d2 = Inr (lib, asset)"
  shows "fd (fst (snd (savePicture buf img d1 d2 (s, v)))) = fst (getFdPath asset (v\<lparr>sv_lib := lib\<rparr>))"
  using savePicture_Inr [OF assms, of buf img s] by (simp add: getFdPath_def Let_def)

lemma media_notify_on:
  "media_notify t (media_on t' cb ls) = media_notify t ls @ (if t' = t then [cb] else [])"
  by (simp add: media_notify_def media_on_def)

lemma media_notify_off:
  "media_notify t (media_off t' ls) = (if t' = t then [] else media_notify t ls)"
  by (induction ls) (auto simp: media_notify_def media_off_def)



text \<open>
  C33. After \<open>onDateChange cb\<close>, a change of each of the five types calls \<open>cb\<close> once more
  than before and other changes are unaffected, so every further \<open>onDateChange\<close> without
  \<open>offDateChange\<close> adds one more call per change; \<open>offDateChange\<close> silences the five types
  and leaves the others.
\<close>

theorem dateChange_notify:
  "media_notify t (onDateChange cb ls) = media_notify t ls @ (if t \<in> set change_types then [cb] else []) \<and>
   media_notify t (offDateChange ls) = (if t \<in> set change_types then [] else media_notify t ls)"
  by (simp add: onDateChange_def offDateChange_def media_notify_on media_notify_off change_types_def)

subsection \<open>Witnesses\<close>



end
