(* ===== verification/AppLifecycle.thy ===== *)
theory AppLifecycle
  imports IndexPage MediaFiles ReceiverQueue
begin

text \<open>
  The sample application around its pages: the \<open>Logger\<close> every module bundles
  (\<open>model/Logger.ts\<close>, compiled into each of \<open>MainAbility.js\<close>, \<open>AbilityStage.js\<close>,
  \<open>Index.js\<close> and \<open>CameraPage.js\<close>), the ability stage \<open>MyAbilityStage\<close> and the ability
  \<open>MainAbility\<close>, whose \<open>onCreate\<close> publishes \<open>globalThis.abilityContext\<close> and whose
  \<open>onWindowStageCreate\<close> loads \<open>pages/Index\<close>. The application's state holds the lifecycle
  phase, the globals, the start page once loaded, the \<open>MediaUtils\<close> singleton and the
  receivers of the \<open>CameraService\<close> objects the camera page's module builds when it is
  first loaded. The order in which the platform calls the callbacks (\<open>phase_next\<close>) is the
  stage model's lifecycle, which is not code of this repository.
\<close>

subsection \<open>\<open>Logger\<close>\<close>

datatype hilog_level = DEBUG | INFO | WARN | ERROR

text \<open>One \<open>hilog\<close> call: level, domain, tag, format, and the arguments after the format.
  \<open>Logger\<close> passes its rest parameter \<open>args\<close> as one argument (no spread).\<close>

record hilog_entry =
  hl_level :: hilog_level
  hl_domain :: int
  hl_tag :: string
  hl_format :: string
  hl_args :: "string list list"

record logger =
  lg_format :: string
  lg_prefix :: string
  lg_domain :: int

definition Logger_new :: "string \<Rightarrow> logger" where
  "Logger_new pfx = \<lparr>lg_format = ''%{public}s, %{public}s'', lg_prefix = pfx, lg_domain = 65280\<rparr>"

definition hilog :: "hilog_level \<Rightarrow> logger \<Rightarrow> string list \<Rightarrow> hilog_entry list \<Rightarrow> hilog_entry list" where
  "hilog lvl lg args log =
     log @ [\<lparr>hl_level = lvl, hl_domain = lg_domain lg, hl_tag = lg_prefix lg, hl_format = lg_format lg,
             hl_args = [args]\<rparr>]"

definition Logger_debug :: "logger \<Rightarrow> string list \<Rightarrow> hilog_entry list \<Rightarrow> hilog_entry list" where
  "Logger_debug lg args = hilog DEBUG lg args"

definition Logger_info :: "logger \<Rightarrow> string list \<Rightarrow> hilog_entry list \<Rightarrow> hilog_entry list" where
  "Logger_info lg args = hilog INFO lg args"

definition Logger_warn :: "logger \<Rightarrow> string list \<Rightarrow> hilog_entry list \<Rightarrow> hilog_entry list" where
  "Logger_warn lg args = hilog WARN lg args"

definition Logger_error :: "logger \<Rightarrow> string list \<Rightarrow> hilog_entry list \<Rightarrow> hilog_entry list" where
  "Logger_error lg args = hilog ERROR lg args"

definition Logger_default :: logger where
  "Logger_default = Logger_new ''[MultiMedia]''"

text \<open>The number of \<open>%{public}s\<close> placeholders of a format.\<close>

fun count_public :: "string \<Rightarrow> nat" where
  "count_public [] = 0"
| "count_public (c # cs) =
     (if take 10 (c # cs) = ''%{public}s'' then Suc (count_public (drop 9 cs)) else count_public cs)"

subsection \<open>Abilities\<close>

record app_globals =
  g_abilityWant :: "string option"
  g_abilityContext :: "nat option"
  g_ui :: "string option"
  g_log :: "hilog_entry list"

definition log_info :: "string list \<Rightarrow> app_globals \<Rightarrow> app_globals" where
  "log_info args g = g\<lparr>g_log := Logger_info Logger_default args (g_log g)\<rparr>"

definition MyAbilityStage_onCreate :: "app_globals \<Rightarrow> app_globals" where
  "MyAbilityStage_onCreate g = log_info [''MyAbilityStage'', ''onCreate''] g"

definition TAG_MainAbility :: string where
  "TAG_MainAbility = ''MainAbility''"

definition MainAbility_onCreate :: "string \<Rightarrow> nat \<Rightarrow> app_globals \<Rightarrow> app_globals" where
  "MainAbility_onCreate want context g =
     (let g = log_info [TAG_MainAbility, ''MainAbility onCreate''] g
      in g\<lparr>g_abilityWant := Some want, g_abilityContext := Some context\<rparr>)"

definition MainAbility_onDestroy :: "app_globals \<Rightarrow> app_globals" where
  "MainAbility_onDestroy g = log_info [TAG_MainAbility, ''MainAbility onDestroy''] g"

definition MainAbility_onWindowStageCreate :: "app_globals \<Rightarrow> app_globals" where
  "MainAbility_onWindowStageCreate g =
     (let g = log_info [TAG_MainAbility, ''MainAbility onWindowStageCreate''] g
      in g\<lparr>g_ui := Some ''pages/Index''\<rparr>)"

definition MainAbility_onWindowStageDestroy :: "app_globals \<Rightarrow> app_globals" where
  "MainAbility_onWindowStageDestroy g = log_info [TAG_MainAbility, ''MainAbility onWindowStageDestroy''] g"

definition MainAbility_onForeground :: "app_globals \<Rightarrow> app_globals" where
  "MainAbility_onForeground g = log_info [TAG_MainAbility, ''MainAbility onForeground''] g"

definition MainAbility_onBackground :: "app_globals \<Rightarrow> app_globals" where
  "MainAbility_onBackground g = log_info [TAG_MainAbility, ''MainAbility onBackground''] g"

subsection \<open>The application\<close>

datatype ability_phase =
  Launched | StageCreated | AbilityCreated | WindowCreated | InForeground | InBackground
| WindowDestroyed | Destroyed

datatype app_event =
  StageCreate | Create string nat | WindowStageCreate | ToForeground | ToBackground
| WindowStageDestroy | Destroy | PageEvent index_event

text \<open>The platform's order of callbacks: the stage, then the ability, its window, foreground
  and background alternating, the window's destruction and the ability's. Page events happen
  while the ability is in the foreground.\<close>

fun phase_next :: "ability_phase \<Rightarrow> app_event \<Rightarrow> ability_phase option" where
  "phase_next Launched StageCreate = Some StageCreated"
| "phase_next StageCreated (Create _ _) = Some AbilityCreated"
| "phase_next AbilityCreated WindowStageCreate = Some WindowCreated"
| "phase_next WindowCreated ToForeground = Some InForeground"
| "phase_next InBackground ToForeground = Some InForeground"
| "phase_next InForeground ToBackground = Some InBackground"
| "phase_next InForeground (PageEvent _) = Some InForeground"
| "phase_next InBackground WindowStageDestroy = Some WindowDestroyed"
| "phase_next WindowDestroyed Destroy = Some Destroyed"
| "phase_next _ _ = None"

record app_state =
  app_phase :: ability_phase
  app_globals :: app_globals
  app_index :: "index_page option"
  app_unhandled :: nat
  app_media :: "media_utils option"
  app_receivers :: "rcv_queue list"

definition app_init :: app_state where
  "app_init = \<lparr>app_phase = Launched,
     app_globals = \<lparr>g_abilityWant = None, g_abilityContext = None, g_ui = None, g_log = []\<rparr>,
     app_index = None, app_unhandled = 0, app_media = None, app_receivers = []\<rparr>"

text \<open>\<open>setUIContent("pages/Index")\<close> builds the start page and runs its \<open>aboutToAppear\<close>,
  which reads \<open>globalThis.abilityContext\<close>: with the context \<open>undefined\<close> the call throws a
  \<open>TypeError\<close>, the async callback rejects and nobody handles it.\<close>

definition load_Index :: "app_state \<Rightarrow> app_state" where
  "load_Index a =
     (let p = Index_new no_params in
      case g_abilityContext (app_globals a) of
        None \<Rightarrow> a\<lparr>app_index := Some p, app_unhandled := Suc (app_unhandled a)\<rparr>
      | Some _ \<Rightarrow> a\<lparr>app_index := Some (aboutToAppear p)\<rparr>)"

text \<open>The first push of \<open>pages/CameraPage\<close> loads its module, which builds two
  \<open>CameraService\<close> objects (\<open>CameraService.instance\<close> and the export \<open>default\<close>); each
  constructor takes the \<open>MediaUtils\<close> singleton and creates an image receiver with
  \<open>receiver_args\<close>. A loaded module is cached, so later pushes build nothing.\<close>

definition CameraService_new :: "app_state \<Rightarrow> app_state" where
  "CameraService_new a =
     (let (m, inst) = getInstance (app_media a) (g_abilityContext (app_globals a))
      in a\<lparr>app_media := inst,
           app_receivers := app_receivers a @ [rcv_new (nat (snd (snd (snd receiver_args)))) 0]\<rparr>)"

definition load_CameraPage_module :: "app_state \<Rightarrow> app_state" where
  "load_CameraPage_module a =
     (if app_receivers a = [] then CameraService_new (CameraService_new a) else a)"

fun app_handler :: "app_event \<Rightarrow> app_state \<Rightarrow> app_state option" where
  "app_handler StageCreate a = Some (a\<lparr>app_globals := MyAbilityStage_onCreate (app_globals a)\<rparr>)"
| "app_handler (Create want context) a =
     Some (a\<lparr>app_globals := MainAbility_onCreate want context (app_globals a)\<rparr>)"
| "app_handler WindowStageCreate a =
     Some (load_Index (a\<lparr>app_globals := MainAbility_onWindowStageCreate (app_globals a)\<rparr>))"
| "app_handler ToForeground a = Some (a\<lparr>app_globals := MainAbility_onForeground (app_globals a)\<rparr>)"
| "app_handler ToBackground a = Some (a\<lparr>app_globals := MainAbility_onBackground (app_globals a)\<rparr>)"
| "app_handler WindowStageDestroy a =
     Some (a\<lparr>app_globals := MainAbility_onWindowStageDestroy (app_globals a)\<rparr>)"
| "app_handler Destroy a = Some (a\<lparr>app_globals := MainAbility_onDestroy (app_globals a)\<rparr>)"
| "app_handler (PageEvent e) a =
     (case app_index a of
        None \<Rightarrow> None
      | Some p \<Rightarrow>
          (case index_step e p of
             None \<Rightarrow> None
           | Some p' \<Rightarrow>
               Some ((if CameraPage_url \<in> set (ix_router p') then load_CameraPage_module else id)
                       (a\<lparr>app_index := Some p'\<rparr>))))"

definition app_step :: "app_event \<Rightarrow> app_state \<Rightarrow> app_state option" where
  "app_step e a =
     (case phase_next (app_phase a) e of
        None \<Rightarrow> None
      | Some ph \<Rightarrow> map_option (\<lambda>a'. a'\<lparr>app_phase := ph\<rparr>) (app_handler e a))"

fun run_app :: "app_event list \<Rightarrow> app_state \<Rightarrow> app_state option" where
  "run_app [] a = Some a"
| "run_app (e # es) a = (case app_step e a of None \<Rightarrow> None | Some a' \<Rightarrow> run_app es a')"

inductive app_reach :: "app_state \<Rightarrow> bool" where
  init: "app_reach app_init"
| step: "app_reach a \<Longrightarrow> app_step e a = Some a' \<Longrightarrow> app_reach a'"

text \<open>What every reachable state satisfies: the context is published by \<open>onCreate\<close> before
  the start page exists, the page's states are those of \<open>index_reach\<close>, and the camera
  page's module is loaded at most once, with the singleton bound to the context.\<close>

definition app_inv :: "app_state \<Rightarrow> bool" where
  "app_inv a \<longleftrightarrow>
     app_unhandled a = 0 \<and>
     (app_phase a \<in> {Launched, StageCreated} \<longrightarrow> g_abilityContext (app_globals a) = None) \<and>
     (app_phase a \<notin> {Launched, StageCreated} \<longrightarrow> g_abilityContext (app_globals a) \<noteq> None) \<and>
     (app_phase a \<in> {Launched, StageCreated, AbilityCreated} \<longrightarrow> app_index a = None) \<and>
     (\<forall>p. app_index a = Some p \<longrightarrow> index_reach p) \<and>
     (app_index a = None \<longrightarrow> app_receivers a = []) \<and>
     (app_receivers a = [] \<and> app_media a = None \<or>
      app_receivers a = [rcv_new 8 0, rcv_new 8 0] \<and>
      app_media a = Some (MediaUtils_new (g_abilityContext (app_globals a))))"

text \<open>A launch: the stage and the ability are created, the window loads the start page,
  the ability comes to the foreground and the user opens the camera page.\<close>

definition sample_launch :: "app_event list" where
  "sample_launch = [StageCreate, Create ''want'' 1, WindowStageCreate, ToForeground,
                    PageEvent MainButton, PageEvent CameraButton]"

subsection \<open>Behaviour\<close>

lemma receiver_capacity: "nat (snd (snd (snd receiver_args))) = 8"
  by (simp add: receiver_args_def)

lemma load_CameraPage_module_first:
  "app_receivers a = [] \<Longrightarrow> app_media a = None \<Longrightarrow>
   load_CameraPage_module a =
     a\<lparr>app_media := Some (MediaUtils_new (g_abilityContext (app_globals a))),
       app_receivers := [rcv_new 8 0, rcv_new 8 0]\<rparr>"
  by (simp add: load_CameraPage_module_def CameraService_new_def getInstance_def receiver_capacity Let_def)

lemma load_CameraPage_module_cached:
  "app_receivers a \<noteq> [] \<Longrightarrow> load_CameraPage_module a = a"
  by (simp add: load_CameraPage_module_def)

lemma app_step_phase:
  "app_step e a = Some a' \<Longrightarrow>
   \<exists>ph a''. phase_next (app_phase a) e = Some ph \<and> app_handler e a = Some a'' \<and> a' = a''\<lparr>app_phase := ph\<rparr>"
  by (auto simp: app_step_def split: option.splits)

lemma app_inv_init: "app_inv app_init"
  by (simp add: app_inv_def app_init_def)

lemma app_step_inv_page:
  assumes "app_inv a" "app_phase a = InForeground" "app_handler (PageEvent ev) a = Some a'"
  shows "app_inv (a'\<lparr>app_phase := InForeground\<rparr>)"
proof -
  obtain p p' where p: "app_index a = Some p" "index_step ev p = Some p'"
    and a': "a' = (if CameraPage_url \<in> set (ix_router p') then load_CameraPage_module else id) (a\<lparr>app_index := Some p'\<rparr>)"
    using assms(3) by (auto split: option.splits)
  have "index_reach p'"
    using assms(1) p by (auto simp: app_inv_def intro: index_reach.step)
  then show ?thesis
    using assms(1,2) p a'
    by (auto simp: app_inv_def load_CameraPage_module_first load_CameraPage_module_cached)
qed

text \<open>The callbacks other than \<open>onCreate\<close> and \<open>onWindowStageCreate\<close> only log.\<close>

lemma log_only_inv_early:
  "app_inv a \<Longrightarrow> app_phase a = Launched \<Longrightarrow> g_abilityContext g = g_abilityContext (app_globals a) \<Longrightarrow>
   app_inv (a\<lparr>app_globals := g, app_phase := StageCreated\<rparr>)"
  by (auto simp: app_inv_def)

lemma log_only_inv_late:
  "app_inv a \<Longrightarrow> app_phase a \<notin> {Launched, StageCreated, AbilityCreated} \<Longrightarrow>
   ph \<notin> {Launched, StageCreated, AbilityCreated} \<Longrightarrow> g_abilityContext g = g_abilityContext (app_globals a) \<Longrightarrow>
   app_inv (a\<lparr>app_globals := g, app_phase := ph\<rparr>)"
  by (auto simp: app_inv_def)

lemma log_info_context [simp]: "g_abilityContext (log_info args g) = g_abilityContext g"
  by (simp add: log_info_def)

lemma app_step_inv_create:
  "app_inv a \<Longrightarrow> app_phase a = StageCreated \<Longrightarrow>
   app_inv (a\<lparr>app_globals := MainAbility_onCreate want context (app_globals a), app_phase := AbilityCreated\<rparr>)"
  by (auto simp: app_inv_def MainAbility_onCreate_def Let_def)

lemma app_step_inv_window:
  assumes "app_inv a" "app_phase a = AbilityCreated"
  shows "app_inv ((load_Index (a\<lparr>app_globals := MainAbility_onWindowStageCreate (app_globals a)\<rparr>))\<lparr>app_phase := WindowCreated\<rparr>)"
proof -
  obtain c where c: "g_abilityContext (app_globals a) = Some c"
    using assms by (auto simp: app_inv_def)
  have "g_abilityContext (MainAbility_onWindowStageCreate (app_globals a)) = Some c"
    using c by (simp add: MainAbility_onWindowStageCreate_def Let_def)
  moreover have "index_reach (aboutToAppear (Index_new no_params))"
    using index_reach.load by (simp add: index_load_def)
  ultimately show ?thesis
    using assms c by (auto simp: app_inv_def load_Index_def Let_def)
qed

lemma app_step_inv:
  assumes "app_inv a" "app_step e a = Some a'"
  shows "app_inv a'"
proof -
  obtain ph a'' where ph: "phase_next (app_phase a) e = Some ph" "app_handler e a = Some a''"
    "a' = a''\<lparr>app_phase := ph\<rparr>"
    using app_step_phase [OF assms(2)] by blast
  show ?thesis
  proof (cases e)
    case (PageEvent ev)
    then have "app_phase a = InForeground" "ph = InForeground"
      using ph(1) by (cases "app_phase a"; simp)+
    then show ?thesis
      using app_step_inv_page [OF assms(1)] ph PageEvent by simp
  next
    case (Create want ctx)
    then have "app_phase a = StageCreated" "ph = AbilityCreated"
      using ph(1) by (cases "app_phase a"; simp)+
    then show ?thesis
      using app_step_inv_create [OF assms(1)] ph Create by auto
  next
    case WindowStageCreate
    then have "app_phase a = AbilityCreated" "ph = WindowCreated"
      using ph(1) by (cases "app_phase a"; simp)+
    then show ?thesis
      using app_step_inv_window [OF assms(1)] ph WindowStageCreate by simp
  next
    case StageCreate
    then show ?thesis
      using assms(1) ph by (cases "app_phase a") (auto intro!: log_only_inv_early simp: MyAbilityStage_onCreate_def)
  next
    case ToForeground
    then show ?thesis
      using assms(1) ph by (cases "app_phase a") (auto intro!: log_only_inv_late simp: MainAbility_onForeground_def)
  next
    case ToBackground
    then show ?thesis
      using assms(1) ph by (cases "app_phase a") (auto intro!: log_only_inv_late simp: MainAbility_onBackground_def)
  next
    case WindowStageDestroy
    then show ?thesis
      using assms(1) ph by (cases "app_phase a") (auto intro!: log_only_inv_late simp: MainAbility_onWindowStageDestroy_def)
  next
    case Destroy
    then show ?thesis
      using assms(1) ph by (cases "app_phase a") (auto intro!: log_only_inv_late simp: MainAbility_onDestroy_def)
  qed
qed

lemma run_app_reach: "app_reach a \<Longrightarrow> run_app es a = Some a' \<Longrightarrow> app_reach a'"
proof (induction es arbitrary: a)
  case Nil
  then show ?case by simp
next
  case (Cons e es)
  then obtain a1 where "app_step e a = Some a1" "run_app es a1 = Some a'"
    by (auto split: option.splits)
  then show ?case using Cons app_reach.step by blast
qed

lemma app_reach_inv: "app_reach a \<Longrightarrow> app_inv a"
proof (induction rule: app_reach.induct)
  case init
  then show ?case by (rule app_inv_init)
next
  case (step a e a')
  from step.IH step.hyps(2) show ?case by (rule app_step_inv)
qed

text \<open>Every \<open>hilog\<close> call of the application goes through \<open>Logger.default\<close>: domain
  \<open>0xFF00\<close>, tag \<open>[MultiMedia]\<close>, a format with two \<open>%{public}s\<close> placeholders, and one
  argument, the array of the logged values.\<close>

lemma Logger_default_format:
  "lg_domain Logger_default = 65280 \<and> lg_prefix Logger_default = ''[MultiMedia]'' \<and>
   count_public (lg_format Logger_default) = 2"
  by (simp add: Logger_default_def Logger_new_def)

lemma log_info_entry:
  "g_log (log_info args g) = g_log g @
     [\<lparr>hl_level = INFO, hl_domain = 65280, hl_tag = ''[MultiMedia]'', hl_format = ''%{public}s, %{public}s'',
       hl_args = [args]\<rparr>]"
  by (simp add: log_info_def Logger_info_def hilog_def Logger_default_def Logger_new_def)

text \<open>
  C30. Under the platform's order of lifecycle callbacks, \<open>MainAbility.onCreate\<close> publishes
  \<open>globalThis.abilityContext\<close> before \<open>onWindowStageCreate\<close> loads the start page, so the
  page's \<open>aboutToAppear\<close> never throws and no rejection is left unhandled; the start page's
  states are those of \<open>index_reach\<close>; the \<open>MediaUtils\<close> singleton the camera services take
  is bound to the ability's context; and loading the camera page's module creates two image
  receivers of capacity 8, one for \<open>CameraService.instance\<close>, which the pages never use, and
  one for the exported service.
\<close>

theorem app_reach_context:
  assumes "app_reach a"
  shows "app_unhandled a = 0 \<and>
         (\<forall>p. app_index a = Some p \<longrightarrow> index_reach p \<and> g_abilityContext (app_globals a) \<noteq> None) \<and>
         (\<forall>m. app_media a = Some m \<longrightarrow> m = MediaUtils_new (g_abilityContext (app_globals a)) \<and> mu_context m \<noteq> None) \<and>
         (app_receivers a = [] \<or> app_receivers a = [rcv_new 8 0, rcv_new 8 0])"
proof -
  have inv: "app_inv a" using assms by (rule app_reach_inv)
  have ctx: "app_index a \<noteq> None \<Longrightarrow> g_abilityContext (app_globals a) \<noteq> None"
    using inv by (cases "app_phase a") (auto simp: app_inv_def)
  have "app_media a \<noteq> None \<Longrightarrow> app_index a \<noteq> None"
    using inv by (auto simp: app_inv_def)
  then show ?thesis
    using inv ctx by (auto simp: app_inv_def MediaUtils_new_def)
qed

subsection \<open>Witnesses\<close>

theorem app_reach_context_witness:
  "app_media (the (run_app sample_launch app_init)) = Some (MediaUtils_new (Some 1)) \<and>
   app_unhandled (the (run_app sample_launch app_init)) = 0"
proof -
  have r: "run_app sample_launch app_init = Some (the (run_app sample_launch app_init))"
    and g: "g_abilityContext (app_globals (the (run_app sample_launch app_init))) = Some 1"
    and m: "app_media (the (run_app sample_launch app_init)) \<noteq> None"
    by (simp_all add: sample_launch_def app_init_def app_step_def load_Index_def log_info_def
          MyAbilityStage_onCreate_def MainAbility_onCreate_def MainAbility_onWindowStageCreate_def
          MainAbility_onForeground_def mainButton_click_def cameraButton_click_def Index_new_def
          no_params_def updateWithValueParams_def aboutToAppear_def load_CameraPage_module_def
          CameraService_new_def getInstance_def Let_def)
  have "app_reach (the (run_app sample_launch app_init))"
    by (rule run_app_reach [OF app_reach.init r])
  from app_reach_context [OF this] g m show ?thesis by auto
qed

end
