(* ===== verification/Spec2Isabelle.thy ===== *)
theory Spec2Isabelle
  imports Backup BackupNames ImageTypes SampleMedia CameraPage CameraSave ReceiverQueue IndexPage
    MediaFiles AppLifecycle
begin

text \<open>
  \<^bold>\<open>A verification library for the image framework repository.\<close>

  \<^bold>\<open>The program.\<close> The repository holds three kinds of code:
  \<^item> the media backup extension
    \<open>src/frameworks/innerkitsimpl/medialibrary_data_extension/MediaLibraryExt/entry/src/main/ets/MediaBackupExtensionAbility/MediaBackupExtensionAbility.ts\<close>,
    whose \<open>onRestore\<close> asks the native restore service to restore (\<open>startRestore\<close>),
    moves the restored files into the documents directory with one bulk \<open>fs.moveDir\<close>,
    and, when the bulk move reports files that already exist (code 13900015 with a
    conflict list), moves each conflicting file under a fresh name \<open>name(k).ext\<close>
    found by probing the destination directory with \<open>fs.accessSync\<close>;
  \<^item> the type declarations of the image API,
    \<open>src/interfaces/kits/js/@ohos.multimedia.image.d.ts\<close> (enums, option records,
    and interfaces of native objects);
  \<^item> a compiled sample application under \<open>src/test/\<close> (camera page, camera service,
    media helpers, album list), which uses the image API's \<open>createImageReceiver\<close>.

  \<^bold>\<open>Theories.\<close>
  \<^item> \<open>Prelude\<close>: the JavaScript built-ins the code relies on for strings
    (\<open>split\<close>, \<open>join\<close>, \<open>pop\<close>, decimal rendering in template literals) with the
    facts the components share (split and join are inverse, the last piece of a split is
    the text after the last separator, decimal rendering is injective and uses only
    digits).
  \<^item> \<open>Backup\<close>: the restore path of \<open>MediaBackupExtAbility\<close>. The platform is a
    record \<open>world\<close>: the set of existing paths, the answers of \<open>accessSync\<close>,
    \<open>moveFile\<close>, \<open>moveDir\<close> and \<open>startRestore\<close> (parameters of the world that no
    operation changes), the trace of every platform call and the \<open>console.error\<close>
    trail. Each method is a function of the world: \<open>isFileExist\<close>, the name
    computations of \<open>moveConflictFile\<close> (\<open>srcFileName_of\<close>, \<open>dirPath_of\<close>,
    \<open>split_ext\<close>, \<open>next_name\<close>), its \<open>while\<close> loop \<open>probe_loop\<close>, the final
    guarded move \<open>move_logged\<close>, \<open>moveConflictFile\<close>, the conflict loop
    \<open>move_conflicts\<close>, \<open>moveRestFiles\<close>, \<open>restore_mode\<close> and \<open>onRestore\<close>.
    Exceptions that escape \<open>onRestore\<close> are values \<open>Inl\<close> of \<open>js_error\<close>.
  \<^item> \<open>BackupNames\<close>: the reference split of a file name at \<open>lastIndexOf('.')\<close>
    (\<open>split_ext_ref\<close>) and the bound on the probing loop. It also models
    \<open>onBackup\<close>, which fulfils at once and only writes one \<open>console.log\<close> line.
  \<^item> \<open>ImageTypes\<close>: the data declarations of the image API. Each enum is a datatype with
    the source's member names (shared names are qualified, \<open>AlphaType.UNKNOWN\<close>), its
    values (\<open>*_code\<close>, \<open>PropertyKey_value\<close>) and, for numeric enums, the reverse
    mapping \<open>E[n]\<close> of the compiled enum object (\<open>*_of\<close>, from \<open>ts_enum_reverse\<close> in
    the prelude); each option interface is a record with one field per member, an optional
    member as an \<open>option\<close>. The rules the documentation states on these values are
    functions: the pixel size and components of each \<open>PixelMapFormat\<close>
    (\<open>pixel_bits\<close>, \<open>pixel_components\<close>), the packing buffer default
    (\<open>packing_bufferSize\<close>), the quality and rotation ranges, the original size meant by
    a desired size (0, 0) (\<open>decoding_size\<close>) and the formats an image receiver or creator
    accepts (\<open>image_format_ok\<close>). These are the values the sample's code uses; the
    theory holds no claim of its own, since a property of constant tables says nothing of
    the program. The sample creates its receiver with format 4 (\<open>receiver_args\<close>), the
    value of \<open>ComponentType.JPEG\<close>, where the declaration asks for an \<open>ImageFormat\<close>.

  \<^item> \<open>SampleMedia\<close>: the sample's \<open>DateTimeUtil\<close> (\<open>fill\<close>, \<open>concatDate\<close>,
    \<open>concatTime\<close>, \<open>getDate\<close>, \<open>getTime\<close>, each taking the clock reading it makes) and
    \<open>MediaUtils\<close> (\<open>getInfoFromType\<close>, \<open>createAndGetUri\<close>, \<open>getFileAssetsFromType\<close>,
    \<open>getAlbums\<close>) over a store of assets that models the media library.
  \<^item> \<open>CameraService\<close>: the sample's camera service as a record \<open>cam_svc\<close> of its fields over a
    camera framework \<open>cam_env\<close> (object handles, released objects, call trace); its methods
    \<open>initCamera\<close>, \<open>takePicture\<close>, \<open>releaseCamera\<close> return a settled promise: the
    rejection, if any, and the state reached.
  \<^item> \<open>CameraPage\<close>: the page's events (surface load, shutter click, disappearance) interleaved
    with the await-by-await steps of the un-awaited \<open>initCamera\<close> (\<open>init_start\<close>,
    \<open>init_resume\<close>), a step function \<open>page_step\<close>, the reachable states \<open>reach\<close> as an
    inductive predicate, and unhandled rejections collected in the state. The lemma
    \<open>run_init_refines\<close> checks that the steps, run without other events, give the
    sequential \<open>initCamera\<close>.
  \<^item> \<open>CameraSave\<close>: \<open>savePicture\<close> and the \<open>imageArrival\<close> handler, composing the
    service state with the media library of \<open>SampleMedia\<close> and the \<open>Component\<close> record of
    \<open>ImageTypes\<close> over a store of files and released receiver images.
  \<^item> \<open>ReceiverQueue\<close>: the image receiver the camera service reads from, as its
    declarations in the image API document it (\<open>capacity\<close> images accessed at once,
    \<open>readNextImage\<close>, \<open>readLatestImage\<close>, \<open>Image.release\<close>), a record \<open>rcv_queue\<close> of
    the waiting and the held images; \<open>camera_frame\<close> composes one arrival with the
    \<open>imageArrival\<close> handler of \<open>CameraSave\<close>. A lemma shows that the receiver never holds
    more than its capacity, whatever the handler does.
  \<^item> \<open>IndexPage\<close>: the start page \<open>Index\<close> and its album list \<open>MediaView\<close>
    (\<open>pages/Index.js\<close>): a record of the page's observed properties and of the
    permission requests, router pushes and alerts it issues; \<open>index_step\<close> runs the
    handler of one event (\<open>onPageShow\<close>, the two \<open>OperateBtn\<close> clicks, a list item
    click) and \<open>index_reach\<close> collects the states reached from \<open>loadDocument\<close>.
  \<^item> \<open>MediaFiles\<close>: the rest of \<open>MediaUtils\<close> over the store of \<open>CameraSave\<close>: the
    singleton \<open>getInstance\<close>, \<open>queryFile\<close> (selection by the \<open>ID\<close> column),
    \<open>getFdPath\<close>, \<open>createFile\<close>, \<open>deleteFile\<close>, and \<open>onDateChange\<close> and
    \<open>offDateChange\<close> over a list of listener registrations; \<open>lib_wf\<close> says the library's
    asset ids are distinct and below its next id, which creating an asset preserves.
  \<^item> \<open>AppLifecycle\<close>: the bundled \<open>Logger\<close> (\<open>hilog\<close> entries), \<open>MyAbilityStage\<close>
    and \<open>MainAbility\<close> (\<open>MainAbility.js\<close>, \<open>AbilityStage.js\<close>), composed with the start
    page (loaded by \<open>onWindowStageCreate\<close>), the \<open>MediaUtils\<close> singleton and the two
    \<open>CameraService\<close> objects the camera page's module builds; \<open>app_step\<close> runs a
    callback in the platform's lifecycle order (\<open>phase_next\<close>, the stage model's order,
    modelled from its documentation) and \<open>app_reach\<close> collects the reachable states.

  \<^bold>\<open>What is proved about the restore\<close> (C1 to C11 in \<open>Backup\<close>, C22 and C23 in
  \<open>BackupNames\<close>):
  \<^item> the probing loop ends on a finite directory, and \<open>moveConflictFile\<close> makes exactly
    one \<open>accessSync\<close> per tried name and one \<open>moveFile\<close> to the first name reported
    free (C1); with \<open>f, f(1), ..., f(k)\<close> taken the file goes to \<open>f(k+1)\<close> (C4); a
    free original destination is kept (C8); alternates of extension-less names have no
    trailing dot (C9); the code's split of a name equals the cut at \<open>lastIndexOf('.')\<close>
    (C22); the probe index never exceeds the number of files (C23), which is why the
    JavaScript counter can be a \<open>nat\<close>;
  \<^item> the conflict loop handles every entry in order (C2) and, when existence checks
    succeed, never overwrites a file, keeping the number of files (C3); in every world
    where \<open>accessSync\<close> throws on an existing destination, the file at that destination
    is replaced (C10);
  \<^item> \<open>onRestore\<close> chooses the restore type and source directory from the bundle version
    and calls the platform in the order the code does (C6), settles whenever the
    directory is finite (C7), and rejects only on a rejected \<open>startRestore\<close> or a
    conflict error without a conflict list (C5); other bulk-move errors are only logged
    (C11).

  \<^bold>\<open>What is proved about the sample\<close> (C12 to C33):
  \<^item> media names: display names are unique per second (C12), so a second photo in the same
    second is rejected by the library (C13); album counts add up (C14);
  \<^item> camera service and page: \<open>initCamera\<close> builds and starts the session in order (C15);
    \<open>releaseCamera\<close> releases the input twice, leaking the session when the framework
    refuses (C16); reachable page states keep photo mode and the order of the fields (C17),
    so \<open>releaseCamera\<close> fails only before a session exists or on a refused second release
    (C18); in every reachable state before the photo output is assigned, a click throws
    (C19); after the whole initialisation a click does not (C20); a disappearance during
    initialisation makes \<open>initCamera\<close> reject (C21);
  \<^item> saving: a successful save writes, closes, releases and reports (C24); a second save in
    the same second is rejected before its image is released (C25); the handler releases an
    image exactly when the component was read and the save succeeded (C26); so as many
    failed \<open>getComponent\<close> reads as the capacity (8 in the sample) block the receiver for
    good (C27);
  \<^item> start page: the album list stays empty, because \<open>onPageShow\<close>'s loading is commented
    out, so the page only ever opens the camera page (C28); on the albums of
    \<open>getAlbums\<close> a list click opens the album page of that media type exactly when the
    library has such an asset (C29);
  \<^item> application: under the lifecycle order the context is published before the start page
    needs it, so no rejection is left unhandled, the singleton is bound to it, and the camera
    module creates two receivers (C30);
  \<^item> media files: \<open>createFile\<close> rejects exactly when \<open>createAndGetUri\<close> does and
    otherwise returns a fresh descriptor that stays open (C31); \<open>deleteFile\<close> removes
    exactly the asset when URIs identify assets (C32); each \<open>onDateChange\<close> adds one more
    callback per change, and \<open>offDateChange\<close> removes them (C33).

  \<^bold>\<open>Loops and termination.\<close> The probing loop is unbounded in the code, so it is a
  \<^theory_text>\<open>partial_function (option)\<close>; \<open>None\<close> is a loop that never ends. Its termination
  is proved, not assumed: the tried names are pairwise distinct, so only finitely many of
  them can exist in a finite directory, and the first one that does not is reached.
  JavaScript's \<open>count\<close> is a double; it is modelled as \<open>nat\<close> because it could only
  stop growing after \<open>2^53\<close> probes.

  \<^bold>\<open>Fuel.\<close> The receiver's frames, the start page's events and the application's
  callbacks are finite lists (\<open>run_frames\<close>, \<open>run_index\<close>, \<open>run_app\<close>), so they need no
  fuel. \<open>run_init\<close> runs the \<open>initCamera\<close> task with fuel; thirteen resumptions are
  enough, as the lemma \<open>run_init_refines\<close> shows by computing the whole run.

  \<^bold>\<open>Numbers.\<close> A JavaScript \<open>number\<close> the image API uses as a size, count,
  angle or enum value is an \<open>int\<close>: the declarations and their documentation only speak of
  integral values, and no claim depends on fractional ones.

  \<^bold>\<open>Not modelled (yet).\<close> The file system and restore service themselves (they are the
  environment); the behaviour of the native objects behind
  the image API's interfaces (\<open>PixelMap\<close>, \<open>ImageSource\<close>, \<open>ImagePacker\<close>,
  \<open>Image\<close>, \<open>ImageReceiver\<close>, \<open>ImageCreator\<close>) and its factory functions, which the
  declarations only document, except the image receiver's queue, which \<open>ReceiverQueue\<close>
  models from them (\<open>readLatestImage\<close> is modelled, the sample only calls
  \<open>readNextImage\<close>); the file system behind \<open>fileio\<close> (opening, writing and closing
  succeed); the media library's own behaviour beyond selecting, creating, opening and
  deleting assets and registering listeners; the pages' render trees beyond the handlers they
  install (layout and styling have no state); the \<open>AlbumPage\<close> the router opens, which
  is not among the compiled pages; what \<open>hilog\<close> prints from an entry (the
  model keeps the call's arguments); the \<open>want\<close> and \<open>launchParam\<close> objects, which
  the code only stores; and the webpack bootstrap, which is generated. Within the page model,
  \<open>releaseCamera\<close> is one step and one
  \<open>initCamera\<close> task runs at a time.
\<close>

end
